theory Spec2Isabelle
  imports Complex_Main
begin

section \<open>Hydrate equation of state (h\_vdwpm\_eos.py): data model\<close>

text \<open>
  The module computes with Python and numpy floats. Where rounding does not decide what
  the code does they are modelled as real numbers. Three places are modelled more closely:
  numpy's division by a zero (which yields \<open>inf\<close> or \<open>nan\<close> with a warning and does not
  raise) in the type \<open>npfloat\<close> below, used for the convergence measure of the two
  fixed-point loops; the division of Python floats in \<open>C_const\<close>, which raises
  ZeroDivisionError; and the occupancies of \<open>calc_langmuir\<close>, whose bounds depend on the
  rounding of float64 (\<open>calc_langmuir_f64\<close>).
  \<open>np.exp\<close>, \<open>np.log\<close> and \<open>np.pi\<close> are \<open>exp\<close>, \<open>ln\<close> and \<open>pi\<close>; \<open>scipy.integrate.quad\<close>
  is a parameter of the model (\<open>quad_fn\<close>).
\<close>

subsection \<open>Module constants\<close>

definition R_gas :: real where
  \<comment> \<open>\<open>R\<close>, universal gas constant in J/mol-K\<close>
  "R_gas = 8.3144621"

definition T_0 :: real where
  "T_0 = 298.15"

definition P_0 :: real where
  "P_0 = 1.0"

definition k_Boltzmann :: real where
  \<comment> \<open>\<open>k = 1.3806488e-23\<close>\<close>
  "k_Boltzmann = 1.3806488 / 10 ^ 23"

definition TOL :: real where
  \<comment> \<open>the local \<open>TOL = 1e-3\<close> of both fixed-point loops\<close>
  "TOL = 1 / 10 ^ 3"

subsection \<open>Python values and exceptions\<close>

datatype pyerr =
    RuntimeError string
  | IndexError
  | AttributeError string
  | NameError string
  | ValueError string
  | KeyError
  | TypeError string
  | ZeroDivisionError

text \<open>
  The attributes whose Python type decides whether a method call on them succeeds:
  \<open>self.fug\<close> is the int \<open>0\<close> until the first fugacity computation stores an array, and a
  compressibility is a Python float (taken from the structure table) or a numpy scalar
  (the result of \<open>3.0*np.sum(...)\<close>). Only numpy objects have a \<open>copy\<close> method.
\<close>

datatype pyobj =
    PyInt int
  | PyFloat real
  | NpFloat real
  | NdArray "real list"

fun py_copy :: "pyobj \<Rightarrow> pyerr + pyobj" where
  "py_copy (PyInt i) = Inl (AttributeError ''copy'')"
| "py_copy (PyFloat x) = Inl (AttributeError ''copy'')"
| "py_copy (NpFloat x) = Inr (NpFloat x)"
| "py_copy (NdArray xs) = Inr (NdArray xs)"

fun scalar :: "pyobj \<Rightarrow> real" where
  "scalar (PyInt i) = of_int i"
| "scalar (PyFloat x) = x"
| "scalar (NpFloat x) = x"
| "scalar (NdArray xs) = sum_list xs"

text \<open>
  A numpy float with the special values of IEEE arithmetic. \<open>np_div\<close> is the division of
  two finite numpy floats: by zero it gives \<open>nan\<close> for \<open>0/0\<close> and an infinity otherwise
  (the sign of a zero is not modelled: a zero divisor counts as \<open>+0.0\<close>).
\<close>

datatype npfloat = Fin real | PInf | NInf | NaN

definition np_div :: "real \<Rightarrow> real \<Rightarrow> npfloat" where
  "np_div n d =
     (if d \<noteq> 0 then Fin (n / d)
      else if n = 0 then NaN
      else if 0 < n then PInf else NInf)"

fun np_add :: "npfloat \<Rightarrow> npfloat \<Rightarrow> npfloat" where
  "np_add (Fin x) (Fin y) = Fin (x + y)"
| "np_add NaN _ = NaN"
| "np_add _ NaN = NaN"
| "np_add PInf NInf = NaN"
| "np_add NInf PInf = NaN"
| "np_add PInf _ = PInf"
| "np_add _ PInf = PInf"
| "np_add NInf _ = NInf"
| "np_add _ NInf = NInf"

fun np_gt :: "npfloat \<Rightarrow> real \<Rightarrow> bool" where
  "np_gt (Fin x) t = (t < x)"
| "np_gt PInf t = True"
| "np_gt NInf t = False"
| "np_gt NaN t = False"

fun is_finite :: "npfloat \<Rightarrow> bool" where
  "is_finite (Fin x) = True"
| "is_finite PInf = False"
| "is_finite NInf = False"
| "is_finite NaN = False"

text \<open>
  The arithmetic of a float64. \<open>f64_round\<close> rounds a real number to the nearest binary64
  number, ties to even: 53 significant bits in the binade of the number (\<open>f64_ulp\<close> is the
  spacing of the binary64 numbers there, \<open>2 powr (e - 52)\<close> with \<open>e\<close> the exponent, which is
  at least -1022: below that the numbers are the subnormal ones), and an infinity when the
  rounded magnitude reaches \<open>2 ^ 1024\<close>. \<open>f64_add\<close> and \<open>f64_div\<close> are \<open>+\<close> and \<open>/\<close> on numpy
  floats: no exception is raised, and the sign of a zero is not modelled.
\<close>

definition rne :: "real \<Rightarrow> int" where
  \<comment> \<open>the nearest integer, the even one of two equally near\<close>
  "rne y = (let f = \<lfloor>y\<rfloor>; d = y - of_int f
            in if d < 1 / 2 then f else if 1 / 2 < d then f + 1
               else if even f then f else f + 1)"

definition f64_exponent :: "real \<Rightarrow> int" where
  "f64_exponent x = max \<lfloor>log 2 x\<rfloor> (- 1022)"

definition f64_ulp :: "real \<Rightarrow> real" where
  "f64_ulp x = 2 powr (of_int (f64_exponent x) - 52)"

definition f64_nearest :: "real \<Rightarrow> real" where
  "f64_nearest x =
     (if x = 0 then 0 else sgn x * (of_int (rne (\<bar>x\<bar> / f64_ulp \<bar>x\<bar>)) * f64_ulp \<bar>x\<bar>))"

definition f64_round :: "real \<Rightarrow> npfloat" where
  "f64_round x =
     (let r = f64_nearest x
      in if 2 ^ 1024 \<le> r then PInf else if r \<le> - (2 ^ 1024) then NInf else Fin r)"

fun f64_add :: "npfloat \<Rightarrow> npfloat \<Rightarrow> npfloat" where
  "f64_add (Fin x) (Fin y) = f64_round (x + y)"
| "f64_add NaN _ = NaN"
| "f64_add _ NaN = NaN"
| "f64_add PInf NInf = NaN"
| "f64_add NInf PInf = NaN"
| "f64_add PInf _ = PInf"
| "f64_add _ PInf = PInf"
| "f64_add NInf _ = NInf"
| "f64_add _ NInf = NInf"

fun f64_div :: "npfloat \<Rightarrow> npfloat \<Rightarrow> npfloat" where
  "f64_div (Fin x) (Fin y) =
     (if y \<noteq> 0 then f64_round (x / y)
      else if x = 0 then NaN
      else if 0 < x then PInf else NInf)"
| "f64_div NaN _ = NaN"
| "f64_div _ NaN = NaN"
| "f64_div (Fin x) _ = Fin 0"
| "f64_div PInf (Fin y) = (if 0 \<le> y then PInf else NInf)"
| "f64_div NInf (Fin y) = (if 0 \<le> y then NInf else PInf)"
| "f64_div _ _ = NaN"

definition bind_err :: "'e + 'a \<Rightarrow> ('a \<Rightarrow> 'e + 'b) \<Rightarrow> 'e + 'b" where
  "bind_err r f = (case r of Inl e \<Rightarrow> Inl e | Inr v \<Rightarrow> f v)"

definition zeros :: "nat \<Rightarrow> real list" where
  \<comment> \<open>\<open>np.zeros(n)\<close>\<close>
  "zeros n = replicate n 0"

definition py_min :: "real list \<Rightarrow> pyerr + real" where
  \<comment> \<open>the builtin \<open>min\<close> on a sequence\<close>
  "py_min xs = (case xs of [] \<Rightarrow> Inl (ValueError ''min'') | x # rest \<Rightarrow> Inr (foldl min x rest))"

definition np_sum_prod :: "real list \<Rightarrow> real list \<Rightarrow> real" where
  \<comment> \<open>\<open>np.sum(a*b)\<close> for two arrays of one length\<close>
  "np_sum_prod a b = sum_list (map2 (*) a b)"

subsection \<open>Component records\<close>

text \<open>
  Modelled from the spec: the \<open>Component\<close> class of \<open>component_properties.py\<close>, which is
  not among the sources. The record holds the attributes that this module reads:
  \<open>compname\<close>, \<open>diam\<close>, \<open>stdst_fug\<close>, the Kihara parameters \<open>HvdWPM['kih']['a'|'epsk'|'sig']\<close>,
  the per-structure entries \<open>HvdWPM[hydstruc]['kappa']\<close> and
  \<open>HvdWPM[hydstruc]['rep']['small'|'large']\<close>, and the method \<open>gibbs_ideal(T, P)\<close>.
\<close>

record Component =
  compname :: string
  diam :: real
  stdst_fug :: real
  kih_a :: real
  kih_epsk :: real
  kih_sig :: real
  hv_kappa :: "string \<Rightarrow> real"
  hv_rep_small :: "string \<Rightarrow> real"
  hv_rep_large :: "string \<Rightarrow> real"
  gibbs_ideal :: "real \<Rightarrow> real \<Rightarrow> real"

subsection \<open>class HydrateStructure\<close>

text \<open>
  The attributes of a \<open>HydrateStructure\<close> after \<open>HydrateEos.__init__\<close> has copied the entries
  of \<open>eos['hvdwpm']\<close> onto it. The table of \<open>sH\<close> has no \<open>a_norm\<close>, \<open>R\<close> and \<open>z\<close> entries, so
  these attributes are optional. \<open>R['sm']\<close> is the dictionary \<open>{1: .., 2: ..}\<close>, read as
  \<open>R['sm'][ii + 1]\<close>: the list of its values in key order.
\<close>

record HydrateStructure =
  Hs_hydstruc :: string
  Hs_v0 :: real
  Hs_kappa :: real
  Hs_a0_ast :: real
  Hs_gw_0beta :: real
  Hs_hw_0beta :: real
  Hs_a_fit :: real
  Hs_b_fit :: real
  Hs_alf1 :: real
  Hs_alf2 :: real
  Hs_alf3 :: real
  Hs_a_norm :: "real option"
  Hs_R_sm :: "real list option"
  Hs_R_lg :: "real list option"
  Hs_z_sm :: "real list option"
  Hs_z_lg :: "real list option"
  Hs_Nm_small :: real
  Hs_Nm_large :: real
  Hs_etam_small :: real
  Hs_etam_large :: real
  Hs_Num_h2o :: real

datatype pyconst = PyStr string | PyNum int

definition menu_s1 :: "pyconst list" where
  "menu_s1 = [PyStr ''s1'', PyStr ''1'', PyNum 1, PyStr ''si'', PyStr ''i'', PyStr ''one'']"

definition menu_s2 :: "pyconst list" where
  "menu_s2 = [PyStr ''s2'', PyStr ''2'', PyNum 2, PyStr ''sii'', PyStr ''ii'', PyStr ''two'']"

definition menu_sh :: "pyconst list" where
  "menu_sh = [PyStr ''sh'', PyStr ''h'']"

definition lower_char :: "char \<Rightarrow> char" where
  "lower_char c =
     (case map_of (zip ''ABCDEFGHIJKLMNOPQRSTUVWXYZ'' ''abcdefghijklmnopqrstuvwxyz'') c of
        Some l \<Rightarrow> l
      | None \<Rightarrow> c)"

definition lower :: "string \<Rightarrow> string" where
  \<comment> \<open>\<open>str.lower\<close> on ASCII text\<close>
  "lower s = map lower_char s"

definition table_s1 :: HydrateStructure where
  "table_s1 = \<lparr>
     Hs_hydstruc = ''s1'', Hs_v0 = 22.7712, Hs_kappa = 3 / 10 ^ 5, Hs_a0_ast = 11.99245,
     Hs_gw_0beta = - 235537.85, Hs_hw_0beta = - 291758.77,
     Hs_a_fit = 25.74, Hs_b_fit = - 481.32,
     Hs_alf1 = 3.38496 / 10 ^ 4, Hs_alf2 = 5.40099 / 10 ^ 7, Hs_alf3 = - 4.76946 / 10 ^ 11,
     Hs_a_norm = Some 12.03,
     Hs_R_sm = Some [3.83, 3.96], Hs_R_lg = Some [4.47, 4.06, 4.645, 4.25],
     Hs_z_sm = Some [8, 12], Hs_z_lg = Some [8, 8, 4, 4],
     Hs_Nm_small = 2, Hs_Nm_large = 6, Hs_etam_small = 20, Hs_etam_large = 24,
     Hs_Num_h2o = 46 \<rparr>"

definition table_s2 :: HydrateStructure where
  "table_s2 = \<lparr>
     Hs_hydstruc = ''s2'', Hs_v0 = 22.9456, Hs_kappa = 3 / 10 ^ 6, Hs_a0_ast = 17.1,
     Hs_gw_0beta = - 235627.53, Hs_hw_0beta = - 292044.10,
     Hs_a_fit = 260, Hs_b_fit = - 68.64,
     Hs_alf1 = 2.029776 / 10 ^ 4, Hs_alf2 = 1.851168 / 10 ^ 7, Hs_alf3 = - 1.879455 / 10 ^ 10,
     Hs_a_norm = Some 17.1,
     Hs_R_sm = Some [3.748, 3.845, 3.956], Hs_R_lg = Some [4.729, 4.715, 4.635],
     Hs_z_sm = Some [2, 6, 12], Hs_z_lg = Some [4, 12, 12],
     Hs_Nm_small = 16, Hs_Nm_large = 8, Hs_etam_small = 20, Hs_etam_large = 28,
     Hs_Num_h2o = 136 \<rparr>"

definition table_sH :: HydrateStructure where
  "table_sH = \<lparr>
     Hs_hydstruc = ''sH'', Hs_v0 = 24.2126, Hs_kappa = 3 / 10 ^ 7, Hs_a0_ast = 11.09826,
     Hs_gw_0beta = - 2355491.02, Hs_hw_0beta = - 291979.26,
     Hs_a_fit = 0, Hs_b_fit = 0,
     Hs_alf1 = 3.575490 / 10 ^ 4, Hs_alf2 = 6.294390 / 10 ^ 7, Hs_alf3 = 0,
     Hs_a_norm = None,
     Hs_R_sm = None, Hs_R_lg = None, Hs_z_sm = None, Hs_z_lg = None,
     Hs_Nm_small = 3, Hs_Nm_large = 1, Hs_etam_small = 20, Hs_etam_large = 36,
     Hs_Num_h2o = 46 \<rparr>"

definition HydrateStructure_init :: "string \<Rightarrow> pyerr + HydrateStructure" where
  \<comment> \<open>\<open>HydrateStructure.__init__(hyd_type)\<close> for a string \<open>hyd_type\<close>, followed by the copy
      of \<open>eos['hvdwpm']\<close> onto the object\<close>
  "HydrateStructure_init hyd_type =
     (if PyStr (lower hyd_type) \<in> set menu_s1 then Inr table_s1
      else if PyStr (lower hyd_type) \<in> set menu_s2 then Inr table_s2
      else if PyStr (lower hyd_type) \<in> set menu_sh then Inr table_sH
      else Inl (RuntimeError (hyd_type @ '' is not a supported hydrate structure!!'')))"

subsection \<open>Instances of HydrateEos / HvdwpmEos\<close>

text \<open>
  The attributes of an \<open>HvdwpmEos\<close> instance that its methods read or write;
  \<open>self.name\<close> is the field \<open>self_name\<close>. \<open>self.C_small\<close> and \<open>self.C_large\<close> do not exist
  until the first operating-state solve has stored them (the code tests
  \<open>'C_small' in self.__dir__()\<close>). The attributes that \<open>find_stdstate_volume\<close> creates
  (\<open>kappa_tmp\<close>, \<open>a_0\<close>, \<open>v_H_0\<close>) and \<open>v_H\<close> hold a placeholder until then; no method
  that the constructor runs reads them before they are assigned.
\<close>

record Eos =
  self_water_ind :: nat
  self_comps :: "Component list"
  self_num_comps :: nat
  self_T :: real
  self_P :: real
  self_gw0_RT :: real
  self_Hs :: HydrateStructure
  self_Y_small :: "real list"
  self_Y_large :: "real list"
  self_fug :: pyobj
  self_R_sm :: "real list"
  self_z_sm :: "real list"
  self_R_lg :: "real list"
  self_z_lg :: "real list"
  self_kappa0 :: real
  self_a0_cubed :: real
  self_kappa_vec :: "real list"
  self_rep_sm_vec :: "real list"
  self_rep_lg_vec :: "real list"
  self_D_vec :: "real list"
  self_Y_small_0 :: "real list"
  self_Y_large_0 :: "real list"
  self_eq_fug :: "real list"
  self_stdstate_fug :: "real list"
  self_gwbeta_RT :: real
  self_vol_Tfactor :: real
  self_lattice_Tfactor :: real
  self_repulsive_small :: "real list"
  self_repulsive_large :: "real list"
  self_kappa_tmp :: pyobj
  self_a_0 :: real
  self_v_H_0 :: real
  self_v_H :: real
  self_C_small :: "real list option"
  self_C_large :: "real list option"

type_synonym quad_fn = "(real \<Rightarrow> real) \<Rightarrow> real \<Rightarrow> real \<Rightarrow> real \<times> real"
  \<comment> \<open>\<open>scipy.integrate.quad(func, a, b)\<close>: the pair of the integral and an error estimate\<close>

datatype dim = Volumetric | Linear

section \<open>class HydrateEos\<close>

definition find_water :: "Component list \<Rightarrow> pyerr + nat" where
  \<comment> \<open>\<open>[ii for ii, x in enumerate(comps) if x.compname == 'h2o'][0]\<close> inside
      \<open>try: ... except ValueError: raise RuntimeError(...)\<close>: indexing the empty list
      raises IndexError, which the handler does not catch\<close>
  "find_water comps =
     (case filter (\<lambda>ii. compname (comps ! ii) = ''h2o'') [0..<length comps] of
        [] \<Rightarrow> Inl IndexError
      | ii # rest \<Rightarrow> Inr ii)"

definition shell_table :: "string \<Rightarrow> real list option \<Rightarrow> pyerr + real list" where
  \<comment> \<open>reading the attribute \<open>self.Hs.R\<close> or \<open>self.Hs.z\<close>\<close>
  "shell_table name tab = (case tab of None \<Rightarrow> Inl (AttributeError name) | Some t \<Rightarrow> Inr t)"

definition copy_z :: "real list \<Rightarrow> real list \<Rightarrow> pyerr + real list" where
  \<comment> \<open>\<open>for ii in range(len(self.z_sm)): self.z_sm[ii] = self.Hs.z['sm'][ii + 1]\<close>, where
      \<open>self.z_sm\<close> has the length of \<open>self.Hs.R['sm']\<close>\<close>
  "copy_z R_tab z_tab =
     (if length z_tab < length R_tab then Inl KeyError
      else Inr (map (\<lambda>ii. z_tab ! ii) [0..<length R_tab]))"

definition HydrateEos_init :: "Component list \<Rightarrow> real \<Rightarrow> real \<Rightarrow> string \<Rightarrow> pyerr + Eos" where
  "HydrateEos_init comps T P structure =
     bind_err (find_water comps) (\<lambda>water_ind.
     bind_err (HydrateStructure_init structure) (\<lambda>Hs.
     bind_err (shell_table ''R'' (Hs_R_sm Hs)) (\<lambda>R_sm_tab.
     bind_err (shell_table ''z'' (Hs_z_sm Hs)) (\<lambda>z_sm_tab.
     bind_err (copy_z R_sm_tab z_sm_tab) (\<lambda>z_sm.
     bind_err (shell_table ''R'' (Hs_R_lg Hs)) (\<lambda>R_lg_tab.
     bind_err (shell_table ''z'' (Hs_z_lg Hs)) (\<lambda>z_lg_tab.
     bind_err (copy_z R_lg_tab z_lg_tab) (\<lambda>z_lg.
     Inr \<lparr> self_water_ind = water_ind,
           self_comps = comps,
           self_num_comps = length comps,
           self_T = T,
           self_P = P,
           self_gw0_RT = 0,
           self_Hs = Hs,
           self_Y_small = zeros (length comps),
           self_Y_large = zeros (length comps),
           self_fug = PyInt 0,
           self_R_sm = zeros (length R_sm_tab),
           self_z_sm = z_sm,
           self_R_lg = zeros (length R_lg_tab),
           self_z_lg = z_lg,
           self_kappa0 = 0,
           self_a0_cubed = 0,
           self_kappa_vec = [],
           self_rep_sm_vec = [],
           self_rep_lg_vec = [],
           self_D_vec = [],
           self_Y_small_0 = [],
           self_Y_large_0 = [],
           self_eq_fug = [],
           self_stdstate_fug = [],
           self_gwbeta_RT = 0,
           self_vol_Tfactor = 0,
           self_lattice_Tfactor = 0,
           self_repulsive_small = [],
           self_repulsive_large = [],
           self_kappa_tmp = PyInt 0,
           self_a_0 = 0,
           self_v_H_0 = 0,
           self_v_H = 0,
           self_C_small = None,
           self_C_large = None \<rparr>))))))))"

definition HydrateEos_make_constant_mats ::
  "Eos \<Rightarrow> Component list \<Rightarrow> real \<Rightarrow> real \<Rightarrow> pyerr + Eos" where
  "HydrateEos_make_constant_mats st comps T P =
     (if self_water_ind st < length comps
      then Inr (st\<lparr> self_T := T, self_P := P,
                     self_gw0_RT := gibbs_ideal (comps ! self_water_ind st) T P \<rparr>)
      else Inl IndexError)"

definition calc_langmuir :: "Eos \<Rightarrow> real list \<Rightarrow> real list \<Rightarrow> real list" where
  \<comment> \<open>\<open>C\<close> and \<open>eq_fug\<close> are arrays of \<open>self.num_comps\<close> entries, the length of \<open>self.comps\<close>\<close>
  "calc_langmuir st C eq_fug =
     (let denominator = 1.0 + np_sum_prod C eq_fug
      in map (\<lambda>ii. if compname (self_comps st ! ii) \<noteq> ''h2o''
                    then C ! ii * eq_fug ! ii / denominator
                    else 0)
             [0..<self_num_comps st])"

text \<open>
  \<open>calc_langmuir\<close> above is the function in exact arithmetic. \<open>calc_langmuir_f64\<close> is the same
  statements with every operation rounded as numpy rounds it: the products \<open>C * eq_fug\<close>,
  their sum, the addition of \<open>1.0\<close> and the division. \<open>np.sum\<close> adds an array of fewer than
  eight entries in index order, starting from zero, and that is the sum modelled here. An
  entry of the result can be an infinity or \<open>nan\<close>.
\<close>

definition denominator_f64 :: "real list \<Rightarrow> real list \<Rightarrow> npfloat" where
  \<comment> \<open>\<open>denominator = (1.0 + np.sum(C * eq_fug))\<close>\<close>
  "denominator_f64 C eq_fug =
     f64_add (Fin 1.0) (foldl f64_add (Fin 0) (map2 (\<lambda>c f. f64_round (c * f)) C eq_fug))"

definition calc_langmuir_f64 :: "Eos \<Rightarrow> real list \<Rightarrow> real list \<Rightarrow> npfloat list" where
  \<comment> \<open>\<open>C\<close> and \<open>eq_fug\<close> are arrays of \<open>self.num_comps\<close> finite entries\<close>
  "calc_langmuir_f64 st C eq_fug =
     (let denominator = denominator_f64 C eq_fug
      in map (\<lambda>ii. if compname (self_comps st ! ii) \<noteq> ''h2o''
                    then f64_div (f64_round (C ! ii * eq_fug ! ii)) denominator
                    else Fin 0)
             [0..<self_num_comps st])"

definition delta_mu_func :: "Eos \<Rightarrow> real" where
  "delta_mu_func st =
     (Hs_Nm_small (self_Hs st) * ln (1 - sum_list (self_Y_small st))
      + Hs_Nm_large (self_Hs st) * ln (1 - sum_list (self_Y_large st)))
     / Hs_Num_h2o (self_Hs st)"

section \<open>class HvdwpmEos\<close>

definition cp_a0 :: real where "cp_a0 = 0.735409713 * R_gas"
definition cp_a1 :: real where "cp_a1 = 1.4180551 / 10 ^ 2 * R_gas"
definition cp_a2 :: real where "cp_a2 = - 1.72746 / 10 ^ 5 * R_gas"
definition cp_a3 :: real where "cp_a3 = 63.5104 / 10 ^ 9 * R_gas"

definition Hydrate_size :: "Eos \<Rightarrow> real \<Rightarrow> real \<Rightarrow> real \<Rightarrow> real \<Rightarrow> dim \<Rightarrow> real" where
  "Hydrate_size st T P v kappa d =
     (let factor = (case d of Volumetric \<Rightarrow> 1.0 | Linear \<Rightarrow> 1.0 / 3.0)
      in v * exp (factor * (Hs_alf1 (self_Hs st) * (T - T_0)
                            + Hs_alf2 (self_Hs st) * (T - T_0) ^ 2
                            + Hs_alf3 (self_Hs st) * (T - T_0) ^ 3
                            - kappa * (P - P_0))))"

definition Hvol_Pint :: "Eos \<Rightarrow> real \<Rightarrow> real \<Rightarrow> real \<Rightarrow> real \<Rightarrow> real" where
  "Hvol_Pint st T P v kappa = Hydrate_size st T P v kappa Volumetric / (- kappa)"

definition lattice_to_volume :: "Eos \<Rightarrow> real \<Rightarrow> real" where
  "lattice_to_volume st lattice_sz =
     (if Hs_hydstruc (self_Hs st) \<noteq> ''sH''
      then 6.0221413 * 10 ^ 23 / Hs_Num_h2o (self_Hs st) / 10 ^ 24 * lattice_sz ^ 3
      else Hs_v0 (self_Hs st))"

definition make_constant_mats :: "Eos \<Rightarrow> Component list \<Rightarrow> real \<Rightarrow> real \<Rightarrow> pyerr + Eos" where
  "make_constant_mats st0 comps T P =
     bind_err (HydrateEos_make_constant_mats st0 comps T P) (\<lambda>st.
     Inr (st\<lparr>
       self_gwbeta_RT :=
         Hs_gw_0beta (self_Hs st) / (R_gas * T_0)
         - (12 * T * Hs_hw_0beta (self_Hs st) - 12 * T_0 * Hs_hw_0beta (self_Hs st)
            + 12 * T_0 ^ 2 * cp_a0 + 6 * T_0 ^ 3 * cp_a1
            + 4 * T_0 ^ 4 * cp_a2 + 3 * T_0 ^ 5 * cp_a3
            - 12 * T * T_0 * cp_a0 - 12 * T * T_0 ^ 2 * cp_a1
            + 6 * T ^ 2 * T_0 * cp_a1 - 6 * T * T_0 ^ 3 * cp_a2
            + 2 * T ^ 3 * T_0 * cp_a2 - 4 * T * T_0 ^ 4 * cp_a3
            + T ^ 4 * T_0 * cp_a3 + 12 * T * T_0 * cp_a0 * ln T
            - 12 * T * T_0 * cp_a0 * ln T_0) / (12 * R_gas * T * T_0)
         + (Hvol_Pint st T P (self_a0_cubed st) (self_kappa0 st)
            - Hvol_Pint st T P_0 (self_a0_cubed st) (self_kappa0 st)) * (1 / 10) / (R_gas * T),
       self_vol_Tfactor := Hydrate_size st T P_0 1.0 (self_kappa0 st) Volumetric,
       self_lattice_Tfactor := Hydrate_size st T P_0 1.0 (self_kappa0 st) Linear \<rparr>))"

definition kappa_func :: "Eos \<Rightarrow> real list \<Rightarrow> pyobj" where
  "kappa_func st Y_large =
     (if self_num_comps st > 2
      then NpFloat (3.0 * np_sum_prod (self_kappa_vec st) Y_large)
      else PyFloat (self_kappa0 st))"

definition cage_distortion :: "Eos \<Rightarrow> Eos" where
  "cage_distortion st =
     (let es = Hs_etam_small (self_Hs st) / Hs_Num_h2o (self_Hs st);
          el = Hs_etam_large (self_Hs st) / Hs_Num_h2o (self_Hs st);
          small_const = map (\<lambda>y. (1 + es) * y / (1 + es * y)) (self_Y_small_0 st)
      in st\<lparr>
           self_repulsive_small :=
             (if self_num_comps st > 2
              then map2 (\<lambda>sc d. sc * exp (d - np_sum_prod (self_Y_small_0 st) (self_D_vec st)))
                        small_const (self_D_vec st)
              else small_const),
           self_repulsive_large :=
             map (\<lambda>y. (1 + el) * y / (1 + el * y)) (self_Y_large_0 st) \<rparr>)"

definition filled_lattice_size :: "Eos \<Rightarrow> Eos \<times> real" where
  "filled_lattice_size st0 =
     (let st = cage_distortion st0
      in (st, Hs_a0_ast (self_Hs st)
              + Hs_Nm_small (self_Hs st)
                * np_sum_prod (self_repulsive_small st) (self_rep_sm_vec st)
              + Hs_Nm_large (self_Hs st)
                * np_sum_prod (self_repulsive_large st) (self_rep_lg_vec st)))"

definition delta_func :: "nat \<Rightarrow> real \<Rightarrow> real \<Rightarrow> real \<Rightarrow> real" where
  \<comment> \<open>\<open>x**(-N)\<close> is \<open>1 / x ^ N\<close>\<close>
  "delta_func N Rn aj r =
     (1 / (1.0 - r / Rn - aj / Rn) ^ N - 1 / (1.0 + r / Rn - aj / Rn) ^ N) / real N"

definition w_func :: "real \<Rightarrow> real \<Rightarrow> real \<Rightarrow> real \<Rightarrow> real \<Rightarrow> real \<Rightarrow> real" where
  "w_func zn eps_k r Rn sigma aj =
     2 * zn * eps_k
     * (sigma ^ 12 / (Rn ^ 11 * r)
          * (delta_func 10 Rn aj r + (aj / Rn) * delta_func 11 Rn aj r)
        - sigma ^ 6 / (Rn ^ 5 * r)
          * (delta_func 4 Rn aj r + (aj / Rn) * delta_func 5 Rn aj r))"

definition integrand ::
  "real \<Rightarrow> real list \<Rightarrow> real list \<Rightarrow> real \<Rightarrow> real \<Rightarrow> real \<Rightarrow> real \<Rightarrow> real" where
  \<comment> \<open>\<open>z\<close> has the length of \<open>R\<close>\<close>
  "integrand r R z eps_k sigma aj T =
     (let integrand_sum =
            foldl (\<lambda>s ii. s + w_func (z ! ii) eps_k r (R ! ii) sigma aj) 0 [0..<length R]
      in r ^ 2 * exp ((- 1.0 / T) * integrand_sum))"

definition compute_integral_constants ::
  "Eos \<Rightarrow> real \<Rightarrow> real \<Rightarrow> real \<Rightarrow> real \<Rightarrow> pyerr + Eos" where
  \<comment> \<open>\<open>self.R_sm\<close> and \<open>self.R_lg\<close> were allocated with the lengths of the tables\<close>
  "compute_integral_constants st T P lattice_sz kappa =
     (let Pfactor = Hydrate_size st T_0 P 1.0 kappa Linear
      in case Hs_a_norm (self_Hs st) of
           None \<Rightarrow> Inl (AttributeError ''a_norm'')
         | Some a_norm \<Rightarrow>
             (let a_factor = (lattice_sz / a_norm) * self_lattice_Tfactor st * Pfactor
              in bind_err (shell_table ''R'' (Hs_R_sm (self_Hs st))) (\<lambda>R_sm_tab.
                 bind_err (shell_table ''R'' (Hs_R_lg (self_Hs st))) (\<lambda>R_lg_tab.
                 Inr (st\<lparr> self_R_sm := map (\<lambda>r. r * a_factor) R_sm_tab,
                          self_R_lg := map (\<lambda>r. r * a_factor) R_lg_tab \<rparr>)))))"

definition py_truediv :: "real \<Rightarrow> real \<Rightarrow> pyerr + real" where
  \<comment> \<open>\<open>a / b\<close> on two Python floats: a zero divisor raises ZeroDivisionError\<close>
  "py_truediv a b = (if b = 0 then Inl ZeroDivisionError else Inr (a / b))"

definition C_const :: "real \<Rightarrow> pyerr + real" where
  \<comment> \<open>\<open>C_const = 1e-10**3*4*np.pi/(k*T)*1e5\<close>, all operands Python floats (\<open>T\<close> is the
      argument of the call, or the module constant \<open>T_0\<close>)\<close>
  "C_const T =
     bind_err (py_truediv ((1 / 10 ^ 10) ^ 3 * 4 * pi) (k_Boltzmann * T)) (\<lambda>q. Inr (q * 10 ^ 5))"

definition cage_integral :: "quad_fn \<Rightarrow> real list \<Rightarrow> real list \<Rightarrow> Component \<Rightarrow> real \<Rightarrow> pyerr + real" where
  \<comment> \<open>\<open>quad(self.integrand, 0, min(R) - a, args=(R, z, epsk, sig, a, T))[0]\<close>\<close>
  "cage_integral quad R z cobj T =
     bind_err (py_min R) (\<lambda>m.
     Inr (fst (quad (\<lambda>r. integrand r R z (kih_epsk cobj) (kih_sig cobj) (kih_a cobj) T)
                    0 (m - kih_a cobj))))"

fun langmuir_loop ::
  "quad_fn \<Rightarrow> Eos \<Rightarrow> real \<Rightarrow> real \<Rightarrow> nat \<Rightarrow> Component list \<Rightarrow> real list \<times> real list
   \<Rightarrow> pyerr + real list \<times> real list" where
  \<comment> \<open>the loop \<open>for ii, comp in enumerate(compobjs)\<close> of \<open>langmuir_consts\<close>, from index \<open>ii\<close>;
      \<open>Cc\<close> is the value of the local \<open>C_const\<close>\<close>
  "langmuir_loop quad st T Cc ii [] (C_small, C_large) = Inr (C_small, C_large)"
| "langmuir_loop quad st T Cc ii (cobj # rest) (C_small, C_large) =
     (if compname cobj \<noteq> ''h2o'' then
        bind_err (cage_integral quad (self_R_sm st) (self_z_sm st) cobj T) (\<lambda>small_int.
        bind_err (cage_integral quad (self_R_lg st) (self_z_lg st) cobj T) (\<lambda>large_int.
        if ii < length C_small
        then langmuir_loop quad st T Cc (Suc ii) rest
               (C_small[ii := Cc * small_int], C_large[ii := Cc * large_int])
        else Inl IndexError))
      else if ii < length C_small
        then langmuir_loop quad st T Cc (Suc ii) rest (C_small[ii := 0], C_large[ii := 0])
        else Inl IndexError)"

definition langmuir_consts ::
  "quad_fn \<Rightarrow> Eos \<Rightarrow> Component list \<Rightarrow> real \<Rightarrow> real \<Rightarrow> real \<Rightarrow> real
   \<Rightarrow> pyerr + Eos \<times> real list \<times> real list" where
  \<comment> \<open>\<open>C_const\<close> is computed once, after \<open>compute_integral_constants\<close> and before the loop\<close>
  "langmuir_consts quad st0 compobjs T P lattice_sz kappa =
     bind_err (compute_integral_constants st0 T P lattice_sz kappa) (\<lambda>st.
     bind_err (C_const T) (\<lambda>Cc.
     bind_err (langmuir_loop quad st T Cc 0 compobjs
                 (zeros (self_num_comps st), zeros (self_num_comps st))) (\<lambda>(C_small, C_large).
     Inr (st, C_small, C_large))))"

definition iterate_function ::
  "quad_fn \<Rightarrow> Eos \<Rightarrow> Component list \<Rightarrow> real \<Rightarrow> real \<Rightarrow> real list \<Rightarrow> real \<Rightarrow> real
   \<Rightarrow> pyerr + Eos \<times> real list \<times> real list \<times> real list \<times> real list" where
  "iterate_function quad st0 compobjs T P fug lattice_sz kappa =
     bind_err (langmuir_consts quad st0 compobjs T P lattice_sz kappa) (\<lambda>(st, C_small, C_large).
     Inr (st, C_small, C_large, calc_langmuir st C_small fug, calc_langmuir st C_large fug))"

subsection \<open>The two fixed-point loops\<close>

definition loop_error ::
  "Component list \<Rightarrow> real list \<Rightarrow> real list \<Rightarrow> real list \<Rightarrow> real list \<Rightarrow> npfloat" where
  \<comment> \<open>the convergence measure, computed by the same statements in both loops:
      \<open>error = 0.0\<close>, then for every component that is not water
      \<open>error += abs(C_small_new[ii] - C_small[ii])/C_small_new[ii]
               + abs(C_large_new[ii] - C_large[ii])/C_large_new[ii]\<close>\<close>
  "loop_error compobjs C_small_new C_small C_large_new C_large =
     foldl (\<lambda>error ii.
              if compname (compobjs ! ii) \<noteq> ''h2o''
              then np_add error
                     (np_add (np_div \<bar>C_small_new ! ii - C_small ! ii\<bar> (C_small_new ! ii))
                             (np_div \<bar>C_large_new ! ii - C_large ! ii\<bar> (C_large_new ! ii)))
              else error)
           (Fin 0.0) [0..<length compobjs]"

text \<open>
  \<open>error = 1e6; while error > TOL: body\<close>: the first test succeeds, so the body runs at
  least once and the loop is left after the first pass whose measure is not greater than
  \<open>TOL\<close>. The result \<open>None\<close> stands for a loop that never ends; an exception raised in the
  body leaves the loop.
\<close>

partial_function (option) while_error_gt_TOL ::
  "('s \<Rightarrow> pyerr + 's \<times> npfloat) \<Rightarrow> 's \<Rightarrow> (pyerr + 's) option" where
  "while_error_gt_TOL body s =
     (case body s of
        Inl e \<Rightarrow> Some (Inl e)
      | Inr (s', error) \<Rightarrow>
          if np_gt error TOL then while_error_gt_TOL body s' else Some (Inr s'))"

type_synonym loop_vars = "Eos \<times> real list \<times> real list \<times> real \<times> pyobj"
  \<comment> \<open>\<open>self\<close> and the locals \<open>C_small\<close>, \<open>C_large\<close>, \<open>lattice_sz\<close>, \<open>kappa\<close>\<close>

definition stdstate_body :: "quad_fn \<Rightarrow> Component list \<Rightarrow> loop_vars \<Rightarrow> pyerr + loop_vars \<times> npfloat" where
  \<comment> \<open>one pass of the loop of \<open>find_stdstate_volume\<close>\<close>
  "stdstate_body quad compobjs = (\<lambda>(st0, C_small, C_large, lattice_sz, kappa).
     bind_err (iterate_function quad st0 compobjs T_0 P_0 (self_stdstate_fug st0)
                 lattice_sz (scalar kappa))
       (\<lambda>(st1, C_small_new, C_large_new, Y_small, Y_large).
     let st2 = st1\<lparr> self_Y_small_0 := Y_small, self_Y_large_0 := Y_large \<rparr>;
         (st3, lattice_sz') = filled_lattice_size st2;
         kappa' = kappa_func st3 (self_Y_large_0 st3);
         error = loop_error compobjs C_small_new C_small C_large_new C_large
     in Inr ((st3, C_small_new, C_large_new, lattice_sz', kappa'), error)))"

definition find_stdstate_volume ::
  "quad_fn \<Rightarrow> Eos \<Rightarrow> Component list \<Rightarrow> real \<Rightarrow> real \<Rightarrow> (pyerr + Eos) option" where
  "find_stdstate_volume quad st compobjs T P =
     (case while_error_gt_TOL (stdstate_body quad compobjs)
             (st, zeros (self_num_comps st), zeros (self_num_comps st),
              Hs_a0_ast (self_Hs st), PyFloat (self_kappa0 st)) of
        None \<Rightarrow> None
      | Some (Inl e) \<Rightarrow> Some (Inl e)
      | Some (Inr (st', C_small, C_large, lattice_sz, kappa)) \<Rightarrow>
          Some (Inr (st'\<lparr> self_kappa_tmp := kappa,
                          self_a_0 := lattice_sz,
                          self_v_H_0 := lattice_to_volume st' lattice_sz \<rparr>)))"

definition hydprops_body ::
  "quad_fn \<Rightarrow> Component list \<Rightarrow> real \<Rightarrow> real \<Rightarrow> real list \<Rightarrow> loop_vars
   \<Rightarrow> pyerr + loop_vars \<times> npfloat" where
  \<comment> \<open>one pass of the loop of \<open>find_hydrate_properties\<close>; \<open>lattice_sz\<close> stays as it is\<close>
  "hydprops_body quad compobjs T P eq_fug = (\<lambda>(st0, C_small, C_large, lattice_sz, kappa).
     bind_err (iterate_function quad st0 compobjs T P eq_fug lattice_sz (scalar kappa))
       (\<lambda>(st1, C_small_new, C_large_new, Y_small, Y_large).
     let st2 = st1\<lparr> self_Y_small := Y_small, self_Y_large := Y_large \<rparr>;
         kappa' = kappa_func st2 (self_Y_large st2);
         error = loop_error compobjs C_small_new C_small C_large_new C_large
     in Inr ((st2, C_small_new, C_large_new, lattice_sz, kappa'), error)))"

definition warm_start :: "Eos \<Rightarrow> pyerr + real list \<times> real list" where
  \<comment> \<open>\<open>if 'C_small' in self.__dir__(): C_small = self.C_small; C_large = self.C_large\<close>,
      else two arrays of zeros\<close>
  "warm_start st =
     (case self_C_small st of
        None \<Rightarrow> Inr (zeros (self_num_comps st), zeros (self_num_comps st))
      | Some C_small \<Rightarrow>
          (case self_C_large st of
             None \<Rightarrow> Inl (AttributeError ''C_large'')
           | Some C_large \<Rightarrow> Inr (C_small, C_large)))"

definition find_hydrate_properties ::
  "quad_fn \<Rightarrow> Eos \<Rightarrow> Component list \<Rightarrow> real \<Rightarrow> real \<Rightarrow> real list \<Rightarrow> (pyerr + Eos) option" where
  "find_hydrate_properties quad st compobjs T P eq_fug =
     (case warm_start st of
        Inl e \<Rightarrow> Some (Inl e)
      | Inr (C_small0, C_large0) \<Rightarrow>
     (case py_copy (self_kappa_tmp st) of
        Inl e \<Rightarrow> Some (Inl e)
      | Inr kappa0 \<Rightarrow>
     (case while_error_gt_TOL (hydprops_body quad compobjs T P eq_fug)
             (st, C_small0, C_large0, self_a_0 st, kappa0) of
        None \<Rightarrow> None
      | Some (Inl e) \<Rightarrow> Some (Inl e)
      | Some (Inr (st', C_small, C_large, lattice_sz, kappa)) \<Rightarrow>
          (case py_copy kappa of
             Inl e \<Rightarrow> Some (Inl e)
           | Inr kappa_copy \<Rightarrow>
               Some (Inr (st'\<lparr> self_C_small := Some C_small,
                               self_C_large := Some C_large,
                               self_kappa_tmp := kappa_copy,
                               self_v_H := Hydrate_size st' T P (self_v_H_0 st') (scalar kappa)
                                             Volumetric \<rparr>))))))"

subsection \<open>The fugacity of water\<close>

definition activity_func :: "Eos \<Rightarrow> real \<Rightarrow> real \<Rightarrow> real \<Rightarrow> real" where
  "activity_func st T P v_H_0 =
     (let kappa_wtavg = scalar (kappa_func st (self_Y_large st))
      in (v_H_0 - self_a0_cubed st) / R_gas
           * (Hs_a_fit (self_Hs st) / T_0 + Hs_b_fit (self_Hs st) * (1 / T - 1 / T_0))
         + ((Hvol_Pint st T P v_H_0 kappa_wtavg
             - Hvol_Pint st T P (self_a0_cubed st) (self_kappa0 st))
            - (Hvol_Pint st T P_0 v_H_0 kappa_wtavg
               - Hvol_Pint st T P_0 (self_a0_cubed st) (self_kappa0 st)))
           * (1 / 10) / (R_gas * T))"

definition start_vector :: "Eos \<Rightarrow> real list \<Rightarrow> pyerr + real list" where
  \<comment> \<open>\<open>if (eq_fug == self.eq_fug).all(): fug = self.fug.copy()\<close>
      \<open>else: fug = np.zeros(self.num_comps); fug[1:] = eq_fug[1:]\<close>,
      for an array \<open>eq_fug\<close> of \<open>self.num_comps\<close> entries\<close>
  "start_vector st eq_fug =
     (if eq_fug = self_eq_fug st
      then (case py_copy (self_fug st) of
              Inl e \<Rightarrow> Inl e
            | Inr (NdArray fug) \<Rightarrow> Inr fug
            | Inr other \<Rightarrow> Inl (TypeError ''item assignment''))
      else Inr (take 1 (zeros (self_num_comps st)) @ drop 1 eq_fug))"

definition fugacity ::
  "quad_fn \<Rightarrow> Eos \<Rightarrow> Component list \<Rightarrow> real \<Rightarrow> real \<Rightarrow> real list \<Rightarrow> real list
   \<Rightarrow> (pyerr + real list \<times> Eos) option" where
  \<comment> \<open>returns the vector \<open>fug\<close> and the instance as the call leaves it\<close>
  "fugacity quad st compobjs T P x eq_fug =
     (if length eq_fug \<noteq> self_num_comps st then Some (Inl (ValueError ''shape''))
      else case start_vector st eq_fug of
        Inl e \<Rightarrow> Some (Inl e)
      | Inr fug \<Rightarrow>
     (case find_hydrate_properties quad st compobjs T P eq_fug of
        None \<Rightarrow> None
      | Some (Inl e) \<Rightarrow> Some (Inl e)
      | Some (Inr st1) \<Rightarrow>
          (let delta_mu_RT = delta_mu_func st1;
               activity = activity_func st1 T P (self_v_H_0 st1);
               mu_H_RT = self_gwbeta_RT st1 + activity + delta_mu_RT
           in if fug = [] then Some (Inl IndexError)
              else let fug' = fug[0 := exp (mu_H_RT - self_gw0_RT st1)]
                   in Some (Inr (fug', st1\<lparr> self_fug := NdArray fug' \<rparr>)))))"

subsection \<open>Construction\<close>

definition HvdwpmEos_init ::
  "quad_fn \<Rightarrow> Component list \<Rightarrow> real \<Rightarrow> real \<Rightarrow> string \<Rightarrow> (pyerr + Eos) option" where
  "HvdwpmEos_init quad comps T P structure =
     (case HydrateEos_init comps T P structure of
        Inl e \<Rightarrow> Some (Inl e)
      | Inr st0 \<Rightarrow>
          (let st1 = st0\<lparr> self_kappa0 := Hs_kappa (self_Hs st0),
                          self_a0_cubed := lattice_to_volume st0 (Hs_a0_ast (self_Hs st0)),
                          self_kappa_vec := map (\<lambda>c. hv_kappa c (Hs_hydstruc (self_Hs st0))) comps,
                          self_rep_sm_vec :=
                            map (\<lambda>c. hv_rep_small c (Hs_hydstruc (self_Hs st0))) comps,
                          self_rep_lg_vec :=
                            map (\<lambda>c. hv_rep_large c (Hs_hydstruc (self_Hs st0))) comps,
                          self_D_vec := map diam comps,
                          self_Y_small_0 := zeros (self_num_comps st0),
                          self_Y_large_0 := zeros (self_num_comps st0),
                          self_eq_fug := zeros (self_num_comps st0),
                          self_stdstate_fug := map stdst_fug comps \<rparr>
           in case make_constant_mats st1 comps T P of
                Inl e \<Rightarrow> Some (Inl e)
              | Inr st2 \<Rightarrow> find_stdstate_volume quad st2 comps T P))"

subsection \<open>calc\<close>

text \<open>
  The names that the body of \<open>calc(self, comps, T, P, x, eq_fug)\<close> can read as a list of
  components: its parameter \<open>comps\<close>. No other local and no global of the module (\<open>np\<close>,
  \<open>quad\<close>, \<open>R\<close>, \<open>T_0\<close>, \<open>P_0\<close>, \<open>k\<close> and the three classes) is one, and the name \<open>compobjs\<close>,
  which the body passes to \<open>make_constant_mats\<close> and to \<open>fugacity\<close>, is bound nowhere:
  reading it raises NameError.
\<close>

definition calc_scope :: "Component list \<Rightarrow> string \<Rightarrow> Component list option" where
  "calc_scope comps = [''comps'' \<mapsto> comps]"

definition load_name :: "(string \<Rightarrow> 'a option) \<Rightarrow> string \<Rightarrow> pyerr + 'a" where
  "load_name scope name = (case scope name of None \<Rightarrow> Inl (NameError name) | Some v \<Rightarrow> Inr v)"

definition calc ::
  "quad_fn \<Rightarrow> Eos \<Rightarrow> Component list \<Rightarrow> real \<Rightarrow> real \<Rightarrow> real list \<Rightarrow> real list
   \<Rightarrow> (pyerr + real list option \<times> Eos) option" where
  \<comment> \<open>\<open>x\<close> is a list; the result \<open>None\<close> of the source is \<open>Inr (None, self)\<close>\<close>
  "calc quad st comps T P x eq_fug =
     (if length x \<noteq> length comps then
        (if length x > length comps
         then Some (Inl (RuntimeError ''Length of mole fraction vector x exceeds number of components!''))
         else if x = []
         then Some (Inl (RuntimeError ''Mole fraction vector x is empty!''))
         else Some (Inl (RuntimeError ''Mole fraction vector x contains less values than component length!'')))
      else if comps \<noteq> self_comps st then Some (Inr (None, st))
      else
        (case (if self_T st \<noteq> T \<or> self_P st \<noteq> P
               then bind_err (load_name (calc_scope comps) ''compobjs'')
                      (\<lambda>compobjs. make_constant_mats st compobjs T P)
               else Inr st) of
           Inl e \<Rightarrow> Some (Inl e)
         | Inr st1 \<Rightarrow>
             (case load_name (calc_scope comps) ''compobjs'' of
                Inl e \<Rightarrow> Some (Inl e)
              | Inr compobjs \<Rightarrow>
                  (case fugacity quad st1 compobjs T P x eq_fug of
                     None \<Rightarrow> None
                   | Some (Inl e) \<Rightarrow> Some (Inl e)
                   | Some (Inr (fug, st2)) \<Rightarrow> Some (Inr (Some fug, st2))))))"

section \<open>Auxiliary definitions for the proofs\<close>

text \<open>
  None of the following is part of the module. \<open>run_passes\<close> is the loop of the two solvers
  cut off after \<open>n\<close> passes, \<open>frame\<close> lists the attributes that no pass of either loop
  assigns, \<open>C_val\<close>, \<open>langmuir_entry\<close>, \<open>langmuir_vec\<close> and \<open>a_factor\<close> name the values that
  \<open>langmuir_consts\<close> computes (\<open>C_val T\<close> is the number that \<open>C_const T\<close> returns when \<open>T\<close> is
  not zero), and \<open>init_before_solve\<close> is the part of the constructor that
  precedes the reference-state solve. \<open>quad_milne\<close> is an open three-point Newton-Cotes rule
  used where a concrete integrator is needed: it is exact for polynomials up to degree three,
  and so for the integrand \<open>r\<^sup>2\<close> of a guest whose well depth \<open>epsk\<close> is zero. \<open>h2o\<close> and
  \<open>guest\<close> build such component records. \<open>f64_nn\<close> holds of \<open>+inf\<close> and of the non-negative
  numbers that \<open>f64_round\<close> leaves as they are, and \<open>f64_le\<close> orders these values.
\<close>

definition C_val :: "real \<Rightarrow> real" where
  "C_val T = (1 / 10 ^ 10) ^ 3 * 4 * pi / (k_Boltzmann * T) * 10 ^ 5"

definition quad_milne :: quad_fn where
  "quad_milne f a b =
     ((b - a) / 3 * (2 * f (a + (b - a) / 4) - f (a + (b - a) / 2) + 2 * f (a + 3 * (b - a) / 4)), 0)"

definition h2o :: Component where
  "h2o = \<lparr> compname = ''h2o'', diam = 0, stdst_fug = 0, kih_a = 0, kih_epsk = 0, kih_sig = 0,
           hv_kappa = (\<lambda>s. 0), hv_rep_small = (\<lambda>s. 0), hv_rep_large = (\<lambda>s. 0),
           gibbs_ideal = (\<lambda>T P. 0) \<rparr>"

definition guest :: "string \<Rightarrow> real \<Rightarrow> real \<Rightarrow> real \<Rightarrow> real \<Rightarrow> real \<Rightarrow> Component" where
  "guest name a f kap rep_s rep_l =
     \<lparr> compname = name, diam = 0, stdst_fug = f, kih_a = a, kih_epsk = 0, kih_sig = 0,
       hv_kappa = (\<lambda>s. kap), hv_rep_small = (\<lambda>s. rep_s), hv_rep_large = (\<lambda>s. rep_l),
       gibbs_ideal = (\<lambda>T P. 0) \<rparr>"

definition comps2 :: "Component list" where
  "comps2 = [h2o, guest ''ch4'' 0 0 0 0 0]"

definition langmuir_entry :: "quad_fn \<Rightarrow> real list \<Rightarrow> real list \<Rightarrow> real \<Rightarrow> Component \<Rightarrow> real" where
  "langmuir_entry quad R z T c =
     (if compname c \<noteq> ''h2o''
      then C_val T * fst (quad (\<lambda>r. integrand r R z (kih_epsk c) (kih_sig c) (kih_a c) T)
                              0 (foldl min (hd R) (tl R) - kih_a c))
      else 0)"

fun run_passes :: "('s \<Rightarrow> pyerr + 's \<times> npfloat) \<Rightarrow> nat \<Rightarrow> 's \<Rightarrow> (pyerr + 's) option" where
  "run_passes body 0 s = None"
| "run_passes body (Suc n) s =
     (case body s of
        Inl e \<Rightarrow> Some (Inl e)
      | Inr (s', error) \<Rightarrow>
          if np_gt error TOL then run_passes body n s' else Some (Inr s'))"

definition frame :: "Eos \<Rightarrow> Eos \<Rightarrow> bool" where
  "frame st st' \<longleftrightarrow>
     self_water_ind st' = self_water_ind st \<and>
     self_comps st' = self_comps st \<and>
     self_num_comps st' = self_num_comps st \<and>
     self_T st' = self_T st \<and>
     self_P st' = self_P st \<and>
     self_gw0_RT st' = self_gw0_RT st \<and>
     self_Hs st' = self_Hs st \<and>
     self_fug st' = self_fug st \<and>
     self_z_sm st' = self_z_sm st \<and>
     self_z_lg st' = self_z_lg st \<and>
     self_kappa0 st' = self_kappa0 st \<and>
     self_a0_cubed st' = self_a0_cubed st \<and>
     self_kappa_vec st' = self_kappa_vec st \<and>
     self_rep_sm_vec st' = self_rep_sm_vec st \<and>
     self_rep_lg_vec st' = self_rep_lg_vec st \<and>
     self_D_vec st' = self_D_vec st \<and>
     self_eq_fug st' = self_eq_fug st \<and>
     self_stdstate_fug st' = self_stdstate_fug st \<and>
     self_gwbeta_RT st' = self_gwbeta_RT st \<and>
     self_vol_Tfactor st' = self_vol_Tfactor st \<and>
     self_lattice_Tfactor st' = self_lattice_Tfactor st \<and>
     self_kappa_tmp st' = self_kappa_tmp st \<and>
     self_a_0 st' = self_a_0 st \<and>
     self_v_H_0 st' = self_v_H_0 st \<and>
     self_v_H st' = self_v_H st \<and>
     self_C_small st' = self_C_small st \<and>
     self_C_large st' = self_C_large st"

definition langmuir_vec :: "quad_fn \<Rightarrow> real list \<Rightarrow> real list \<Rightarrow> real \<Rightarrow> Component list \<Rightarrow> nat \<Rightarrow> real list" where
  "langmuir_vec quad R z T compobjs n =
     map (\<lambda>j. if j < length compobjs then langmuir_entry quad R z T (compobjs ! j) else 0) [0..<n]"

definition a_factor :: "Eos \<Rightarrow> real \<Rightarrow> real \<Rightarrow> real \<Rightarrow> real \<Rightarrow> real" where
  "a_factor st a_norm P lattice_sz kappa =
     (lattice_sz / a_norm) * self_lattice_Tfactor st * Hydrate_size st T_0 P 1.0 kappa Linear"

definition init_before_solve :: "Component list \<Rightarrow> real \<Rightarrow> real \<Rightarrow> string \<Rightarrow> pyerr + Eos" where
  "init_before_solve comps T P structure =
     bind_err (HydrateEos_init comps T P structure) (\<lambda>st0.
       make_constant_mats
         (st0\<lparr> self_kappa0 := Hs_kappa (self_Hs st0),
                self_a0_cubed := lattice_to_volume st0 (Hs_a0_ast (self_Hs st0)),
                self_kappa_vec := map (\<lambda>c. hv_kappa c (Hs_hydstruc (self_Hs st0))) comps,
                self_rep_sm_vec := map (\<lambda>c. hv_rep_small c (Hs_hydstruc (self_Hs st0))) comps,
                self_rep_lg_vec := map (\<lambda>c. hv_rep_large c (Hs_hydstruc (self_Hs st0))) comps,
                self_D_vec := map diam comps,
                self_Y_small_0 := zeros (self_num_comps st0),
                self_Y_large_0 := zeros (self_num_comps st0),
                self_eq_fug := zeros (self_num_comps st0),
                self_stdstate_fug := map stdst_fug comps \<rparr>) comps T P)"


definition cyc_fug :: real where
  "cyc_fug = 3 / (C_val T_0 * 4.635 ^ 3)"

definition cyc_rep_small :: real where
  "cyc_rep_small = - (1411433522462254043287266345 / 220371492619420707115043584)"

definition cyc_rep_large :: real where
  "cyc_rep_large = 727764699509072685 / 105605650976473312"

definition comps_cyc :: "Component list" where
  "comps_cyc = [h2o, guest ''ch4'' 0 cyc_fug 0 cyc_rep_small cyc_rep_large]"

definition cyc_C :: "real \<Rightarrow> real \<Rightarrow> real list" where
  "cyc_C Rmin L = [0, C_val T_0 * ((Rmin * (L / 17.1)) ^ 3 / 3)]"

definition cyc_next :: "real \<Rightarrow> real" where
  "cyc_next L =
     (let xs = (3.748 * (L / 17.1) / 4.635) ^ 3; xl = (4.635 * (L / 17.1) / 4.635) ^ 3;
          ys = xs / (1 + xs); yl = xl / (1 + xl)
      in 17.1 + 16 * ((1 + 20 / 136) * ys / (1 + 20 / 136 * ys) * cyc_rep_small)
              + 8 * ((1 + 28 / 136) * yl / (1 + 28 / 136 * yl) * cyc_rep_large))"

definition cyc_state :: "Eos \<Rightarrow> bool" where
  "cyc_state st \<longleftrightarrow>
     self_Hs st = table_s2 \<and> self_comps st = comps_cyc \<and> self_num_comps st = 2
     \<and> self_lattice_Tfactor st = 1 \<and> self_stdstate_fug st = [0, cyc_fug]
     \<and> self_rep_sm_vec st = [0, cyc_rep_small] \<and> self_rep_lg_vec st = [0, cyc_rep_large]
     \<and> self_kappa0 st = 3 / 10 ^ 6"

definition cyc_inv :: "loop_vars \<Rightarrow> bool" where
  "cyc_inv s \<longleftrightarrow>
     (case s of (st, C_small, C_large, lattice_sz, kappa) \<Rightarrow>
        cyc_state st \<and>
        (lattice_sz = 17.1 \<and> C_small = zeros 2 \<and> C_large = zeros 2
         \<or> lattice_sz = 17.1 \<and> C_small = cyc_C 3.748 8.55 \<and> C_large = cyc_C 4.635 8.55
         \<or> lattice_sz = 8.55 \<and> C_small = cyc_C 3.748 17.1 \<and> C_large = cyc_C 4.635 17.1))"

definition kap_a :: real where "kap_a = 645 / 37 * ln 2"

definition kap_b :: real where "kap_b = - (411 / 37) * ln 2"

definition comps3 :: "Component list" where
  "comps3 = [guest ''c3h8'' 6.9525 0 kap_a 0 0, h2o, guest ''c4h10'' 9.27 0 kap_b 0 0]"

definition eq_fug3 :: "real list" where
  "eq_fug3 = [3 / (32 * (C_val T_0 * 2.3175 ^ 3)), 0, 3 / (64 * (C_val T_0 * 2.3175 ^ 3))]"

definition lab3 :: "Eos \<Rightarrow> bool" where
  "lab3 st \<longleftrightarrow>
     self_Hs st = table_s2 \<and> self_comps st = comps3 \<and> self_num_comps st = 3
     \<and> self_water_ind st = 1 \<and> self_lattice_Tfactor st = 1
     \<and> self_kappa_vec st = [kap_a, 0, kap_b] \<and> self_a_0 st = 17.1
     \<and> self_eq_fug st = zeros 3"

definition lab3_C :: "real \<Rightarrow> real \<Rightarrow> real list" where
  "lab3_C Rmin af = [C_val T_0 * ((Rmin * af - 6.9525) ^ 3 / 3), 0,
                     C_val T_0 * ((Rmin * af - 9.27) ^ 3 / 3)]"

definition lab3_u :: "real \<Rightarrow> real \<Rightarrow> real" where
  "lab3_u Rmin af = ((Rmin * af - 6.9525) / 2.3175) ^ 3 / 32"

definition lab3_v :: "real \<Rightarrow> real \<Rightarrow> real" where
  "lab3_v Rmin af = ((Rmin * af - 9.27) / 2.3175) ^ 3 / 64"

definition lab3_Y :: "real \<Rightarrow> real \<Rightarrow> real list" where
  "lab3_Y Rmin af = [lab3_u Rmin af / (1 + (lab3_u Rmin af + lab3_v Rmin af)), 0,
                     lab3_v Rmin af / (1 + (lab3_u Rmin af + lab3_v Rmin af))]"

definition water_fug :: "Eos \<Rightarrow> real \<Rightarrow> real \<Rightarrow> real" where
  "water_fug s T P =
     exp (self_gwbeta_RT s + activity_func s T P (self_v_H_0 s) + delta_mu_func s - self_gw0_RT s)"

definition f64_nn :: "npfloat \<Rightarrow> bool" where
  "f64_nn v = (case v of Fin r \<Rightarrow> 0 \<le> r \<and> f64_nearest r = r | PInf \<Rightarrow> True
               | NInf \<Rightarrow> False | NaN \<Rightarrow> False)"

definition f64_le :: "npfloat \<Rightarrow> npfloat \<Rightarrow> bool" where
  "f64_le v w = (case w of PInf \<Rightarrow> True
                 | Fin y \<Rightarrow> (case v of Fin x \<Rightarrow> x \<le> y | PInf \<Rightarrow> False
                             | NInf \<Rightarrow> False | NaN \<Rightarrow> False)
                 | NInf \<Rightarrow> False | NaN \<Rightarrow> False)"

section \<open>Properties\<close>

lemma C_const_eq: "C_const T = (if T = 0 then Inl ZeroDivisionError else Inr (C_val T))"
  by (simp add: C_const_def py_truediv_def bind_err_def C_val_def k_Boltzmann_def)

lemma C_const_T_0: "C_const T_0 = Inr (C_val T_0)"
  by (simp add: C_const_eq T_0_def)

lemma np_sum_prod_nth:
  "length a = length b \<Longrightarrow> np_sum_prod a b = (\<Sum>i<length a. a ! i * b ! i)"
  by (simp add: np_sum_prod_def sum_list_sum_nth atLeast0LessThan)

lemma np_sum_prod_nonneg:
  assumes "length a = length b" "\<forall>c\<in>set a. 0 \<le> c" "\<forall>f\<in>set b. 0 \<le> f"
  shows "0 \<le> np_sum_prod a b"
  unfolding np_sum_prod_nth[OF assms(1)] using assms
  by (intro sum_nonneg mult_nonneg_nonneg) auto

lemma calc_langmuir_nth:
  "i < self_num_comps st \<Longrightarrow>
   calc_langmuir st C eq_fug ! i =
     (if compname (self_comps st ! i) \<noteq> ''h2o''
      then C ! i * eq_fug ! i / (1 + np_sum_prod C eq_fug) else 0)"
  by (simp add: calc_langmuir_def Let_def)

lemma length_calc_langmuir: "length (calc_langmuir st C eq_fug) = self_num_comps st"
  by (simp add: calc_langmuir_def Let_def)

lemma calc_langmuir_sum_lt_1:
  assumes len: "length C = self_num_comps st" "length eq_fug = self_num_comps st"
    and C: "\<forall>c\<in>set C. 0 \<le> c" and f: "\<forall>f\<in>set eq_fug. 0 \<le> f"
  shows "sum_list (calc_langmuir st C eq_fug) < 1"
proof -
  let ?n = "self_num_comps st"
  let ?X = "np_sum_prod C eq_fug"
  have X0: "0 \<le> ?X" using np_sum_prod_nonneg[of C eq_fug] len C f by simp
  have Xs: "?X = (\<Sum>i<?n. C ! i * eq_fug ! i)"
    using np_sum_prod_nth[of C eq_fug] len by simp
  have "sum_list (calc_langmuir st C eq_fug) = (\<Sum>i<?n. calc_langmuir st C eq_fug ! i)"
    by (simp add: sum_list_sum_nth length_calc_langmuir atLeast0LessThan)
  also have "\<dots> \<le> (\<Sum>i<?n. C ! i * eq_fug ! i / (1 + ?X))"
  proof (rule sum_mono)
    fix i assume "i \<in> {..<?n}"
    then have i: "i < ?n" by simp
    have "0 \<le> C ! i * eq_fug ! i" using i len C f by (intro mult_nonneg_nonneg) auto
    then have "0 \<le> C ! i * eq_fug ! i / (1 + ?X)" using X0 by simp
    then show "calc_langmuir st C eq_fug ! i \<le> C ! i * eq_fug ! i / (1 + ?X)"
      using i by (simp add: calc_langmuir_nth)
  qed
  also have "\<dots> = ?X / (1 + ?X)" by (simp add: Xs sum_divide_distrib)
  also have "\<dots> < 1" using X0 by simp
  finally show ?thesis .
qed

lemma calc_langmuir_range:
  assumes len: "length C = self_num_comps st" "length eq_fug = self_num_comps st"
    and C: "\<forall>c\<in>set C. 0 \<le> c" and f: "\<forall>f\<in>set eq_fug. 0 \<le> f"
    and i: "i < self_num_comps st"
  shows "0 \<le> calc_langmuir st C eq_fug ! i \<and> calc_langmuir st C eq_fug ! i < 1"
proof -
  let ?n = "self_num_comps st"
  let ?X = "np_sum_prod C eq_fug"
  have X0: "0 \<le> ?X" using np_sum_prod_nonneg[of C eq_fug] len C f by simp
  have Xs: "?X = (\<Sum>i<?n. C ! i * eq_fug ! i)"
    using np_sum_prod_nth[of C eq_fug] len by simp
  have nn: "0 \<le> C ! j * eq_fug ! j" if "j < ?n" for j
    using that len C f by (intro mult_nonneg_nonneg) auto
  have "C ! i * eq_fug ! i \<le> (\<Sum>i<?n. C ! i * eq_fug ! i)"
    by (rule member_le_sum) (use i nn in auto)
  then have le: "C ! i * eq_fug ! i \<le> ?X" using Xs by simp
  have "C ! i * eq_fug ! i / (1 + ?X) < 1" using X0 le by simp
  moreover have "0 \<le> C ! i * eq_fug ! i / (1 + ?X)" using nn[OF i] X0 by simp
  ultimately show ?thesis using i by (simp add: calc_langmuir_nth)
qed

lemma calc_langmuir_pure:
  "self_comps st' = self_comps st \<Longrightarrow> self_num_comps st' = self_num_comps st
   \<Longrightarrow> calc_langmuir st' C eq_fug = calc_langmuir st C eq_fug"
  by (simp add: calc_langmuir_def)

text \<open>
  The occupancies in exact arithmetic: for non-negative langmuir constants and fugacities
  the denominator of \<open>calc_langmuir\<close> is at least 1, every entry lies in \<open>[0, 1)\<close> and the
  entries sum to less than 1. The rounding of float64 does not keep the strict bounds; see
  \<open>calc_langmuir_f64\<close>.
\<close>

lemma calc_langmuir_exact_arithmetic:
  assumes len: "length C = self_num_comps st" "length eq_fug = self_num_comps st"
    and C: "\<forall>c\<in>set C. 0 \<le> c" and f: "\<forall>f\<in>set eq_fug. 0 \<le> f"
  shows "1 \<le> 1 + np_sum_prod C eq_fug
       \<and> np_sum_prod C eq_fug = (\<Sum>j<self_num_comps st. C ! j * eq_fug ! j)
       \<and> length (calc_langmuir st C eq_fug) = self_num_comps st
       \<and> (\<forall>i<self_num_comps st.
            calc_langmuir st C eq_fug ! i =
              (if compname (self_comps st ! i) \<noteq> ''h2o''
               then C ! i * eq_fug ! i / (1 + np_sum_prod C eq_fug) else 0)
            \<and> 0 \<le> calc_langmuir st C eq_fug ! i \<and> calc_langmuir st C eq_fug ! i < 1)
       \<and> sum_list (calc_langmuir st C eq_fug) < 1
       \<and> (\<forall>st'. self_comps st' = self_comps st \<and> self_num_comps st' = self_num_comps st
              \<longrightarrow> calc_langmuir st' C eq_fug = calc_langmuir st C eq_fug)"
proof (intro conjI allI impI)
  show "1 \<le> 1 + np_sum_prod C eq_fug"
    using np_sum_prod_nonneg[of C eq_fug] len C f by simp
  show "np_sum_prod C eq_fug = (\<Sum>j<self_num_comps st. C ! j * eq_fug ! j)"
    using np_sum_prod_nth[of C eq_fug] len by simp
  show "length (calc_langmuir st C eq_fug) = self_num_comps st"
    by (rule length_calc_langmuir)
  show "sum_list (calc_langmuir st C eq_fug) < 1"
    by (rule calc_langmuir_sum_lt_1[OF len C f])
next
  fix i assume i: "i < self_num_comps st"
  show "calc_langmuir st C eq_fug ! i =
          (if compname (self_comps st ! i) \<noteq> ''h2o''
           then C ! i * eq_fug ! i / (1 + np_sum_prod C eq_fug) else 0)"
    by (rule calc_langmuir_nth[OF i])
  show "0 \<le> calc_langmuir st C eq_fug ! i"
    using calc_langmuir_range[OF len C f i] by simp
  show "calc_langmuir st C eq_fug ! i < 1"
    using calc_langmuir_range[OF len C f i] by simp
next
  fix st' :: Eos assume "self_comps st' = self_comps st \<and> self_num_comps st' = self_num_comps st"
  then show "calc_langmuir st' C eq_fug = calc_langmuir st C eq_fug"
    by (intro calc_langmuir_pure) simp_all
qed

lemma is_finite_np_add [simp]: "is_finite (np_add a b) \<longleftrightarrow> is_finite a \<and> is_finite b"
  by (cases a; cases b) simp_all

lemma is_finite_np_div [simp]: "is_finite (np_div n d) \<longleftrightarrow> d \<noteq> 0"
  by (simp add: np_div_def)






lemma foldl_add_zero: "foldl (\<lambda>s ii. s) a xs = a"
  by (induction xs arbitrary: a) simp_all

lemma w_func_epsk0: "w_func zn 0 r Rn sigma aj = 0"
  by (simp add: w_func_def)

lemma integrand_epsk0: "integrand r R z 0 sigma aj T = r ^ 2"
  by (simp add: integrand_def w_func_epsk0 foldl_add_zero)

lemma quad_milne_sq: "fst (quad_milne (\<lambda>r. r ^ 2) 0 b) = b ^ 3 / 3"
  by (simp add: quad_milne_def power2_eq_square power3_eq_cube field_simps)

lemma cage_integral_milne:
  "kih_epsk c = 0 \<Longrightarrow> py_min R = Inr m \<Longrightarrow>
   cage_integral quad_milne R z c T = Inr ((m - kih_a c) ^ 3 / 3)"
  by (simp add: cage_integral_def bind_err_def integrand_epsk0 quad_milne_sq)

lemma C_val_pos: "0 < T \<Longrightarrow> 0 < C_val T"
  by (simp add: C_val_def k_Boltzmann_def)

lemma T_0_pos: "0 < T_0" by (simp add: T_0_def)

lemma HydrateStructure_init_upper: "HydrateStructure_init ''S1'' = Inr table_s1"
  by (simp add: HydrateStructure_init_def lower_def lower_char_def menu_s1_def)

lemma HydrateStructure_init_sH: "HydrateStructure_init ''sH'' = Inr table_sH"
  by (simp add: HydrateStructure_init_def lower_def lower_char_def menu_s1_def menu_s2_def menu_sh_def)

lemma HydrateStructure_init_s3: "HydrateStructure_init ''s3'' = Inl (RuntimeError (''s3'' @ '' is not a supported hydrate structure!!''))"
  by (simp add: HydrateStructure_init_def lower_def lower_char_def menu_s1_def menu_s2_def menu_sh_def)

lemma py_min_Cons: "py_min (x # xs) = Inr (foldl min x xs)"
  by (simp add: py_min_def)

lemma cage_integral_nonempty:
  "R \<noteq> [] \<Longrightarrow> cage_integral quad R z c T =
     Inr (fst (quad (\<lambda>r. integrand r R z (kih_epsk c) (kih_sig c) (kih_a c) T)
                    0 (foldl min (hd R) (tl R) - kih_a c)))"
  by (cases R) (simp_all add: cage_integral_def py_min_def bind_err_def)

lemma langmuir_loop_closed:
  assumes "self_R_sm st \<noteq> []" "self_R_lg st \<noteq> []"
  shows "ii + length cs \<le> length Cs \<Longrightarrow> length Cl = length Cs \<Longrightarrow>
    langmuir_loop quad st T (C_val T) ii cs (Cs, Cl) =
      Inr (map (\<lambda>j. if ii \<le> j \<and> j < ii + length cs
                    then langmuir_entry quad (self_R_sm st) (self_z_sm st) T (cs ! (j - ii))
                    else Cs ! j) [0..<length Cs],
           map (\<lambda>j. if ii \<le> j \<and> j < ii + length cs
                    then langmuir_entry quad (self_R_lg st) (self_z_lg st) T (cs ! (j - ii))
                    else Cl ! j) [0..<length Cs])"
proof (induction cs arbitrary: ii Cs Cl)
  case Nil
  have "map (\<lambda>j. Cs ! j) [0..<length Cs] = Cs" by (rule map_nth)
  moreover have "map (\<lambda>j. Cl ! j) [0..<length Cs] = Cl" using Nil.prems(2) map_nth[of Cl] by simp
  moreover have "(\<lambda>j. if ii \<le> j \<and> j < ii then A j else B j) = B" for A B :: "nat \<Rightarrow> real"
    by (rule ext) auto
  ultimately show ?case by simp
next
  case (Cons c cs)
  have ii: "ii < length Cs" using Cons.prems by simp
  let ?es = "langmuir_entry quad (self_R_sm st) (self_z_sm st) T c"
  let ?el = "langmuir_entry quad (self_R_lg st) (self_z_lg st) T c"
  have step: "langmuir_loop quad st T (C_val T) ii (c # cs) (Cs, Cl) =
        langmuir_loop quad st T (C_val T) (Suc ii) cs (Cs[ii := ?es], Cl[ii := ?el])"
    using ii assms
    by (simp add: cage_integral_nonempty bind_err_def langmuir_entry_def)
  have IH: "langmuir_loop quad st T (C_val T) (Suc ii) cs (Cs[ii := ?es], Cl[ii := ?el]) =
      Inr (map (\<lambda>j. if Suc ii \<le> j \<and> j < Suc ii + length cs
                    then langmuir_entry quad (self_R_sm st) (self_z_sm st) T (cs ! (j - Suc ii))
                    else Cs[ii := ?es] ! j) [0..<length (Cs[ii := ?es])],
           map (\<lambda>j. if Suc ii \<le> j \<and> j < Suc ii + length cs
                    then langmuir_entry quad (self_R_lg st) (self_z_lg st) T (cs ! (j - Suc ii))
                    else Cl[ii := ?el] ! j) [0..<length (Cs[ii := ?es])])"
    using Cons.prems by (intro Cons.IH) simp_all
  have eq: "map (\<lambda>j. if Suc ii \<le> j \<and> j < Suc ii + length cs then f (cs ! (j - Suc ii)) else xs[ii := f c] ! j) [0..<length Cs]
          = map (\<lambda>j. if ii \<le> j \<and> j < ii + length (c # cs) then f ((c # cs) ! (j - ii)) else xs ! j) [0..<length Cs]"
    if "length xs = length Cs" for f :: "Component \<Rightarrow> real" and xs
  proof (rule map_cong[OF refl])
    fix j assume "j \<in> set [0..<length Cs]"
    then have j: "j < length xs" using that by simp
    have iix: "ii < length xs" using ii that by simp
    show "(if Suc ii \<le> j \<and> j < Suc ii + length cs then f (cs ! (j - Suc ii)) else xs[ii := f c] ! j)
          = (if ii \<le> j \<and> j < ii + length (c # cs) then f ((c # cs) ! (j - ii)) else xs ! j)"
    proof (cases "j = ii")
      case True
      then show ?thesis using iix by simp
    next
      case False
      then show ?thesis using j iix by (auto simp: nth_Cons' Suc_diff_le)
    qed
  qed
  have e1: "length Cs = length Cs" by simp
  show ?case
    unfolding step IH length_list_update
    using eq[OF e1, of "langmuir_entry quad (self_R_sm st) (self_z_sm st) T"]
          eq[OF Cons.prems(2), of "langmuir_entry quad (self_R_lg st) (self_z_lg st) T"]
    by (simp only:)
qed

lemma run_passes_imp_while:
  "run_passes body n s = Some r \<Longrightarrow> while_error_gt_TOL body s = Some r"
proof (induction n arbitrary: s)
  case 0
  then show ?case by simp
next
  case (Suc n)
  show ?case
  proof (cases "body s")
    case (Inl e)
    with Suc.prems show ?thesis by (subst while_error_gt_TOL.simps) simp
  next
    case (Inr p)
    obtain s' error where p: "p = (s', error)" by (cases p)
    show ?thesis
    proof (cases "np_gt error TOL")
      case True
      with Suc.prems Inr p have "run_passes body n s' = Some r" by simp
      then have "while_error_gt_TOL body s' = Some r" by (rule Suc.IH)
      with Inr p True show ?thesis by (subst while_error_gt_TOL.simps) simp
    next
      case False
      with Suc.prems Inr p show ?thesis by (subst while_error_gt_TOL.simps) simp
    qed
  qed
qed

lemma while_imp_run_passes:
  assumes "while_error_gt_TOL body s = Some r"
  shows "\<exists>n. run_passes body n s = Some r"
proof (rule while_error_gt_TOL.raw_induct[where P = "\<lambda>body s r. \<exists>n. run_passes body n s = Some r", OF _ assms])
  fix loop :: "('a \<Rightarrow> pyerr + 'a \<times> npfloat) \<Rightarrow> 'a \<Rightarrow> (pyerr + 'a) option"
    and body s r
  assume IH: "\<And>b s y. loop b s = Some y \<Longrightarrow> \<exists>n. run_passes b n s = Some y"
    and eq: "(case body s of Inl e \<Rightarrow> Some (Inl e)
              | Inr (s', error) \<Rightarrow> if np_gt error TOL then loop body s' else Some (Inr s')) = Some r"
  show "\<exists>n. run_passes body n s = Some r"
  proof (cases "body s")
    case (Inl e)
    with eq have "run_passes body (Suc 0) s = Some r" by simp
    then show ?thesis by blast
  next
    case (Inr p)
    obtain s' error where p: "p = (s', error)" by (cases p)
    show ?thesis
    proof (cases "np_gt error TOL")
      case True
      with eq Inr p have "loop body s' = Some r" by simp
      then obtain n where "run_passes body n s' = Some r" using IH by blast
      with Inr p True have "run_passes body (Suc n) s = Some r" by simp
      then show ?thesis by blast
    next
      case False
      with eq Inr p have "run_passes body (Suc 0) s = Some r" by simp
      then show ?thesis by blast
    qed
  qed
qed

lemma while_iff_run_passes:
  "while_error_gt_TOL body s = Some r \<longleftrightarrow> (\<exists>n. run_passes body n s = Some r)"
proof
  assume "while_error_gt_TOL body s = Some r"
  then show "\<exists>n. run_passes body n s = Some r" by (rule while_imp_run_passes)
next
  assume "\<exists>n. run_passes body n s = Some r"
  then obtain n where "run_passes body n s = Some r" ..
  then show "while_error_gt_TOL body s = Some r" by (rule run_passes_imp_while)
qed

lemma while_None_iff:
  "while_error_gt_TOL body s = None \<longleftrightarrow> (\<forall>n. run_passes body n s = None)"
proof -
  have "while_error_gt_TOL body s = None \<longleftrightarrow> (\<forall>r. while_error_gt_TOL body s \<noteq> Some r)" by auto
  also have "\<dots> \<longleftrightarrow> (\<forall>r n. run_passes body n s \<noteq> Some r)"
    by (simp add: while_iff_run_passes)
  also have "\<dots> \<longleftrightarrow> (\<forall>n. run_passes body n s = None)" by (metis not_Some_eq)
  finally show ?thesis .
qed

text \<open>invariant rule\<close>

lemma run_passes_invariant:
  assumes step: "\<And>s s' e. I s \<Longrightarrow> body s = Inr (s', e) \<Longrightarrow> I s'"
  shows "run_passes body n s = Some (Inr t) \<Longrightarrow> I s \<Longrightarrow>
         \<exists>s0 e. I s0 \<and> body s0 = Inr (t, e) \<and> \<not> np_gt e TOL"
proof (induction n arbitrary: s)
  case 0
  then show ?case by simp
next
  case (Suc n)
  show ?case
  proof (cases "body s")
    case (Inl e)
    with Suc.prems show ?thesis by simp
  next
    case (Inr p)
    obtain s' error where p: "p = (s', error)" by (cases p)
    show ?thesis
    proof (cases "np_gt error TOL")
      case True
      with Suc.prems Inr p have r: "run_passes body n s' = Some (Inr t)" by simp
      have "I s'" using step[OF Suc.prems(2)] Inr p by simp
      with r show ?thesis by (rule Suc.IH)
    next
      case False
      with Suc.prems Inr p have "t = s'" by simp
      with Inr p False Suc.prems(2) show ?thesis by blast
    qed
  qed
qed

lemma while_invariant:
  assumes "while_error_gt_TOL body s = Some (Inr t)" "I s"
    and "\<And>s s' e. I s \<Longrightarrow> body s = Inr (s', e) \<Longrightarrow> I s'"
  shows "\<exists>s0 e. I s0 \<and> body s0 = Inr (t, e) \<and> \<not> np_gt e TOL"
proof -
  from while_imp_run_passes[OF assms(1)]
  obtain n where "run_passes body n s = Some (Inr t)" ..
  then show ?thesis using run_passes_invariant[of I body n s t] assms(2,3) by blast
qed

lemma while_never_returns:
  assumes inv: "I s"
    and step: "\<And>s. I s \<Longrightarrow> \<exists>s' e. body s = Inr (s', e) \<and> np_gt e TOL \<and> I s'"
  shows "while_error_gt_TOL body s = None"
proof -
  have "run_passes body n s = None" if "I s" for n s
    using that
  proof (induction n arbitrary: s)
    case 0
    then show ?case by simp
  next
    case (Suc n)
    obtain s' e where b: "body s = Inr (s', e)" "np_gt e TOL" "I s'"
      using step[OF Suc.prems] by blast
    then show ?case using Suc.IH[of s'] by simp
  qed
  then show ?thesis using inv by (simp add: while_None_iff)
qed

lemma bind_err_Inr_iff: "bind_err r f = Inr v \<longleftrightarrow> (\<exists>a. r = Inr a \<and> f a = Inr v)"
  by (cases r) (simp_all add: bind_err_def)

lemma compute_integral_constants_fields:
  "compute_integral_constants st T P L k = Inr st' \<Longrightarrow>
   \<exists>a b. st' = st\<lparr> self_R_sm := a, self_R_lg := b \<rparr>"
  by (auto simp: compute_integral_constants_def Let_def bind_err_Inr_iff split: option.splits)

lemma langmuir_consts_fields:
  "langmuir_consts quad st compobjs T P L k = Inr (st', Cs, Cl) \<Longrightarrow>
   \<exists>a b. st' = st\<lparr> self_R_sm := a, self_R_lg := b \<rparr>"
  by (auto simp: langmuir_consts_def bind_err_Inr_iff dest: compute_integral_constants_fields)

lemma iterate_function_fields:
  "iterate_function quad st compobjs T P fug L k = Inr (st', Cs, Cl, Ys, Yl) \<Longrightarrow>
   \<exists>a b. st' = st\<lparr> self_R_sm := a, self_R_lg := b \<rparr>"
  by (auto simp: iterate_function_def bind_err_Inr_iff dest: langmuir_consts_fields)

lemma stdstate_body_fields:
  assumes "stdstate_body quad compobjs (st, Cs, Cl, L, k) = Inr ((st', Cs', Cl', L', k'), e)"
  shows "\<exists>a b c d f g. st' = st\<lparr> self_R_sm := a, self_R_lg := b, self_Y_small_0 := c,
            self_Y_large_0 := d, self_repulsive_small := f, self_repulsive_large := g \<rparr>
          \<and> k' = kappa_func st d"
proof -
  from assms obtain st1 Csn Cln Ys Yl where
    it: "iterate_function quad st compobjs T_0 P_0 (self_stdstate_fug st) L (scalar k)
           = Inr (st1, Csn, Cln, Ys, Yl)"
    and st': "st' = fst (filled_lattice_size (st1\<lparr> self_Y_small_0 := Ys, self_Y_large_0 := Yl \<rparr>))"
    and k': "k' = kappa_func st' (self_Y_large_0 st')"
    by (auto simp: stdstate_body_def bind_err_Inr_iff Let_def case_prod_beta)
  from iterate_function_fields[OF it] obtain a b where
    st1: "st1 = st\<lparr> self_R_sm := a, self_R_lg := b \<rparr>" by blast
  show ?thesis
    unfolding k' unfolding st' st1
    by (simp add: filled_lattice_size_def cage_distortion_def Let_def kappa_func_def) blast
qed

lemma hydprops_body_fields:
  assumes "hydprops_body quad compobjs T P eq_fug (st, Cs, Cl, L, k) = Inr ((st', Cs', Cl', L', k'), e)"
  shows "\<exists>a b c d. st' = st\<lparr> self_R_sm := a, self_R_lg := b, self_Y_small := c, self_Y_large := d \<rparr>
          \<and> k' = kappa_func st d \<and> L' = L"
proof -
  from assms obtain st1 Csn Cln Ys Yl where
    it: "iterate_function quad st compobjs T P eq_fug L (scalar k)
           = Inr (st1, Csn, Cln, Ys, Yl)"
    and st': "st' = st1\<lparr> self_Y_small := Ys, self_Y_large := Yl \<rparr>"
    and k': "k' = kappa_func st' (self_Y_large st')" and L': "L' = L"
    by (auto simp: hydprops_body_def bind_err_Inr_iff Let_def case_prod_beta)
  from iterate_function_fields[OF it] obtain a b where
    st1: "st1 = st\<lparr> self_R_sm := a, self_R_lg := b \<rparr>" by blast
  show ?thesis
    unfolding k' L' unfolding st' st1
    by (simp add: kappa_func_def) blast
qed

lemma frame_refl: "frame st st"
  by (simp add: frame_def)

lemma frame_trans: "frame a b \<Longrightarrow> frame b c \<Longrightarrow> frame a c"
  by (simp add: frame_def)

lemma kappa_func_frame: "frame st st' \<Longrightarrow> kappa_func st' Y = kappa_func st Y"
  by (simp add: frame_def kappa_func_def)

lemma stdstate_body_frame:
  "stdstate_body quad compobjs (st, Cs, Cl, L, k) = Inr ((st', Cs', Cl', L', k'), e)
   \<Longrightarrow> frame st st' \<and> self_Y_small st' = self_Y_small st \<and> self_Y_large st' = self_Y_large st
       \<and> k' = kappa_func st (self_Y_large_0 st')"
  by (drule stdstate_body_fields) (auto simp: frame_def)

lemma hydprops_body_frame:
  "hydprops_body quad compobjs T P eq_fug (st, Cs, Cl, L, k) = Inr ((st', Cs', Cl', L', k'), e)
   \<Longrightarrow> frame st st' \<and> self_Y_small_0 st' = self_Y_small_0 st
       \<and> self_Y_large_0 st' = self_Y_large_0 st
       \<and> k' = kappa_func st (self_Y_large st') \<and> L' = L"
  by (drule hydprops_body_fields) (auto simp: frame_def)

lemma find_stdstate_volume_result:
  assumes "find_stdstate_volume quad st compobjs T P = Some (Inr st')"
  shows "\<exists>st1 L. frame st st1
          \<and> st' = st1\<lparr> self_kappa_tmp := kappa_func st (self_Y_large_0 st1),
                        self_a_0 := L, self_v_H_0 := lattice_to_volume st1 L \<rparr>"
proof -
  let ?s0 = "(st, zeros (self_num_comps st), zeros (self_num_comps st),
              Hs_a0_ast (self_Hs st), PyFloat (self_kappa0 st))"
  from assms obtain st1 Cs Cl L k where
    w: "while_error_gt_TOL (stdstate_body quad compobjs) ?s0 = Some (Inr (st1, Cs, Cl, L, k))"
    and st': "st' = st1\<lparr> self_kappa_tmp := k, self_a_0 := L, self_v_H_0 := lattice_to_volume st1 L \<rparr>"
    by (auto simp: find_stdstate_volume_def split: option.splits sum.splits)
  let ?I = "\<lambda>s :: loop_vars. frame st (fst s)"
  have "\<exists>s0 e. ?I s0 \<and> stdstate_body quad compobjs s0 = Inr ((st1, Cs, Cl, L, k), e) \<and> \<not> np_gt e TOL"
  proof (rule while_invariant[OF w, of ?I])
    show "?I ?s0" by (simp add: frame_refl)
  next
    fix s s' :: loop_vars and e
    assume I: "?I s" and b: "stdstate_body quad compobjs s = Inr (s', e)"
    obtain sa Csa Cla La ka where s: "s = (sa, Csa, Cla, La, ka)" by (cases s)
    obtain sb Csb Clb Lb kb where s': "s' = (sb, Csb, Clb, Lb, kb)" by (cases s')
    from stdstate_body_frame[OF b[unfolded s s']] I s s'
    show "?I s'" by (auto intro: frame_trans)
  qed
  then obtain s0 e where I0: "?I s0"
    and b0: "stdstate_body quad compobjs s0 = Inr ((st1, Cs, Cl, L, k), e)" by blast
  obtain sa Csa Cla La ka where s0: "s0 = (sa, Csa, Cla, La, ka)" by (cases s0)
  from stdstate_body_frame[OF b0[unfolded s0]]
  have f1: "frame sa st1" and k: "k = kappa_func sa (self_Y_large_0 st1)" by simp_all
  from I0 s0 have f0: "frame st sa" by simp
  have "kappa_func sa (self_Y_large_0 st1) = kappa_func st (self_Y_large_0 st1)"
    using f0 by (rule kappa_func_frame)
  with k st' frame_trans[OF f0 f1] show ?thesis by auto
qed

lemma find_water_Inr:
  "find_water comps = Inr ii \<Longrightarrow> ii < length comps \<and> compname (comps ! ii) = ''h2o''"
proof -
  assume a: "find_water comps = Inr ii"
  then obtain rest where "filter (\<lambda>ii. compname (comps ! ii) = ''h2o'') [0..<length comps] = ii # rest"
    by (auto simp: find_water_def split: list.splits)
  then have "ii \<in> set (filter (\<lambda>ii. compname (comps ! ii) = ''h2o'') [0..<length comps])"
    by simp
  then show ?thesis by simp
qed

lemma find_water_Inl:
  "find_water comps = Inl e \<longleftrightarrow> e = IndexError \<and> (\<forall>c\<in>set comps. compname c \<noteq> ''h2o'')"
proof -
  have "filter (\<lambda>ii. compname (comps ! ii) = ''h2o'') [0..<length comps] = []
        \<longleftrightarrow> (\<forall>c\<in>set comps. compname c \<noteq> ''h2o'')"
    unfolding filter_empty_conv by (metis atLeast0LessThan in_set_conv_nth lessThan_iff set_upt)
  then show ?thesis
    by (auto simp: find_water_def split: list.splits)
qed

lemma HydrateEos_init_fields:
  assumes "HydrateEos_init comps T P structure = Inr st0"
  shows "self_comps st0 = comps \<and> self_num_comps st0 = length comps \<and> self_fug st0 = PyInt 0
       \<and> self_C_small st0 = None \<and> self_C_large st0 = None
       \<and> self_water_ind st0 < length comps \<and> compname (comps ! self_water_ind st0) = ''h2o''
       \<and> self_T st0 = T \<and> self_P st0 = P
       \<and> HydrateStructure_init structure = Inr (self_Hs st0)"
  using assms
  by (auto simp: HydrateEos_init_def bind_err_Inr_iff dest: find_water_Inr)

lemma make_constant_mats_fields:
  assumes "make_constant_mats st comps T P = Inr st'"
  shows "st' = st\<lparr> self_T := T, self_P := P, self_gw0_RT := self_gw0_RT st',
                    self_gwbeta_RT := self_gwbeta_RT st', self_vol_Tfactor := self_vol_Tfactor st',
                    self_lattice_Tfactor := self_lattice_Tfactor st' \<rparr>"
  using assms
  by (auto simp: make_constant_mats_def HydrateEos_make_constant_mats_def bind_err_Inr_iff
           split: if_splits)

lemma HvdwpmEos_init_fields:
  assumes "HvdwpmEos_init quad comps T P structure = Some (Inr st)"
  shows "self_comps st = comps \<and> self_num_comps st = length comps \<and> self_fug st = PyInt 0
       \<and> self_C_small st = None \<and> self_C_large st = None
       \<and> self_eq_fug st = zeros (length comps)
       \<and> self_water_ind st < length comps \<and> compname (comps ! self_water_ind st) = ''h2o''
       \<and> self_T st = T \<and> self_P st = P
       \<and> HydrateStructure_init structure = Inr (self_Hs st)
       \<and> self_kappa0 st = Hs_kappa (self_Hs st)
       \<and> self_kappa_tmp st = kappa_func st (self_Y_large_0 st)"
proof -
  from assms obtain st0 where st0: "HydrateEos_init comps T P structure = Inr st0"
    by (auto simp: HvdwpmEos_init_def split: sum.splits)
  note f0 = HydrateEos_init_fields[OF st0]
  define st1 where "st1 = st0\<lparr> self_kappa0 := Hs_kappa (self_Hs st0),
                          self_a0_cubed := lattice_to_volume st0 (Hs_a0_ast (self_Hs st0)),
                          self_kappa_vec := map (\<lambda>c. hv_kappa c (Hs_hydstruc (self_Hs st0))) comps,
                          self_rep_sm_vec :=
                            map (\<lambda>c. hv_rep_small c (Hs_hydstruc (self_Hs st0))) comps,
                          self_rep_lg_vec :=
                            map (\<lambda>c. hv_rep_large c (Hs_hydstruc (self_Hs st0))) comps,
                          self_D_vec := map diam comps,
                          self_Y_small_0 := zeros (self_num_comps st0),
                          self_Y_large_0 := zeros (self_num_comps st0),
                          self_eq_fug := zeros (self_num_comps st0),
                          self_stdstate_fug := map stdst_fug comps \<rparr>"
  from assms st0 obtain st2 where st2: "make_constant_mats st1 comps T P = Inr st2"
    and fs: "find_stdstate_volume quad st2 comps T P = Some (Inr st)"
    by (auto simp: HvdwpmEos_init_def Let_def st1_def split: sum.splits)
  note m = make_constant_mats_fields[OF st2]
  from find_stdstate_volume_result[OF fs] obtain st3 L where
    fr: "frame st2 st3"
    and st: "st = st3\<lparr> self_kappa_tmp := kappa_func st2 (self_Y_large_0 st3),
                        self_a_0 := L, self_v_H_0 := lattice_to_volume st3 L \<rparr>" by blast
  have k: "kappa_func st Y = kappa_func st2 Y" for Y
    using fr by (simp add: st kappa_func_def frame_def)
  have 1: "self_comps st2 = comps \<and> self_num_comps st2 = length comps \<and> self_fug st2 = PyInt 0
       \<and> self_C_small st2 = None \<and> self_C_large st2 = None
       \<and> self_eq_fug st2 = zeros (length comps)
       \<and> self_water_ind st2 < length comps \<and> compname (comps ! self_water_ind st2) = ''h2o''
       \<and> self_T st2 = T \<and> self_P st2 = P
       \<and> HydrateStructure_init structure = Inr (self_Hs st2)
       \<and> self_kappa0 st2 = Hs_kappa (self_Hs st2)"
    using f0 by (subst (1 2 3 4 5 6 7 8 9 10 11 12 13) m) (simp add: st1_def)
  have kt: "self_kappa_tmp st = kappa_func st2 (self_Y_large_0 st)"
    by (simp add: st)
  have 2: "self_kappa_tmp st = kappa_func st (self_Y_large_0 st)"
    unfolding kt k ..
  have 3: "self_comps st = comps \<and> self_num_comps st = length comps \<and> self_fug st = PyInt 0
       \<and> self_C_small st = None \<and> self_C_large st = None
       \<and> self_eq_fug st = zeros (length comps)
       \<and> self_water_ind st < length comps \<and> compname (comps ! self_water_ind st) = ''h2o''
       \<and> self_T st = T \<and> self_P st = P
       \<and> HydrateStructure_init structure = Inr (self_Hs st)
       \<and> self_kappa0 st = Hs_kappa (self_Hs st)"
    using 1 fr by (simp add: st frame_def)
  show ?thesis using 2 3 by blast
qed

text \<open>
  Claim C9. For an instance constructed from two components, \<open>kappa_func\<close> returns
  \<open>self.kappa0\<close>, the Python float \<open>kappa\<close> of the structure table, so this float is what the
  constructor stores in \<open>self.kappa_tmp\<close>; \<open>find_hydrate_properties\<close> calls \<open>copy\<close> on it and
  raises AttributeError, for every temperature, pressure and fugacity vector, and so does
  \<open>fugacity\<close> (a call that raises leaves the instance as it was, so every later call raises
  too).
\<close>

theorem two_component_solve_raises:
  assumes init: "HvdwpmEos_init quad comps T P structure = Some (Inr st)"
    and two: "length comps = 2"
  shows "kappa_func st Y_large = PyFloat (Hs_kappa (self_Hs st))
       \<and> self_kappa_tmp st = PyFloat (Hs_kappa (self_Hs st))
       \<and> py_copy (self_kappa_tmp st) = Inl (AttributeError ''copy'')
       \<and> find_hydrate_properties quad' st compobjs T' P' eq_fug
             = Some (Inl (AttributeError ''copy''))
       \<and> (length eq_fug = 2 \<longrightarrow>
            fugacity quad' st compobjs T' P' x eq_fug = Some (Inl (AttributeError ''copy'')))"
proof -
  note f = HvdwpmEos_init_fields[OF init]
  have n: "self_num_comps st = 2" using f two by simp
  have k: "kappa_func st Y = PyFloat (Hs_kappa (self_Hs st))" for Y
    using n f by (simp add: kappa_func_def)
  have kt: "self_kappa_tmp st = PyFloat (Hs_kappa (self_Hs st))"
    using f k by simp
  have ws: "warm_start st = Inr (zeros 2, zeros 2)"
    using f n by (simp add: warm_start_def)
  have fh: "find_hydrate_properties quad' st compobjs T' P' eq_fug
             = Some (Inl (AttributeError ''copy''))"
    by (simp add: find_hydrate_properties_def ws kt)
  have sv: "start_vector st eq_fug = Inl (AttributeError ''copy'') \<or> (\<exists>v. start_vector st eq_fug = Inr v)"
    using f by (simp add: start_vector_def)
  have fu: "fugacity quad' st compobjs T' P' x eq_fug = Some (Inl (AttributeError ''copy''))"
    if "length eq_fug = 2"
    using sv that n by (auto simp: fugacity_def fh)
  show ?thesis using k kt fh fu by simp
qed

lemma compute_integral_constants_closed:
  assumes "Hs_a_norm (self_Hs st) = Some an" "Hs_R_sm (self_Hs st) = Some Rs"
    "Hs_R_lg (self_Hs st) = Some Rl"
  shows "compute_integral_constants st T P L k =
     Inr (st\<lparr> self_R_sm := map (\<lambda>r. r * a_factor st an P L k) Rs,
              self_R_lg := map (\<lambda>r. r * a_factor st an P L k) Rl \<rparr>)"
  using assms
  by (simp add: compute_integral_constants_def Let_def shell_table_def bind_err_def a_factor_def)

lemma langmuir_consts_closed:
  assumes "Hs_a_norm (self_Hs st) = Some an" "Hs_R_sm (self_Hs st) = Some Rs"
    "Hs_R_lg (self_Hs st) = Some Rl" "Rs \<noteq> []" "Rl \<noteq> []"
    "length compobjs \<le> self_num_comps st" "T \<noteq> 0"
  shows "langmuir_consts quad st compobjs T P L k =
     Inr (st\<lparr> self_R_sm := map (\<lambda>r. r * a_factor st an P L k) Rs,
              self_R_lg := map (\<lambda>r. r * a_factor st an P L k) Rl \<rparr>,
          langmuir_vec quad (map (\<lambda>r. r * a_factor st an P L k) Rs) (self_z_sm st) T compobjs
            (self_num_comps st),
          langmuir_vec quad (map (\<lambda>r. r * a_factor st an P L k) Rl) (self_z_lg st) T compobjs
            (self_num_comps st))"
proof -
  let ?st1 = "st\<lparr> self_R_sm := map (\<lambda>r. r * a_factor st an P L k) Rs,
              self_R_lg := map (\<lambda>r. r * a_factor st an P L k) Rl \<rparr>"
  have c: "compute_integral_constants st T P L k = Inr ?st1"
    using assms(1-3) by (rule compute_integral_constants_closed)
  have l: "langmuir_loop quad ?st1 T (C_val T) 0 compobjs (zeros (self_num_comps st), zeros (self_num_comps st))
        = Inr (langmuir_vec quad (self_R_sm ?st1) (self_z_sm ?st1) T compobjs (self_num_comps st),
               langmuir_vec quad (self_R_lg ?st1) (self_z_lg ?st1) T compobjs (self_num_comps st))"
    using assms(4-6)
    by (subst langmuir_loop_closed) (auto simp: zeros_def langmuir_vec_def)
  show ?thesis
    unfolding langmuir_consts_def c
    using assms(7) by (simp add: bind_err_def l C_const_eq)
qed

lemma langmuir_entry_milne:
  "kih_epsk c = 0 \<Longrightarrow> R \<noteq> [] \<Longrightarrow>
   langmuir_entry quad_milne R z T c =
     (if compname c \<noteq> ''h2o'' then C_val T * ((foldl min (hd R) (tl R) - kih_a c) ^ 3 / 3) else 0)"
  by (simp add: langmuir_entry_def integrand_epsk0 quad_milne_sq)

lemma loop_error_Fin:
  assumes "\<forall>ii<length compobjs. compname (compobjs ! ii) \<noteq> ''h2o''
              \<longrightarrow> Csn ! ii \<noteq> 0 \<and> Cln ! ii \<noteq> 0"
  shows "loop_error compobjs Csn Cs Cln Cl =
     Fin (\<Sum>ii<length compobjs. if compname (compobjs ! ii) \<noteq> ''h2o''
             then \<bar>Csn ! ii - Cs ! ii\<bar> / Csn ! ii + \<bar>Cln ! ii - Cl ! ii\<bar> / Cln ! ii else 0)"
proof -
  let ?t = "\<lambda>ii. if compname (compobjs ! ii) \<noteq> ''h2o''
             then \<bar>Csn ! ii - Cs ! ii\<bar> / Csn ! ii + \<bar>Cln ! ii - Cl ! ii\<bar> / Cln ! ii else 0"
  let ?f = "\<lambda>error ii.
              if compname (compobjs ! ii) \<noteq> ''h2o''
              then np_add error
                     (np_add (np_div \<bar>Csn ! ii - Cs ! ii\<bar> (Csn ! ii))
                             (np_div \<bar>Cln ! ii - Cl ! ii\<bar> (Cln ! ii)))
              else error"
  have "n \<le> length compobjs \<Longrightarrow> foldl ?f (Fin 0) [0..<n] = Fin (\<Sum>ii<n. ?t ii)" for n
  proof (induction n)
    case 0
    then show ?case by simp
  next
    case (Suc n)
    then have n: "n < length compobjs" by simp
    show ?case using Suc n assms by (simp add: np_div_def)
  qed
  from this[of "length compobjs"] show ?thesis by (simp add: loop_error_def)
qed

lemma loop_error_stationary: "\<not> np_gt (loop_error compobjs Cs Cs Cl Cl) t" if "0 \<le> t"
proof -
  let ?f = "\<lambda>error ii.
              if compname (compobjs ! ii) \<noteq> ''h2o''
              then np_add error
                     (np_add (np_div \<bar>Cs ! ii - Cs ! ii\<bar> (Cs ! ii))
                             (np_div \<bar>Cl ! ii - Cl ! ii\<bar> (Cl ! ii)))
              else error"
  have "e = Fin 0 \<or> e = NaN \<Longrightarrow> foldl ?f e xs = Fin 0 \<or> foldl ?f e xs = NaN" for e xs
  proof (induction xs arbitrary: e)
    case Nil then show ?case by simp
  next
    case (Cons x xs)
    have "?f e x = Fin 0 \<or> ?f e x = NaN"
      using Cons.prems by (auto simp: np_div_def)
    then show ?case using Cons.IH[of "?f e x"] by simp
  qed
  from this[of "Fin 0" "[0..<length compobjs]"]
  show ?thesis using that by (auto simp: loop_error_def)
qed

lemma T_0_neq_0: "T_0 \<noteq> 0" by (simp add: T_0_def)

lemma stdstate_body_closed:
  assumes "Hs_a_norm (self_Hs st) = Some an" "Hs_R_sm (self_Hs st) = Some Rs"
    "Hs_R_lg (self_Hs st) = Some Rl" "Rs \<noteq> []" "Rl \<noteq> []"
    "length compobjs \<le> self_num_comps st"
  shows "stdstate_body quad compobjs (st, Cs, Cl, L, k) =
    (let af = a_factor st an P_0 L (scalar k);
         Csn = langmuir_vec quad (map (\<lambda>r. r * af) Rs) (self_z_sm st) T_0 compobjs (self_num_comps st);
         Cln = langmuir_vec quad (map (\<lambda>r. r * af) Rl) (self_z_lg st) T_0 compobjs (self_num_comps st);
         st1 = st\<lparr> self_R_sm := map (\<lambda>r. r * af) Rs, self_R_lg := map (\<lambda>r. r * af) Rl \<rparr>;
         st2 = st1\<lparr> self_Y_small_0 := calc_langmuir st1 Csn (self_stdstate_fug st),
                     self_Y_large_0 := calc_langmuir st1 Cln (self_stdstate_fug st) \<rparr>;
         st3 = fst (filled_lattice_size st2)
     in Inr ((st3, Csn, Cln, snd (filled_lattice_size st2),
              kappa_func st3 (self_Y_large_0 st3)),
             loop_error compobjs Csn Cs Cln Cl))"
  by (simp add: stdstate_body_def iterate_function_def langmuir_consts_closed[OF assms T_0_neq_0]
        bind_err_def Let_def case_prod_beta)

lemma hydprops_body_closed:
  assumes "Hs_a_norm (self_Hs st) = Some an" "Hs_R_sm (self_Hs st) = Some Rs"
    "Hs_R_lg (self_Hs st) = Some Rl" "Rs \<noteq> []" "Rl \<noteq> []"
    "length compobjs \<le> self_num_comps st" "T \<noteq> 0"
  shows "hydprops_body quad compobjs T P eq_fug (st, Cs, Cl, L, k) =
    (let af = a_factor st an P L (scalar k);
         Csn = langmuir_vec quad (map (\<lambda>r. r * af) Rs) (self_z_sm st) T compobjs (self_num_comps st);
         Cln = langmuir_vec quad (map (\<lambda>r. r * af) Rl) (self_z_lg st) T compobjs (self_num_comps st);
         st1 = st\<lparr> self_R_sm := map (\<lambda>r. r * af) Rs, self_R_lg := map (\<lambda>r. r * af) Rl \<rparr>;
         st2 = st1\<lparr> self_Y_small := calc_langmuir st1 Csn eq_fug,
                     self_Y_large := calc_langmuir st1 Cln eq_fug \<rparr>
     in Inr ((st2, Csn, Cln, L, kappa_func st2 (self_Y_large st2)),
             loop_error compobjs Csn Cs Cln Cl))"
  by (simp add: hydprops_body_def iterate_function_def langmuir_consts_closed[OF assms]
        bind_err_def Let_def case_prod_beta)

lemma a_factor_P_0: "a_factor st an P_0 L k = (L / an) * self_lattice_Tfactor st"
  by (simp add: a_factor_def Hydrate_size_def)

lemma np_sum_prod_zeros_right: "length a = n \<Longrightarrow> np_sum_prod a (zeros n) = 0"
  by (induction a arbitrary: n) (auto simp: np_sum_prod_def zeros_def)

lemma np_sum_prod_zeros_left: "np_sum_prod (zeros n) b = 0"
proof (induction n arbitrary: b)
  case 0 then show ?case by (simp add: np_sum_prod_def zeros_def)
next
  case (Suc n)
  then show ?case by (cases b) (simp_all add: np_sum_prod_def zeros_def)
qed

lemma calc_langmuir_zero_fug:
  "calc_langmuir st C (zeros (self_num_comps st)) = zeros (self_num_comps st)"
  by (rule nth_equalityI) (simp_all add: calc_langmuir_def zeros_def Let_def)

lemma map_zeros: "f 0 = 0 \<Longrightarrow> map f (zeros n) = zeros n"
  by (simp add: zeros_def)

lemma map2_zeros_left: "(\<And>d. f 0 d = 0) \<Longrightarrow> map2 f (zeros n) ds = zeros (min n (length ds))"
  by (rule nth_equalityI) (simp_all add: zeros_def)

lemma filled_lattice_size_zero_Y:
  assumes "self_Y_small_0 st = zeros n" "self_Y_large_0 st = zeros n"
  shows "snd (filled_lattice_size st) = Hs_a0_ast (self_Hs st)"
    and "self_Y_large_0 (fst (filled_lattice_size st)) = zeros n"
    and "self_Y_small_0 (fst (filled_lattice_size st)) = zeros n"
    and "frame st (fst (filled_lattice_size st))"
  using assms
  by (simp_all add: filled_lattice_size_def cage_distortion_def Let_def map_zeros map2_zeros_left
        np_sum_prod_zeros_left frame_def)

lemma HvdwpmEos_init_split:
  "HvdwpmEos_init quad comps T P structure =
     (case init_before_solve comps T P structure of
        Inl e \<Rightarrow> Some (Inl e)
      | Inr st2 \<Rightarrow> find_stdstate_volume quad st2 comps T P)"
  by (simp add: HvdwpmEos_init_def init_before_solve_def bind_err_def Let_def split: sum.splits)

lemma init_before_solve_fields:
  assumes "init_before_solve comps T P structure = Inr st"
  shows "\<exists>w Hs Rs Rl zs zl.
     find_water comps = Inr w \<and> HydrateStructure_init structure = Inr Hs
     \<and> Hs_R_sm Hs = Some Rs \<and> Hs_R_lg Hs = Some Rl \<and> Hs_z_sm Hs = Some zs \<and> Hs_z_lg Hs = Some zl
     \<and> self_water_ind st = w \<and> self_comps st = comps \<and> self_num_comps st = length comps
     \<and> self_T st = T \<and> self_P st = P \<and> self_gw0_RT st = gibbs_ideal (comps ! w) T P
     \<and> self_Hs st = Hs \<and> self_fug st = PyInt 0
     \<and> self_z_sm st = map (\<lambda>ii. zs ! ii) [0..<length Rs]
     \<and> self_z_lg st = map (\<lambda>ii. zl ! ii) [0..<length Rl]
     \<and> self_kappa0 st = Hs_kappa Hs
     \<and> self_a0_cubed st = lattice_to_volume st (Hs_a0_ast Hs)
     \<and> self_kappa_vec st = map (\<lambda>c. hv_kappa c (Hs_hydstruc Hs)) comps
     \<and> self_rep_sm_vec st = map (\<lambda>c. hv_rep_small c (Hs_hydstruc Hs)) comps
     \<and> self_rep_lg_vec st = map (\<lambda>c. hv_rep_large c (Hs_hydstruc Hs)) comps
     \<and> self_D_vec st = map diam comps
     \<and> self_Y_small_0 st = zeros (length comps) \<and> self_Y_large_0 st = zeros (length comps)
     \<and> self_eq_fug st = zeros (length comps)
     \<and> self_stdstate_fug st = map stdst_fug comps
     \<and> self_lattice_Tfactor st = Hydrate_size st T P_0 1.0 (Hs_kappa Hs) Linear
     \<and> self_C_small st = None \<and> self_C_large st = None"
  using assms
  by (auto simp: init_before_solve_def HydrateEos_init_def make_constant_mats_def
        HydrateEos_make_constant_mats_def bind_err_Inr_iff shell_table_def copy_z_def
        lattice_to_volume_def Hydrate_size_def
      split: if_splits option.splits)

lemma while_two_passes:
  assumes pa: "body s = Inr (sa, ea)"
    and pb: "np_gt ea TOL \<Longrightarrow> \<exists>sb eb. body sa = Inr (sb, eb) \<and> \<not> np_gt eb TOL \<and> Q sb"
    and qa: "Q sa"
  shows "\<exists>t. while_error_gt_TOL body s = Some (Inr t) \<and> Q t"
proof (cases "np_gt ea TOL")
  case False
  with pa have "run_passes body (Suc 0) s = Some (Inr sa)" by simp
  then have "while_error_gt_TOL body s = Some (Inr sa)" by (rule run_passes_imp_while)
  with qa show ?thesis by blast
next
  case True
  from pb[OF True] obtain sb eb where b: "body sa = Inr (sb, eb)" "\<not> np_gt eb TOL" "Q sb" by blast
  with pa True have "run_passes body (Suc (Suc 0)) s = Some (Inr sb)" by simp
  then have "while_error_gt_TOL body s = Some (Inr sb)" by (rule run_passes_imp_while)
  with b show ?thesis by blast
qed

lemma TOL_nonneg: "0 \<le> TOL" by (simp add: TOL_def)

lemma lattice_to_volume_frame: "frame st st' \<Longrightarrow> lattice_to_volume st' L = lattice_to_volume st L"
  by (simp add: lattice_to_volume_def frame_def)

lemma std_solve_zero_stdfug:
  assumes ibs: "init_before_solve comps T P structure = Inr st2"
    and an: "Hs_a_norm (self_Hs st2) = Some an"
    and Rs: "Hs_R_sm (self_Hs st2) = Some Rs" and Rl: "Hs_R_lg (self_Hs st2) = Some Rl"
    and ne: "Rs \<noteq> []" "Rl \<noteq> []"
    and zf: "\<forall>c\<in>set comps. stdst_fug c = 0"
  shows "\<exists>st1. find_stdstate_volume quad st2 comps T P =
            Some (Inr (st1\<lparr> self_kappa_tmp := kappa_func st2 (zeros (length comps)),
                             self_a_0 := Hs_a0_ast (self_Hs st2),
                             self_v_H_0 := self_a0_cubed st2 \<rparr>))
          \<and> frame st2 st1
          \<and> self_Y_small_0 st1 = zeros (length comps)
          \<and> self_Y_large_0 st1 = zeros (length comps)"
proof -
  from init_before_solve_fields[OF ibs]
  have n: "self_num_comps st2 = length comps"
    and sf: "self_stdstate_fug st2 = map stdst_fug comps"
    and a0c: "self_a0_cubed st2 = lattice_to_volume st2 (Hs_a0_ast (self_Hs st2))"
    and k0: "self_kappa0 st2 = Hs_kappa (self_Hs st2)"
    by auto
  have sfz: "self_stdstate_fug st2 = zeros (length comps)"
    unfolding sf zeros_def using zf by (intro nth_equalityI) simp_all
  define a0 where "a0 = Hs_a0_ast (self_Hs st2)"
  define af where "af = (a0 / an) * self_lattice_Tfactor st2"
  define CS where "CS = langmuir_vec quad (map (\<lambda>r. r * af) Rs) (self_z_sm st2) T_0 comps (length comps)"
  define CL where "CL = langmuir_vec quad (map (\<lambda>r. r * af) Rl) (self_z_lg st2) T_0 comps (length comps)"
  define k1 where "k1 = kappa_func st2 (zeros (length comps))"
  let ?a0 = a0 and ?CS = CS and ?CL = CL and ?k1 = k1
  let ?Q = "\<lambda>s :: loop_vars. \<exists>stx. s = (stx, ?CS, ?CL, ?a0, ?k1) \<and> frame st2 stx
               \<and> self_Y_small_0 stx = zeros (length comps)
               \<and> self_Y_large_0 stx = zeros (length comps)"
  have pass: "\<exists>st'. stdstate_body quad comps (st, Cs, Cl, ?a0, k)
                 = Inr ((st', ?CS, ?CL, ?a0, ?k1), loop_error comps ?CS Cs ?CL Cl)
               \<and> frame st2 st' \<and> self_Y_small_0 st' = zeros (length comps)
               \<and> self_Y_large_0 st' = zeros (length comps)"
    if fr: "frame st2 st" for st Cs Cl k
  proof -
    have h: "Hs_a_norm (self_Hs st) = Some an" "Hs_R_sm (self_Hs st) = Some Rs"
      "Hs_R_lg (self_Hs st) = Some Rl" "length comps \<le> self_num_comps st"
      using fr an Rs Rl n by (simp_all add: frame_def)
    have eqs: "self_z_sm st = self_z_sm st2"
      "self_z_lg st = self_z_lg st2" "self_num_comps st = length comps"
      "self_stdstate_fug st = zeros (length comps)"
      using fr n sfz by (simp_all add: frame_def)
    have afe: "a_factor st an P_0 a0 (scalar k) = af"
      using fr by (simp add: a_factor_P_0 af_def frame_def)
    define st1 where "st1 = st\<lparr> self_R_sm := map (\<lambda>r. r * af) Rs, self_R_lg := map (\<lambda>r. r * af) Rl \<rparr>"
    define st2' where "st2' = st1\<lparr> self_Y_small_0 := zeros (length comps),
                     self_Y_large_0 := zeros (length comps) \<rparr>"
    have n1: "self_num_comps st1 = length comps" using eqs by (simp add: st1_def)
    have cl: "calc_langmuir st1 C (zeros (length comps)) = zeros (length comps)" for C
      using calc_langmuir_zero_fug[of st1 C] n1 by simp
    have a02: "Hs_a0_ast (self_Hs st2') = a0" using fr by (simp add: st2'_def st1_def a0_def frame_def)
    have fl: "snd (filled_lattice_size st2') = a0"
      "self_Y_large_0 (fst (filled_lattice_size st2')) = zeros (length comps)"
      "self_Y_small_0 (fst (filled_lattice_size st2')) = zeros (length comps)"
      "frame st2' (fst (filled_lattice_size st2'))"
      using filled_lattice_size_zero_Y[of st2' "length comps"] a02 by (simp_all add: st2'_def)
    have fr2: "frame st2 st2'" using fr by (simp add: frame_def st2'_def st1_def)
    have fr3: "frame st2 (fst (filled_lattice_size st2'))"
      using frame_trans[OF fr2 fl(4)] .
    have kf: "kappa_func (fst (filled_lattice_size st2')) Y = kappa_func st2 Y" for Y
      using kappa_func_frame[OF fr3] .
    have "stdstate_body quad comps (st, Cs, Cl, a0, k)
            = Inr ((fst (filled_lattice_size st2'), CS, CL, a0, k1),
                   loop_error comps CS Cs CL Cl)"
      unfolding stdstate_body_closed[OF h(1-3) ne h(4)] Let_def afe eqs
        st1_def[symmetric] cl st2'_def[symmetric] fl kf CS_def[symmetric] CL_def[symmetric]
        k1_def[symmetric] ..
    with fr3 fl show ?thesis by blast
  qed
  let ?s0 = "(st2, zeros (self_num_comps st2), zeros (self_num_comps st2),
              a0, PyFloat (self_kappa0 st2))"
  from pass[OF frame_refl, of "zeros (self_num_comps st2)" "zeros (self_num_comps st2)"
      "PyFloat (self_kappa0 st2)"]
  obtain sta where p1: "stdstate_body quad comps ?s0
       = Inr ((sta, ?CS, ?CL, ?a0, ?k1),
              loop_error comps ?CS (zeros (self_num_comps st2)) ?CL (zeros (self_num_comps st2)))"
    and fa: "frame st2 sta" "self_Y_small_0 sta = zeros (length comps)"
      "self_Y_large_0 sta = zeros (length comps)" by blast
  from pass[OF fa(1), of ?CS ?CL ?k1]
  obtain stb where p2: "stdstate_body quad comps (sta, ?CS, ?CL, ?a0, ?k1)
       = Inr ((stb, ?CS, ?CL, ?a0, ?k1), loop_error comps ?CS ?CS ?CL ?CL)"
    and fb: "frame st2 stb" "self_Y_small_0 stb = zeros (length comps)"
      "self_Y_large_0 stb = zeros (length comps)" by blast
  have "\<exists>t. while_error_gt_TOL (stdstate_body quad comps) ?s0 = Some (Inr t) \<and> ?Q t"
  proof (rule while_two_passes[where body = "stdstate_body quad comps" and s = ?s0
        and sa = "(sta, CS, CL, a0, k1)" and Q = ?Q, OF p1])
    show "?Q (sta, ?CS, ?CL, ?a0, ?k1)" using fa by simp
    show "\<exists>s2 e2. stdstate_body quad comps (sta, ?CS, ?CL, ?a0, ?k1) = Inr (s2, e2)
            \<and> \<not> np_gt e2 TOL \<and> ?Q s2"
      using p2 fb loop_error_stationary[OF TOL_nonneg, of comps ?CS ?CL] by blast
  qed
  then obtain stx where w: "while_error_gt_TOL (stdstate_body quad comps) ?s0
        = Some (Inr (stx, ?CS, ?CL, ?a0, ?k1))"
    and fx: "frame st2 stx" "self_Y_small_0 stx = zeros (length comps)"
      "self_Y_large_0 stx = zeros (length comps)" by blast
  have "find_stdstate_volume quad st2 comps T P =
            Some (Inr (stx\<lparr> self_kappa_tmp := ?k1, self_a_0 := ?a0,
                             self_v_H_0 := self_a0_cubed st2 \<rparr>))"
    using w by (simp add: find_stdstate_volume_def a0c lattice_to_volume_frame[OF fx(1)] a0_def)
  with fx show ?thesis unfolding k1_def a0_def by blast
qed

lemma HydrateStructure_init_s1: "HydrateStructure_init ''s1'' = Inr table_s1"
  by (simp add: HydrateStructure_init_def lower_def lower_char_def menu_s1_def)

lemma HydrateStructure_init_s2: "HydrateStructure_init ''s2'' = Inr table_s2"
  by (simp add: HydrateStructure_init_def lower_def lower_char_def menu_s1_def menu_s2_def)

lemma init_before_solve_ok:
  assumes "find_water comps = Inr w" "HydrateStructure_init structure = Inr Hs"
    "Hs_R_sm Hs = Some Rs" "Hs_R_lg Hs = Some Rl" "Hs_z_sm Hs = Some zs" "Hs_z_lg Hs = Some zl"
    "length Rs \<le> length zs" "length Rl \<le> length zl"
  shows "\<exists>st2. init_before_solve comps T P structure = Inr st2"
  using assms find_water_Inr[OF assms(1)]
  by (simp add: init_before_solve_def HydrateEos_init_def bind_err_def shell_table_def copy_z_def
      make_constant_mats_def HydrateEos_make_constant_mats_def)

lemma construct_zero_stdfug_tables:
  assumes w: "find_water comps = Inr w"
    and Hs: "HydrateStructure_init structure = Inr Hs"
    and t: "Hs_a_norm Hs = Some an" "Hs_R_sm Hs = Some Rs"
    "Hs_R_lg Hs = Some Rl" "Hs_z_sm Hs = Some zs" "Hs_z_lg Hs = Some zl"
    "length Rs \<le> length zs" "length Rl \<le> length zl" "Rs \<noteq> []" "Rl \<noteq> []"
    and zf: "\<forall>c\<in>set comps. stdst_fug c = 0"
  shows "\<exists>st2 st1. init_before_solve comps T P structure = Inr st2
          \<and> HvdwpmEos_init quad comps T P structure =
              Some (Inr (st1\<lparr> self_kappa_tmp := kappa_func st2 (zeros (length comps)),
                               self_a_0 := Hs_a0_ast (self_Hs st2),
                               self_v_H_0 := self_a0_cubed st2 \<rparr>))
          \<and> frame st2 st1"
proof -
  from init_before_solve_ok[OF w Hs t(2-7)]
  obtain st2 where st2: "init_before_solve comps T P structure = Inr st2" by blast
  from init_before_solve_fields[OF st2] Hs have "self_Hs st2 = Hs" by auto
  with t have h: "Hs_a_norm (self_Hs st2) = Some an" "Hs_R_sm (self_Hs st2) = Some Rs"
    "Hs_R_lg (self_Hs st2) = Some Rl" by simp_all
  from std_solve_zero_stdfug[OF st2 h t(8,9) zf, of quad]
  show ?thesis by (auto simp: HvdwpmEos_init_split st2)
qed

lemma table_s1_shells:
  "Hs_a_norm table_s1 = Some 12.03" "Hs_R_sm table_s1 = Some [3.83, 3.96]"
  "Hs_R_lg table_s1 = Some [4.47, 4.06, 4.645, 4.25]"
  "Hs_z_sm table_s1 = Some [8, 12]" "Hs_z_lg table_s1 = Some [8, 8, 4, 4]"
  by (simp_all add: table_s1_def)

lemma table_s2_shells:
  "Hs_a_norm table_s2 = Some 17.1" "Hs_R_sm table_s2 = Some [3.748, 3.845, 3.956]"
  "Hs_R_lg table_s2 = Some [4.729, 4.715, 4.635]"
  "Hs_z_sm table_s2 = Some [2, 6, 12]" "Hs_z_lg table_s2 = Some [4, 12, 12]"
  by (simp_all add: table_s2_def)

lemma construct_zero_stdfug:
  assumes w: "find_water comps = Inr w"
    and s: "structure = ''s1'' \<or> structure = ''s2''"
    and zf: "\<forall>c\<in>set comps. stdst_fug c = 0"
  shows "\<exists>st. HvdwpmEos_init quad comps T P structure = Some (Inr st)"
proof -
  from s show ?thesis
  proof
    assume "structure = ''s1''"
    then have Hs: "HydrateStructure_init structure = Inr table_s1"
      by (simp add: HydrateStructure_init_s1)
    from construct_zero_stdfug_tables[OF w Hs table_s1_shells _ _ _ _ zf, where quad=quad and T=T and P=P]
    show ?thesis by auto
  next
    assume "structure = ''s2''"
    then have Hs: "HydrateStructure_init structure = Inr table_s2"
      by (simp add: HydrateStructure_init_s2)
    from construct_zero_stdfug_tables[OF w Hs table_s2_shells _ _ _ _ zf, where quad=quad and T=T and P=P]
    show ?thesis by auto
  qed
qed

lemma find_water_comps2: "find_water comps2 = Inr 0"
  by (simp add: find_water_def comps2_def h2o_def guest_def upt_rec[of 0] upt_rec[of 1] upt_rec[of 2]
      upt_rec[of "Suc 0"])

lemma comps2_zero_stdfug: "\<forall>c\<in>set comps2. stdst_fug c = 0"
  by (simp add: comps2_def h2o_def guest_def)

lemma comps2_instance: "\<exists>st. HvdwpmEos_init quad_milne comps2 T_0 P_0 ''s1'' = Some (Inr st)"
  by (rule construct_zero_stdfug[OF find_water_comps2 _ comps2_zero_stdfug]) simp

text \<open>
  Claim C1 (the code does otherwise). A call of \<open>calc\<close> with the instance's own component
  list and a mole-fraction list of the same length does not return a fugacity vector: it
  raises NameError, because the body reads the name \<open>compobjs\<close>, which is not bound in
  \<open>calc\<close>. This holds for every instance, temperature and pressure, whether or not they
  differ from the values at construction.
\<close>

theorem calc_raises_NameError:
  assumes "comps = self_comps st" "length x = length comps"
  shows "calc quad st comps T P x eq_fug = Some (Inl (NameError ''compobjs''))"
  using assms by (simp add: calc_def load_name_def calc_scope_def bind_err_def)

theorem calc_raises_NameError_witness:
  "case HvdwpmEos_init quad_milne comps2 T_0 P_0 ''s1'' of
     Some (Inr st) \<Rightarrow>
       comps2 = self_comps st \<and> length [0.9, 0.1 :: real] = length comps2
       \<and> calc quad_milne st comps2 277.15 30 [0.9, 0.1] [0, 25] = Some (Inl (NameError ''compobjs''))
       \<and> calc quad_milne st comps2 T_0 P_0 [0.9, 0.1] [0, 25] = Some (Inl (NameError ''compobjs''))
   | _ \<Rightarrow> False"
proof -
  obtain st where st: "HvdwpmEos_init quad_milne comps2 T_0 P_0 ''s1'' = Some (Inr st)"
    using comps2_instance by blast
  have c: "comps2 = self_comps st" using HvdwpmEos_init_fields[OF st] by simp
  have l: "length [0.9, 0.1 :: real] = length comps2" by (simp add: comps2_def)
  show ?thesis
    using calc_raises_NameError[OF c l, of quad_milne "277.15" 30 "[0, 25]"]
      calc_raises_NameError[OF c l, of quad_milne T_0 P_0 "[0, 25]"] c l
    by (simp add: st)
qed

text \<open>
  Claim C4, as amended. A call of \<open>calc\<close> with a component list that differs from the
  instance's list raises nothing when the mole-fraction list has the length of the supplied
  list: it returns \<open>None\<close> (after printing a warning) and leaves the instance unchanged. When
  the lengths differ, the length test that precedes the comparison raises RuntimeError.
\<close>

theorem calc_changed_components:
  assumes "comps \<noteq> self_comps st"
  shows "(length x = length comps \<longrightarrow> calc quad st comps T P x eq_fug = Some (Inr (None, st)))
       \<and> (length x \<noteq> length comps \<longrightarrow>
            (\<exists>msg. calc quad st comps T P x eq_fug = Some (Inl (RuntimeError msg))))"
  using assms by (simp add: calc_def)

theorem calc_changed_components_witness:
  "case HvdwpmEos_init quad_milne comps2 T_0 P_0 ''s1'' of
     Some (Inr st) \<Rightarrow>
       [h2o] \<noteq> self_comps st
       \<and> calc quad_milne st [h2o] T_0 P_0 [1] [0] = Some (Inr (None, st))
       \<and> (\<exists>msg. calc quad_milne st [h2o] T_0 P_0 [] [0] = Some (Inl (RuntimeError msg)))
   | _ \<Rightarrow> False"
proof -
  obtain st where st: "HvdwpmEos_init quad_milne comps2 T_0 P_0 ''s1'' = Some (Inr st)"
    using comps2_instance by blast
  have c: "[h2o] \<noteq> self_comps st" using HvdwpmEos_init_fields[OF st] by (simp add: comps2_def)
  show ?thesis
    using calc_changed_components[OF c, of "[1]" quad_milne T_0 P_0 "[0]"]
      calc_changed_components[OF c, of "[]" quad_milne T_0 P_0 "[0]"] c
    by (simp add: st)
qed

theorem calc_returns_None_counterexample:
  "case HvdwpmEos_init quad_milne comps2 T_0 P_0 ''s1'' of
     Some (Inr st) \<Rightarrow>
       [h2o, guest ''c2h6'' 0 0 0 0 0] \<noteq> self_comps st
       \<and> calc quad_milne st [h2o, guest ''c2h6'' 0 0 0 0 0] T_0 P_0 [0.9, 0.1] [0, 25]
           = Some (Inr (None, st))
   | _ \<Rightarrow> False"
proof -
  obtain st where st: "HvdwpmEos_init quad_milne comps2 T_0 P_0 ''s1'' = Some (Inr st)"
    using comps2_instance by blast
  have c: "[h2o, guest ''c2h6'' 0 0 0 0 0] \<noteq> self_comps st"
    using HvdwpmEos_init_fields[OF st] by (simp add: comps2_def guest_def)
  show ?thesis using c by (simp add: st calc_def)
qed

text \<open>
  Claim C5 (the code does otherwise for a missing water component). When no component is
  named \<open>h2o\<close> the constructor raises IndexError, not the RuntimeError that its handler is
  meant to raise: the handler catches ValueError only. The structure identifier is not
  reached. (For a list with water, \<open>HydrateStructure_init_cases\<close> and
  \<open>construct_unknown_structure\<close> below give the part of the claim that holds: the lower-cased
  identifier selects the table of \<open>s1\<close>, \<open>s2\<close> or \<open>sH\<close> by its alias, and any other
  string raises RuntimeError.)
\<close>

theorem construct_without_water:
  assumes "\<forall>c\<in>set comps. compname c \<noteq> ''h2o''"
  shows "HvdwpmEos_init quad comps T P structure = Some (Inl IndexError)"
proof -
  have "find_water comps = Inl IndexError" using assms by (simp add: find_water_Inl)
  then show ?thesis
    by (simp add: HvdwpmEos_init_def HydrateEos_init_def bind_err_def)
qed

theorem construct_without_water_witness:
  "compname (guest ''ch4'' 0 0 0 0 0) \<noteq> ''h2o''
   \<and> HvdwpmEos_init quad_milne [guest ''ch4'' 0 0 0 0 0] T_0 P_0 ''s1'' = Some (Inl IndexError)"
  using construct_without_water[of "[guest ''ch4'' 0 0 0 0 0]" quad_milne T_0 P_0 "''s1''"]
  by (simp add: guest_def)

lemma HydrateStructure_init_cases:
  "HydrateStructure_init hyd_type =
     (if lower hyd_type \<in> {''s1'', ''1'', ''si'', ''i'', ''one''} then Inr table_s1
      else if lower hyd_type \<in> {''s2'', ''2'', ''sii'', ''ii'', ''two''} then Inr table_s2
      else if lower hyd_type \<in> {''sh'', ''h''} then Inr table_sH
      else Inl (RuntimeError (hyd_type @ '' is not a supported hydrate structure!!'')))"
  by (simp add: HydrateStructure_init_def menu_s1_def menu_s2_def menu_sh_def)

lemma construct_unknown_structure:
  assumes "find_water comps = Inr w"
    and "lower structure \<notin> {''s1'', ''1'', ''si'', ''i'', ''one'', ''s2'', ''2'', ''sii'', ''ii'', ''two'', ''sh'', ''h''}"
  shows "\<exists>msg. HvdwpmEos_init quad comps T P structure = Some (Inl (RuntimeError msg))"
  using assms
  by (simp add: HvdwpmEos_init_def HydrateEos_init_def bind_err_def HydrateStructure_init_cases)

lemma comps2_instance_fields:
  assumes "HvdwpmEos_init quad_milne comps2 T_0 P_0 ''s1'' = Some (Inr st)"
  shows "self_comps st = comps2" "self_num_comps st = 2" "self_Hs st = table_s1"
  using HvdwpmEos_init_fields[OF assms] by (simp_all add: comps2_def HydrateStructure_init_s1)

theorem two_component_solve_raises_witness:
  "case HvdwpmEos_init quad_milne comps2 T_0 P_0 ''s1'' of
     Some (Inr st) \<Rightarrow>
       length comps2 = 2
       \<and> self_kappa_tmp st = PyFloat (3 / 10 ^ 5)
       \<and> find_hydrate_properties quad_milne st comps2 277.15 30 [0, 25]
           = Some (Inl (AttributeError ''copy''))
       \<and> fugacity quad_milne st comps2 277.15 30 [0.9, 0.1] [0, 25]
           = Some (Inl (AttributeError ''copy''))
   | _ \<Rightarrow> False"
proof -
  obtain st where st: "HvdwpmEos_init quad_milne comps2 T_0 P_0 ''s1'' = Some (Inr st)"
    using comps2_instance by blast
  have two: "length comps2 = 2" by (simp add: comps2_def)
  from two_component_solve_raises[OF st two, of "[]" quad_milne comps2 "277.15" 30 "[0, 25]" "[0.9, 0.1]"]
  show ?thesis
    using two by (simp add: st comps2_instance_fields[OF st] table_s1_def)
qed




lemma Hydrate_size_frame: "frame st st' \<Longrightarrow> Hydrate_size st' T P v k d = Hydrate_size st T P v k d"
  by (simp add: Hydrate_size_def frame_def)

lemma Hydrate_size_T_0_P_0: "Hydrate_size st T_0 P_0 v k d = v"
  by (simp add: Hydrate_size_def)

lemma constructed_zero_stdfug_fields:
  assumes w: "find_water comps = Inr w"
    and Hs: "HydrateStructure_init structure = Inr Hs"
    and t: "Hs_a_norm Hs = Some an" "Hs_R_sm Hs = Some Rs"
    "Hs_R_lg Hs = Some Rl" "Hs_z_sm Hs = Some zs" "Hs_z_lg Hs = Some zl"
    "length Rs \<le> length zs" "length Rl \<le> length zl" "Rs \<noteq> []" "Rl \<noteq> []"
    and zf: "\<forall>c\<in>set comps. stdst_fug c = 0"
  shows "\<exists>st. HvdwpmEos_init quad comps T P structure = Some (Inr st)
     \<and> self_water_ind st = w \<and> self_comps st = comps \<and> self_num_comps st = length comps
     \<and> self_T st = T \<and> self_P st = P \<and> self_gw0_RT st = gibbs_ideal (comps ! w) T P
     \<and> self_Hs st = Hs \<and> self_fug st = PyInt 0
     \<and> self_z_sm st = map (\<lambda>ii. zs ! ii) [0..<length Rs]
     \<and> self_z_lg st = map (\<lambda>ii. zl ! ii) [0..<length Rl]
     \<and> self_kappa0 st = Hs_kappa Hs
     \<and> self_a0_cubed st = lattice_to_volume st (Hs_a0_ast Hs)
     \<and> self_kappa_vec st = map (\<lambda>c. hv_kappa c (Hs_hydstruc Hs)) comps
     \<and> self_eq_fug st = zeros (length comps)
     \<and> self_lattice_Tfactor st = Hydrate_size st T P_0 1.0 (Hs_kappa Hs) Linear
     \<and> self_C_small st = None \<and> self_C_large st = None
     \<and> self_kappa_tmp st = kappa_func st (zeros (length comps))
     \<and> self_a_0 st = Hs_a0_ast Hs
     \<and> self_v_H_0 st = self_a0_cubed st"
proof -
  from construct_zero_stdfug_tables[OF w Hs t zf, where quad = quad and T = T and P = P]
  obtain st2 st1 where ibs: "init_before_solve comps T P structure = Inr st2"
    and init: "HvdwpmEos_init quad comps T P structure =
              Some (Inr (st1\<lparr> self_kappa_tmp := kappa_func st2 (zeros (length comps)),
                               self_a_0 := Hs_a0_ast (self_Hs st2),
                               self_v_H_0 := self_a0_cubed st2 \<rparr>))"
    and fr: "frame st2 st1" by blast
  let ?st = "st1\<lparr> self_kappa_tmp := kappa_func st2 (zeros (length comps)),
                               self_a_0 := Hs_a0_ast (self_Hs st2),
                               self_v_H_0 := self_a0_cubed st2 \<rparr>"
  have fr': "frame st2 (st1\<lparr> self_kappa_tmp := self_kappa_tmp st2, self_a_0 := self_a_0 st2,
                    self_v_H_0 := self_v_H_0 st2 \<rparr>)"
    using fr by (simp add: frame_def)
  have hs: "Hydrate_size ?st a b c d e = Hydrate_size st2 a b c d e" for a b c d e
    using fr by (simp add: Hydrate_size_def frame_def)
  have lv: "lattice_to_volume ?st L = lattice_to_volume st2 L" for L
    using fr by (simp add: lattice_to_volume_def frame_def)
  have kf: "kappa_func ?st Y = kappa_func st2 Y" for Y
    using fr by (simp add: kappa_func_def frame_def)
  from init_before_solve_fields[OF ibs] w Hs t
  have f2: "self_water_ind st2 = w" "self_comps st2 = comps" "self_num_comps st2 = length comps"
     "self_T st2 = T" "self_P st2 = P" "self_gw0_RT st2 = gibbs_ideal (comps ! w) T P"
     "self_Hs st2 = Hs" "self_fug st2 = PyInt 0"
     "self_z_sm st2 = map (\<lambda>ii. zs ! ii) [0..<length Rs]"
     "self_z_lg st2 = map (\<lambda>ii. zl ! ii) [0..<length Rl]"
     "self_kappa0 st2 = Hs_kappa Hs"
     "self_a0_cubed st2 = lattice_to_volume st2 (Hs_a0_ast Hs)"
     "self_kappa_vec st2 = map (\<lambda>c. hv_kappa c (Hs_hydstruc Hs)) comps"
     "self_eq_fug st2 = zeros (length comps)"
     "self_lattice_Tfactor st2 = Hydrate_size st2 T P_0 1.0 (Hs_kappa Hs) Linear"
     "self_C_small st2 = None" "self_C_large st2 = None"
    by auto
  have "self_water_ind ?st = w \<and> self_comps ?st = comps \<and> self_num_comps ?st = length comps
     \<and> self_T ?st = T \<and> self_P ?st = P \<and> self_gw0_RT ?st = gibbs_ideal (comps ! w) T P
     \<and> self_Hs ?st = Hs \<and> self_fug ?st = PyInt 0
     \<and> self_z_sm ?st = map (\<lambda>ii. zs ! ii) [0..<length Rs]
     \<and> self_z_lg ?st = map (\<lambda>ii. zl ! ii) [0..<length Rl]
     \<and> self_kappa0 ?st = Hs_kappa Hs
     \<and> self_a0_cubed ?st = lattice_to_volume ?st (Hs_a0_ast Hs)
     \<and> self_kappa_vec ?st = map (\<lambda>c. hv_kappa c (Hs_hydstruc Hs)) comps
     \<and> self_eq_fug ?st = zeros (length comps)
     \<and> self_lattice_Tfactor ?st = Hydrate_size ?st T P_0 1.0 (Hs_kappa Hs) Linear
     \<and> self_C_small ?st = None \<and> self_C_large ?st = None
     \<and> self_kappa_tmp ?st = kappa_func ?st (zeros (length comps))
     \<and> self_a_0 ?st = Hs_a0_ast Hs
     \<and> self_v_H_0 ?st = self_a0_cubed ?st"
    unfolding hs lv kf using fr f2 by (simp add: frame_def)
  with init show ?thesis by blast
qed

lemma find_water_h2o_first: "find_water (h2o # cs) = Inr 0"
proof -
  have "[0..<length (h2o # cs)] = 0 # [Suc 0..<Suc (length cs)]"
    by (simp add: upt_rec)
  then show ?thesis by (simp add: find_water_def h2o_def)
qed



lemma langmuir_vec_two:
  "langmuir_vec quad R z T [c0, c1] 2 = [langmuir_entry quad R z T c0, langmuir_entry quad R z T c1]"
  by (simp add: langmuir_vec_def upt_rec[of 0] upt_rec[of 1] upt_rec[of "Suc 0"] upt_rec[of 2]
      numeral_2_eq_2)





lemma cyc_next_values: "cyc_next 17.1 = 8.55" "cyc_next 8.55 = 17.1"
  by (simp_all add: cyc_next_def Let_def cyc_rep_small_def cyc_rep_large_def power_divide)

lemma cyc_state_frame: "cyc_state st \<Longrightarrow> frame st st' \<Longrightarrow> cyc_state st'"
  by (simp add: cyc_state_def frame_def)

lemma cyc_fug_times:
  "C_val T_0 * ((Rmin * af) ^ 3 / 3) * cyc_fug = (Rmin * af / 4.635) ^ 3"
proof -
  have "C_val T_0 \<noteq> 0" using C_val_pos[OF T_0_pos] by simp
  then show ?thesis
    by (simp add: cyc_fug_def power_divide power_mult_distrib)
qed

lemma upt_2: "[0..<2] = [0, Suc 0]"
  by (simp add: upt_rec numeral_2_eq_2)

lemma cyc_langmuir_vec:
  assumes "0 < af"
  shows "langmuir_vec quad_milne (map (\<lambda>r. r * af) [3.748, 3.845, 3.956]) z T_0 comps_cyc 2
           = [0, C_val T_0 * ((3.748 * af) ^ 3 / 3)]"
    and "langmuir_vec quad_milne (map (\<lambda>r. r * af) [4.729, 4.715, 4.635]) z T_0 comps_cyc 2
           = [0, C_val T_0 * ((4.635 * af) ^ 3 / 3)]"
proof -
  have m1: "foldl min (hd (map (\<lambda>r. r * af) [3.748, 3.845, 3.956]))
              (tl (map (\<lambda>r. r * af) [3.748, 3.845, 3.956])) = 3.748 * af"
    using assms by (simp add: min_def)
  have m2: "foldl min (hd (map (\<lambda>r. r * af) [4.729, 4.715, 4.635]))
              (tl (map (\<lambda>r. r * af) [4.729, 4.715, 4.635])) = 4.635 * af"
    using assms by (simp add: min_def)
  have g: "kih_epsk (guest ''ch4'' 0 cyc_fug 0 cyc_rep_small cyc_rep_large) = 0"
    "compname (guest ''ch4'' 0 cyc_fug 0 cyc_rep_small cyc_rep_large) \<noteq> ''h2o''"
    "kih_a (guest ''ch4'' 0 cyc_fug 0 cyc_rep_small cyc_rep_large) = 0"
    by (simp_all add: guest_def)
  have ne: "map (\<lambda>r. r * af) [3.748, 3.845, 3.956] \<noteq> []"
    "map (\<lambda>r. r * af) [4.729, 4.715, 4.635] \<noteq> []" by simp_all
  have ew: "langmuir_entry quad_milne R z T_0 h2o = 0" for R
    by (simp add: langmuir_entry_def h2o_def)
  show "langmuir_vec quad_milne (map (\<lambda>r. r * af) [3.748, 3.845, 3.956]) z T_0 comps_cyc 2
           = [0, C_val T_0 * ((3.748 * af) ^ 3 / 3)]"
    unfolding comps_cyc_def langmuir_vec_two ew langmuir_entry_milne[OF g(1) ne(1)] m1 g(3)
    using g(2) by simp
  show "langmuir_vec quad_milne (map (\<lambda>r. r * af) [4.729, 4.715, 4.635]) z T_0 comps_cyc 2
           = [0, C_val T_0 * ((4.635 * af) ^ 3 / 3)]"
    unfolding comps_cyc_def langmuir_vec_two ew langmuir_entry_milne[OF g(1) ne(2)] m2 g(3)
    using g(2) by simp
qed

lemma np_sum_prod_two: "np_sum_prod [0, c] [0, f] = c * f"
  by (simp add: np_sum_prod_def)

lemma calc_langmuir_two:
  assumes "self_num_comps st = 2" "compname (self_comps st ! 0) = ''h2o''"
    "compname (self_comps st ! Suc 0) \<noteq> ''h2o''" "c * f = x"
  shows "calc_langmuir st [0, c] [0, f] = [0, x / (1 + x)]"
  using assms by (simp add: calc_langmuir_def upt_2 Let_def np_sum_prod_two)

lemma cyc_calc_langmuir:
  assumes "self_comps st = comps_cyc" "self_num_comps st = 2"
  shows "calc_langmuir st [0, C_val T_0 * ((Rmin * af) ^ 3 / 3)] [0, cyc_fug]
           = [0, (Rmin * af / 4.635) ^ 3 / (1 + (Rmin * af / 4.635) ^ 3)]"
proof -
  have n: "compname (self_comps st ! 0) = ''h2o''" "compname (self_comps st ! Suc 0) \<noteq> ''h2o''"
    by (simp_all add: assms comps_cyc_def h2o_def guest_def)
  show ?thesis
    by (rule calc_langmuir_two[OF assms(2) n cyc_fug_times])
qed

lemma cyc_filled_lattice_size:
  assumes c: "cyc_state st"
    and Y: "self_Y_small_0 st = [0, ys]" "self_Y_large_0 st = [0, yl]"
  shows "snd (filled_lattice_size st) =
           17.1 + 16 * ((1 + 20 / 136) * ys / (1 + 20 / 136 * ys) * cyc_rep_small)
                + 8 * ((1 + 28 / 136) * yl / (1 + 28 / 136 * yl) * cyc_rep_large)"
    and "frame st (fst (filled_lattice_size st))"
    and "self_Y_large_0 (fst (filled_lattice_size st)) = [0, yl]"
proof -
  have f: "self_Hs st = table_s2" "self_num_comps st = 2"
    "self_rep_sm_vec st = [0, cyc_rep_small]" "self_rep_lg_vec st = [0, cyc_rep_large]"
    using c by (simp_all add: cyc_state_def)
  have t: "Hs_etam_small table_s2 = 20" "Hs_etam_large table_s2 = 28" "Hs_Num_h2o table_s2 = 136"
    "Hs_a0_ast table_s2 = 17.1" "Hs_Nm_small table_s2 = 16" "Hs_Nm_large table_s2 = 8"
    by (simp_all add: table_s2_def)
  show "snd (filled_lattice_size st) =
           17.1 + 16 * ((1 + 20 / 136) * ys / (1 + 20 / 136 * ys) * cyc_rep_small)
                + 8 * ((1 + 28 / 136) * yl / (1 + 28 / 136 * yl) * cyc_rep_large)"
    unfolding filled_lattice_size_def cage_distortion_def Let_def
    by (simp add: f t Y np_sum_prod_two)
  show "frame st (fst (filled_lattice_size st))"
    by (simp add: filled_lattice_size_def cage_distortion_def Let_def frame_def)
  show "self_Y_large_0 (fst (filled_lattice_size st)) = [0, yl]"
    by (simp add: filled_lattice_size_def cage_distortion_def Let_def Y)
qed

lemma cyc_pass:
  assumes c: "cyc_state st" and L: "0 < L"
  shows "\<exists>st'. stdstate_body quad_milne comps_cyc (st, Cs, Cl, L, k) =
           Inr ((st', cyc_C 3.748 L, cyc_C 4.635 L, cyc_next L, PyFloat (3 / 10 ^ 6)),
                loop_error comps_cyc (cyc_C 3.748 L) Cs (cyc_C 4.635 L) Cl)
         \<and> cyc_state st'"
proof -
  have f: "self_Hs st = table_s2" "self_comps st = comps_cyc" "self_num_comps st = 2"
    "self_lattice_Tfactor st = 1" "self_stdstate_fug st = [0, cyc_fug]"
    "self_kappa0 st = 3 / 10 ^ 6"
    using c by (simp_all add: cyc_state_def)
  have t: "Hs_a_norm (self_Hs st) = Some 17.1" "Hs_R_sm (self_Hs st) = Some [3.748, 3.845, 3.956]"
    "Hs_R_lg (self_Hs st) = Some [4.729, 4.715, 4.635]"
    unfolding f by (rule table_s2_shells)+
  have ne: "[3.748, 3.845, 3.956 :: real] \<noteq> []" "[4.729, 4.715, 4.635 :: real] \<noteq> []"
    by simp_all
  have len: "length comps_cyc \<le> self_num_comps st" by (simp add: f comps_cyc_def)
  define af where "af = L / (17.1 :: real)"
  have afp: "0 < af" using L by (simp add: af_def)
  have A: "a_factor st 17.1 P_0 L (scalar k) = af"
    by (simp add: a_factor_P_0 f af_def)
  define CS where "CS = cyc_C 3.748 L"
  define CL where "CL = cyc_C 4.635 L"
  have CSe: "CS = [0, C_val T_0 * ((3.748 * af) ^ 3 / 3)]"
    and CLe: "CL = [0, C_val T_0 * ((4.635 * af) ^ 3 / 3)]"
    by (simp_all add: CS_def CL_def cyc_C_def af_def)
  have B: "langmuir_vec quad_milne (map (\<lambda>r. r * af) [3.748, 3.845, 3.956]) (self_z_sm st) T_0
             comps_cyc 2 = CS"
    "langmuir_vec quad_milne (map (\<lambda>r. r * af) [4.729, 4.715, 4.635]) (self_z_lg st) T_0
             comps_cyc 2 = CL"
    unfolding CSe CLe by (rule cyc_langmuir_vec[OF afp])+
  define st1 where "st1 = st\<lparr> self_R_sm := map (\<lambda>r. r * af) [3.748, 3.845, 3.956],
                                self_R_lg := map (\<lambda>r. r * af) [4.729, 4.715, 4.635] \<rparr>"
  have f1: "self_comps st1 = comps_cyc" "self_num_comps st1 = 2"
    by (simp_all add: st1_def f)
  define ys where "ys = (3.748 * af / 4.635) ^ 3 / (1 + (3.748 * af / 4.635) ^ 3)"
  define yl where "yl = (4.635 * af / 4.635) ^ 3 / (1 + (4.635 * af / 4.635) ^ 3)"
  have C: "calc_langmuir st1 CS [0, cyc_fug] = [0, ys]"
    "calc_langmuir st1 CL [0, cyc_fug] = [0, yl]"
    unfolding CSe CLe ys_def yl_def by (rule cyc_calc_langmuir[OF f1])+
  define st2 where "st2 = st1\<lparr> self_Y_small_0 := [0, ys], self_Y_large_0 := [0, yl] \<rparr>"
  have c2: "cyc_state st2" using c by (simp add: cyc_state_def st2_def st1_def)
  have Y2: "self_Y_small_0 st2 = [0, ys]" "self_Y_large_0 st2 = [0, yl]"
    by (simp_all add: st2_def)
  note fl = cyc_filled_lattice_size[OF c2 Y2]
  have D: "snd (filled_lattice_size st2) = cyc_next L"
    unfolding fl(1) cyc_next_def Let_def ys_def yl_def af_def ..
  have c3: "cyc_state (fst (filled_lattice_size st2))"
    by (rule cyc_state_frame[OF c2 fl(2)])
  have E: "kappa_func (fst (filled_lattice_size st2)) Y = PyFloat (3 / 10 ^ 6)" for Y
    using c3 by (simp add: kappa_func_def cyc_state_def)
  have "stdstate_body quad_milne comps_cyc (st, Cs, Cl, L, k) =
           Inr ((fst (filled_lattice_size st2), CS, CL, cyc_next L, PyFloat (3 / 10 ^ 6)),
                loop_error comps_cyc CS Cs CL Cl)"
    unfolding stdstate_body_closed[OF t ne len] Let_def A f(3) f(5) B st1_def[symmetric] C
      st2_def[symmetric] D E ..
  with c3 show ?thesis unfolding CS_def CL_def by blast
qed

lemma cyc_loop_error_gt:
  assumes "0 < ca" "0 < cb" "TOL < \<bar>ca - oa\<bar> / ca"
  shows "np_gt (loop_error comps_cyc [0, ca] [x, oa] [0, cb] [y, ob]) TOL"
proof -
  have n: "compname (comps_cyc ! 0) = ''h2o''" "compname (comps_cyc ! Suc 0) \<noteq> ''h2o''"
    "length comps_cyc = 2"
    by (simp_all add: comps_cyc_def h2o_def guest_def)
  have e: "loop_error comps_cyc [0, ca] [x, oa] [0, cb] [y, ob]
        = Fin (\<bar>ca - oa\<bar> / ca + \<bar>cb - ob\<bar> / cb)"
    using assms(1,2) by (simp add: loop_error_def n upt_2 np_div_def)
  have "0 \<le> \<bar>cb - ob\<bar> / cb" using assms(2) by simp
  with assms(3) have "TOL < \<bar>ca - oa\<bar> / ca + \<bar>cb - ob\<bar> / cb" by linarith
  then show ?thesis by (simp add: e)
qed

lemma rel_change: "0 < K \<Longrightarrow> a \<noteq> 0 \<Longrightarrow> \<bar>K * a - K * a'\<bar> / (K * a) = \<bar>a - a'\<bar> / a"
  for K a a' :: real
proof -
  assume K: "0 < K" and a: "a \<noteq> 0"
  have "\<bar>K * a - K * a'\<bar> = K * \<bar>a - a'\<bar>"
    using K by (simp add: right_diff_distrib[symmetric] abs_mult)
  then show ?thesis using K a by simp
qed

lemma cyc_errors:
  "np_gt (loop_error comps_cyc (cyc_C 3.748 17.1) (zeros 2) (cyc_C 4.635 17.1) (zeros 2)) TOL"
  "np_gt (loop_error comps_cyc (cyc_C 3.748 17.1) (cyc_C 3.748 8.55)
            (cyc_C 4.635 17.1) (cyc_C 4.635 8.55)) TOL"
  "np_gt (loop_error comps_cyc (cyc_C 3.748 8.55) (cyc_C 3.748 17.1)
            (cyc_C 4.635 8.55) (cyc_C 4.635 17.1)) TOL"
proof -
  have K: "0 < C_val T_0" by (rule C_val_pos[OF T_0_pos])
  have z: "zeros 2 = [0, 0]" by (simp add: zeros_def numeral_2_eq_2)
  have p: "0 < C_val T_0 * ((R * (L / 17.1)) ^ 3 / 3)" if "0 < R" "0 < L" for R L :: real
    using K that by simp
  have q1: "(3.748 * (17.1 / 17.1)) ^ 3 / 3 \<noteq> (0::real)" by simp
  have q2: "(3.748 * (8.55 / 17.1)) ^ 3 / 3 \<noteq> (0::real)" by simp
  have p1: "0 < C_val T_0 * ((3.748 * (17.1 / 17.1)) ^ 3 / 3)" by (rule p) simp_all
  show "np_gt (loop_error comps_cyc (cyc_C 3.748 17.1) (zeros 2) (cyc_C 4.635 17.1) (zeros 2)) TOL"
    unfolding cyc_C_def z
  proof (rule cyc_loop_error_gt)
    show "0 < C_val T_0 * ((3.748 * (17.1 / 17.1)) ^ 3 / 3)" by (rule p) simp_all
    show "0 < C_val T_0 * ((4.635 * (17.1 / 17.1)) ^ 3 / 3)" by (rule p) simp_all
    have one: "\<bar>x - 0\<bar> / x = 1" if "0 < x" for x :: real
      using that by simp
    have "\<bar>C_val T_0 * ((3.748 * (17.1 / 17.1)) ^ 3 / 3) - 0\<bar>
          / (C_val T_0 * ((3.748 * (17.1 / 17.1)) ^ 3 / 3)) = 1"
      by (rule one[OF p1])
    then show "TOL < \<bar>C_val T_0 * ((3.748 * (17.1 / 17.1)) ^ 3 / 3) - 0\<bar>
          / (C_val T_0 * ((3.748 * (17.1 / 17.1)) ^ 3 / 3))"
      by (simp only: TOL_def) simp
  qed
  show "np_gt (loop_error comps_cyc (cyc_C 3.748 17.1) (cyc_C 3.748 8.55)
            (cyc_C 4.635 17.1) (cyc_C 4.635 8.55)) TOL"
    unfolding cyc_C_def
  proof (rule cyc_loop_error_gt)
    show "0 < C_val T_0 * ((3.748 * (17.1 / 17.1)) ^ 3 / 3)" by (rule p) simp_all
    show "0 < C_val T_0 * ((4.635 * (17.1 / 17.1)) ^ 3 / 3)" by (rule p) simp_all
    show "TOL < \<bar>C_val T_0 * ((3.748 * (17.1 / 17.1)) ^ 3 / 3)
                 - C_val T_0 * ((3.748 * (8.55 / 17.1)) ^ 3 / 3)\<bar>
          / (C_val T_0 * ((3.748 * (17.1 / 17.1)) ^ 3 / 3))"
      unfolding rel_change[OF K q1] TOL_def
      by (simp add: power_divide)
  qed
  show "np_gt (loop_error comps_cyc (cyc_C 3.748 8.55) (cyc_C 3.748 17.1)
            (cyc_C 4.635 8.55) (cyc_C 4.635 17.1)) TOL"
    unfolding cyc_C_def
  proof (rule cyc_loop_error_gt)
    show "0 < C_val T_0 * ((3.748 * (8.55 / 17.1)) ^ 3 / 3)" by (rule p) simp_all
    show "0 < C_val T_0 * ((4.635 * (8.55 / 17.1)) ^ 3 / 3)" by (rule p) simp_all
    show "TOL < \<bar>C_val T_0 * ((3.748 * (8.55 / 17.1)) ^ 3 / 3)
                 - C_val T_0 * ((3.748 * (17.1 / 17.1)) ^ 3 / 3)\<bar>
          / (C_val T_0 * ((3.748 * (8.55 / 17.1)) ^ 3 / 3))"
      unfolding rel_change[OF K q2] TOL_def
      by (simp add: power_divide)
  qed
qed

lemma cyc_before_solve:
  "\<exists>st2. init_before_solve comps_cyc T_0 P_0 ''s2'' = Inr st2 \<and> cyc_state st2"
proof -
  have w: "find_water comps_cyc = Inr 0"
    unfolding comps_cyc_def by (rule find_water_h2o_first)
  from init_before_solve_ok[OF w HydrateStructure_init_s2 table_s2_shells(2-5), of T_0 P_0]
  obtain st2 where st2: "init_before_solve comps_cyc T_0 P_0 ''s2'' = Inr st2" by auto
  from init_before_solve_fields[OF st2]
  have "cyc_state st2"
    by (auto simp: cyc_state_def HydrateStructure_init_s2 Hydrate_size_T_0_P_0 comps_cyc_def
        h2o_def guest_def table_s2_def)
  with st2 show ?thesis by blast
qed

lemma cyc_inv_step:
  assumes "cyc_inv s"
  shows "\<exists>s' e. stdstate_body quad_milne comps_cyc s = Inr (s', e) \<and> np_gt e TOL \<and> cyc_inv s'"
proof -
  obtain st Cs Cl L k where s: "s = (st, Cs, Cl, L, k)" by (cases s)
  from assms have c: "cyc_state st"
    and d: "L = 17.1 \<and> Cs = zeros 2 \<and> Cl = zeros 2
         \<or> L = 17.1 \<and> Cs = cyc_C 3.748 8.55 \<and> Cl = cyc_C 4.635 8.55
         \<or> L = 8.55 \<and> Cs = cyc_C 3.748 17.1 \<and> Cl = cyc_C 4.635 17.1"
    by (simp_all add: cyc_inv_def s)
  have L: "0 < L" using d by auto
  from cyc_pass[OF c L, of Cs Cl k]
  obtain st' where b: "stdstate_body quad_milne comps_cyc (st, Cs, Cl, L, k) =
           Inr ((st', cyc_C 3.748 L, cyc_C 4.635 L, cyc_next L, PyFloat (3 / 10 ^ 6)),
                loop_error comps_cyc (cyc_C 3.748 L) Cs (cyc_C 4.635 L) Cl)"
    and c': "cyc_state st'" by blast
  have "np_gt (loop_error comps_cyc (cyc_C 3.748 L) Cs (cyc_C 4.635 L) Cl) TOL
        \<and> cyc_inv (st', cyc_C 3.748 L, cyc_C 4.635 L, cyc_next L, PyFloat (3 / 10 ^ 6))"
    using d
  proof (elim disjE conjE)
    assume a: "L = 17.1" "Cs = zeros 2" "Cl = zeros 2"
    have "cyc_inv (st', cyc_C 3.748 17.1, cyc_C 4.635 17.1, 8.55, PyFloat (3 / 10 ^ 6))"
      unfolding cyc_inv_def using c' by simp
    then show ?thesis unfolding a cyc_next_values using cyc_errors(1) by (intro conjI)
  next
    assume a: "L = 17.1" "Cs = cyc_C 3.748 8.55" "Cl = cyc_C 4.635 8.55"
    have "cyc_inv (st', cyc_C 3.748 17.1, cyc_C 4.635 17.1, 8.55, PyFloat (3 / 10 ^ 6))"
      unfolding cyc_inv_def using c' by simp
    then show ?thesis unfolding a cyc_next_values using cyc_errors(2) by (intro conjI)
  next
    assume a: "L = 8.55" "Cs = cyc_C 3.748 17.1" "Cl = cyc_C 4.635 17.1"
    have "cyc_inv (st', cyc_C 3.748 8.55, cyc_C 4.635 8.55, 17.1, PyFloat (3 / 10 ^ 6))"
      unfolding cyc_inv_def using c' by simp
    then show ?thesis unfolding a cyc_next_values using cyc_errors(3) by (intro conjI)
  qed
  then have e: "np_gt (loop_error comps_cyc (cyc_C 3.748 L) Cs (cyc_C 4.635 L) Cl) TOL"
    and i: "cyc_inv (st', cyc_C 3.748 L, cyc_C 4.635 L, cyc_next L, PyFloat (3 / 10 ^ 6))"
    by blast+
  show ?thesis unfolding s using b e i by blast
qed

text \<open>
  Claim C6 (the claim fails). For the components \<open>comps_cyc\<close> (water and one guest) and
  structure \<open>s2\<close> the loop of \<open>find_stdstate_volume\<close> alternates for ever between the lattice
  sizes 17.1 and 8.55, with a convergence measure of 2, 14, 7/4, 14, 7/4, ...: the
  constructor never returns and reports nothing.
\<close>

theorem constructor_never_returns_counterexample:
  "HvdwpmEos_init quad_milne comps_cyc T_0 P_0 ''s2'' = None"
proof -
  obtain st2 where st2: "init_before_solve comps_cyc T_0 P_0 ''s2'' = Inr st2"
    and c: "cyc_state st2" using cyc_before_solve by blast
  have f: "self_num_comps st2 = 2" "Hs_a0_ast (self_Hs st2) = 17.1"
    using c by (simp_all add: cyc_state_def table_s2_def)
  have i: "cyc_inv (st2, zeros (self_num_comps st2), zeros (self_num_comps st2),
              Hs_a0_ast (self_Hs st2), PyFloat (self_kappa0 st2))"
    using c by (simp add: cyc_inv_def f)
  have "while_error_gt_TOL (stdstate_body quad_milne comps_cyc)
          (st2, zeros (self_num_comps st2), zeros (self_num_comps st2),
              Hs_a0_ast (self_Hs st2), PyFloat (self_kappa0 st2)) = None"
    by (rule while_never_returns[where I = cyc_inv, OF i cyc_inv_step])
  then show ?thesis
    by (simp add: HvdwpmEos_init_split st2 find_stdstate_volume_def)
qed

text \<open>
  Claim C6, as amended. Neither loop counts its passes and neither reports a
  ConvergenceFailure. Each runs its pass again whenever the measure of the last pass is
  greater than \<open>TOL\<close>, so it returns to its caller exactly when some finite number of passes
  ends with a measure that is not greater than \<open>TOL\<close> (or with an exception raised in the
  pass); when no number of passes does, it never returns.
\<close>

theorem loops_have_no_bound:
  "(find_stdstate_volume quad st compobjs T P = None \<longleftrightarrow>
      (\<forall>n. run_passes (stdstate_body quad compobjs) n
             (st, zeros (self_num_comps st), zeros (self_num_comps st),
              Hs_a0_ast (self_Hs st), PyFloat (self_kappa0 st)) = None))
   \<and> (warm_start st = Inr (C_small0, C_large0) \<and> py_copy (self_kappa_tmp st) = Inr kappa0
        \<longrightarrow> (find_hydrate_properties quad st compobjs T' P' eq_fug = None \<longleftrightarrow>
               (\<forall>n. run_passes (hydprops_body quad compobjs T' P' eq_fug) n
                      (st, C_small0, C_large0, self_a_0 st, kappa0) = None)))"
proof (intro conjI impI)
  show "find_stdstate_volume quad st compobjs T P = None \<longleftrightarrow>
      (\<forall>n. run_passes (stdstate_body quad compobjs) n
             (st, zeros (self_num_comps st), zeros (self_num_comps st),
              Hs_a0_ast (self_Hs st), PyFloat (self_kappa0 st)) = None)"
    unfolding while_None_iff[symmetric]
    by (auto simp: find_stdstate_volume_def split: option.splits sum.splits)
next
  assume a: "warm_start st = Inr (C_small0, C_large0) \<and> py_copy (self_kappa_tmp st) = Inr kappa0"
  show "find_hydrate_properties quad st compobjs T' P' eq_fug = None \<longleftrightarrow>
               (\<forall>n. run_passes (hydprops_body quad compobjs T' P' eq_fug) n
                      (st, C_small0, C_large0, self_a_0 st, kappa0) = None)"
    unfolding while_None_iff[symmetric]
    using a by (auto simp: find_hydrate_properties_def split: option.splits sum.splits)
qed

lemma find_water_comps3: "find_water comps3 = Inr 1"
  by (simp add: find_water_def comps3_def h2o_def guest_def upt_rec[of 0] upt_rec[of 1]
      upt_rec[of 2] upt_rec[of "Suc 0"] upt_rec[of "Suc (Suc 0)"])

lemma comps3_zero_stdfug: "\<forall>c\<in>set comps3. stdst_fug c = 0"
  by (simp add: comps3_def h2o_def guest_def)

lemma comps3_instance:
  "\<exists>st. HvdwpmEos_init quad_milne comps3 T_0 (P_0 + 1) ''s2'' = Some (Inr st)
     \<and> self_water_ind st = 1 \<and> self_comps st = comps3 \<and> self_num_comps st = 3
     \<and> self_Hs st = table_s2 \<and> self_fug st = PyInt 0
     \<and> self_z_sm st = [2, 6, 12] \<and> self_z_lg st = [4, 12, 12]
     \<and> self_kappa0 st = Hs_kappa table_s2
     \<and> self_kappa_vec st = [kap_a, 0, kap_b]
     \<and> self_eq_fug st = zeros 3
     \<and> self_lattice_Tfactor st = 1
     \<and> self_C_small st = None \<and> self_C_large st = None
     \<and> self_kappa_tmp st = NpFloat 0
     \<and> self_a_0 st = 17.1
     \<and> self_v_H_0 st = self_a0_cubed st"
proof -
  have l: "length comps3 = 3" by (simp add: comps3_def)
  from constructed_zero_stdfug_fields[OF find_water_comps3 HydrateStructure_init_s2
      table_s2_shells _ _ _ _ comps3_zero_stdfug, where quad = quad_milne and T = T_0 and P = "P_0 + 1"]
  obtain st where i: "HvdwpmEos_init quad_milne comps3 T_0 (P_0 + 1) ''s2'' = Some (Inr st)"
    and f: "self_water_ind st = 1" "self_comps st = comps3" "self_num_comps st = length comps3"
      "self_Hs st = table_s2" "self_fug st = PyInt 0"
      "self_z_sm st = map (\<lambda>ii. [2, 6, 12] ! ii) [0..<length [3.748, 3.845, 3.956::real]]"
      "self_z_lg st = map (\<lambda>ii. [4, 12, 12] ! ii) [0..<length [4.729, 4.715, 4.635::real]]"
      "self_kappa0 st = Hs_kappa table_s2"
      "self_kappa_vec st = map (\<lambda>c. hv_kappa c (Hs_hydstruc table_s2)) comps3"
      "self_eq_fug st = zeros (length comps3)"
      "self_lattice_Tfactor st = Hydrate_size st T_0 P_0 1.0 (Hs_kappa table_s2) Linear"
      "self_C_small st = None" "self_C_large st = None"
      "self_kappa_tmp st = kappa_func st (zeros (length comps3))"
      "self_a_0 st = Hs_a0_ast table_s2"
      "self_v_H_0 st = self_a0_cubed st"
    by auto
  have u: "[0..<3] = [0, 1, 2::nat]" by (simp add: upt_rec[of 0] upt_rec[of 1] upt_rec[of 2]
      upt_rec[of "Suc 0"] upt_rec[of "Suc (Suc 0)"])
  have z: "self_z_sm st = [2, 6, 12]" "self_z_lg st = [4, 12, 12]"
    unfolding f by (simp_all add: u)
  have kv: "self_kappa_vec st = [kap_a, 0, kap_b]"
    unfolding f by (simp add: comps3_def guest_def h2o_def)
  have kt: "self_kappa_tmp st = NpFloat 0"
    unfolding f(14) l using f(3) kv
    by (simp add: kappa_func_def l np_sum_prod_zeros_right)
  have lt: "self_lattice_Tfactor st = 1"
    unfolding f(11) by (simp add: Hydrate_size_T_0_P_0)
  have a0: "self_a_0 st = 17.1" unfolding f by (simp add: table_s2_def)
  show ?thesis
    using i f(1,2,4,5,8,12,13,16) f(3)[unfolded l] f(10)[unfolded l] z kv kt lt a0 by blast
qed

theorem loops_have_no_bound_witness:
  "case HvdwpmEos_init quad_milne comps3 T_0 (P_0 + 1) ''s2'' of
     Some (Inr st) \<Rightarrow>
       warm_start st = Inr (zeros 3, zeros 3) \<and> py_copy (self_kappa_tmp st) = Inr (NpFloat 0)
       \<and> ((find_hydrate_properties quad_milne st comps3 T_0 (P_0 + 1) eq_fug3 = None) =
            (\<forall>n. run_passes (hydprops_body quad_milne comps3 T_0 (P_0 + 1) eq_fug3) n
                   (st, zeros 3, zeros 3, self_a_0 st, NpFloat 0) = None))
       \<and> ((find_stdstate_volume quad_milne st comps3 T_0 (P_0 + 1) = None) =
            (\<forall>n. run_passes (stdstate_body quad_milne comps3) n
                   (st, zeros 3, zeros 3, Hs_a0_ast (self_Hs st), PyFloat (self_kappa0 st)) = None))
   | _ \<Rightarrow> False"
proof -
  from comps3_instance obtain st where
    i: "HvdwpmEos_init quad_milne comps3 T_0 (P_0 + 1) ''s2'' = Some (Inr st)"
    and n: "self_num_comps st = 3" and c: "self_C_small st = None"
    and k: "self_kappa_tmp st = NpFloat 0" by blast
  have w: "warm_start st = Inr (zeros 3, zeros 3)" by (simp add: warm_start_def c n)
  have p: "py_copy (self_kappa_tmp st) = Inr (NpFloat 0)" by (simp add: k)
  from loops_have_no_bound[of quad_milne st comps3 T_0 "P_0 + 1" "zeros 3" "zeros 3" "NpFloat 0"
      T_0 "P_0 + 1" eq_fug3]
  show ?thesis unfolding i using w p n by simp
qed

lemma find_hydrate_properties_result:
  assumes "find_hydrate_properties quad st compobjs T P eq_fug = Some (Inr st')"
  shows "\<exists>st1 Cs Cl kc k. frame st st1
          \<and> st' = st1\<lparr> self_C_small := Some Cs, self_C_large := Some Cl,
                        self_kappa_tmp := kc,
                        self_v_H := Hydrate_size st1 T P (self_v_H_0 st1) (scalar k) Volumetric \<rparr>"
proof -
  from assms obtain C0 C1 k0 st1 Cs Cl L k kc where
    w: "while_error_gt_TOL (hydprops_body quad compobjs T P eq_fug) (st, C0, C1, self_a_0 st, k0)
          = Some (Inr (st1, Cs, Cl, L, k))"
    and st': "st' = st1\<lparr> self_C_small := Some Cs, self_C_large := Some Cl,
                        self_kappa_tmp := kc,
                        self_v_H := Hydrate_size st1 T P (self_v_H_0 st1) (scalar k) Volumetric \<rparr>"
    by (auto simp: find_hydrate_properties_def split: option.splits sum.splits prod.splits)
  let ?I = "\<lambda>s :: loop_vars. frame st (fst s)"
  have "\<exists>s0 e. ?I s0 \<and> hydprops_body quad compobjs T P eq_fug s0 = Inr ((st1, Cs, Cl, L, k), e)
          \<and> \<not> np_gt e TOL"
  proof (rule while_invariant[OF w, of ?I])
    show "?I (st, C0, C1, self_a_0 st, k0)" by (simp add: frame_refl)
  next
    fix s s' :: loop_vars and e
    assume I: "?I s" and b: "hydprops_body quad compobjs T P eq_fug s = Inr (s', e)"
    obtain sa Csa Cla La ka where s: "s = (sa, Csa, Cla, La, ka)" by (cases s)
    obtain sb Csb Clb Lb kb where s': "s' = (sb, Csb, Clb, Lb, kb)" by (cases s')
    from hydprops_body_frame[OF b[unfolded s s']] I s s'
    show "?I s'" by (auto intro: frame_trans)
  qed
  then obtain s0 e where I0: "?I s0"
    and b0: "hydprops_body quad compobjs T P eq_fug s0 = Inr ((st1, Cs, Cl, L, k), e)" by blast
  obtain sa Csa Cla La ka where s0: "s0 = (sa, Csa, Cla, La, ka)" by (cases s0)
  from hydprops_body_frame[OF b0[unfolded s0]] have f1: "frame sa st1" by simp
  from I0 s0 have f0: "frame st sa" by simp
  from frame_trans[OF f0 f1] st' show ?thesis by blast
qed

lemma find_hydrate_properties_one_pass:
  assumes "warm_start st = Inr (Cs, Cl)" "py_copy (self_kappa_tmp st) = Inr k"
    "hydprops_body quad compobjs T P eq_fug (st, Cs, Cl, self_a_0 st, k)
       = Inr ((st', Csn, Cln, L, k'), e)"
    "\<not> np_gt e TOL" "py_copy k' = Inr kc"
  shows "find_hydrate_properties quad st compobjs T P eq_fug =
     Some (Inr (st'\<lparr> self_C_small := Some Csn, self_C_large := Some Cln,
                      self_kappa_tmp := kc,
                      self_v_H := Hydrate_size st' T P (self_v_H_0 st') (scalar k') Volumetric \<rparr>))"
proof -
  have "run_passes (hydprops_body quad compobjs T P eq_fug) (Suc 0) (st, Cs, Cl, self_a_0 st, k)
          = Some (Inr (st', Csn, Cln, L, k'))"
    using assms(3,4) by simp
  then have "while_error_gt_TOL (hydprops_body quad compobjs T P eq_fug)
               (st, Cs, Cl, self_a_0 st, k) = Some (Inr (st', Csn, Cln, L, k'))"
    by (rule run_passes_imp_while)
  then show ?thesis
    by (simp add: find_hydrate_properties_def assms(1,2,5))
qed

lemma activity_func_fug: "activity_func (st\<lparr> self_fug := f \<rparr>) T P v = activity_func st T P v"
  by (simp add: activity_func_def kappa_func_def Hvol_Pint_def Hydrate_size_def)

lemma delta_mu_func_fug: "delta_mu_func (st\<lparr> self_fug := f \<rparr>) = delta_mu_func st"
  by (simp add: delta_mu_func_def)

lemma fugacity_result:
  assumes "fugacity quad st compobjs T P x eq_fug = Some (Inr (fug, st'))"
  shows "\<exists>start s. start_vector st eq_fug = Inr start \<and> start \<noteq> []
     \<and> length eq_fug = self_num_comps st
     \<and> find_hydrate_properties quad st compobjs T P eq_fug = Some (Inr s)
     \<and> fug = start[0 := exp (self_gwbeta_RT s + activity_func s T P (self_v_H_0 s)
                              + delta_mu_func s - self_gw0_RT s)]
     \<and> st' = s\<lparr> self_fug := NdArray fug \<rparr>"
  using assms
  by (auto simp: fugacity_def Let_def split: if_splits sum.splits option.splits)

lemma loop_error_negative:
  assumes "\<forall>ii<length compobjs. compname (compobjs ! ii) \<noteq> ''h2o''
              \<longrightarrow> Csn ! ii < 0 \<and> Cln ! ii < 0"
  shows "\<not> np_gt (loop_error compobjs Csn Cs Cln Cl) TOL"
proof -
  have ne: "\<forall>ii<length compobjs. compname (compobjs ! ii) \<noteq> ''h2o''
              \<longrightarrow> Csn ! ii \<noteq> 0 \<and> Cln ! ii \<noteq> 0"
    using assms by fastforce
  let ?t = "\<lambda>ii. if compname (compobjs ! ii) \<noteq> ''h2o''
             then \<bar>Csn ! ii - Cs ! ii\<bar> / Csn ! ii + \<bar>Cln ! ii - Cl ! ii\<bar> / Cln ! ii else 0"
  have "?t ii \<le> 0" if "ii < length compobjs" for ii
  proof (cases "compname (compobjs ! ii) \<noteq> ''h2o''")
    case True
    with assms that have n: "Csn ! ii < 0" "Cln ! ii < 0" by auto
    have "\<bar>Csn ! ii - Cs ! ii\<bar> / Csn ! ii \<le> 0" "\<bar>Cln ! ii - Cl ! ii\<bar> / Cln ! ii \<le> 0"
      using n by (simp_all add: divide_nonneg_neg)
    then show ?thesis using True by simp
  next
    case False
    then show ?thesis by simp
  qed
  then have "(\<Sum>ii<length compobjs. ?t ii) \<le> 0"
    by (intro sum_nonpos) simp
  then show ?thesis
    unfolding loop_error_Fin[OF ne] using TOL_nonneg by simp
qed

lemma lab3_frame: "lab3 st \<Longrightarrow> frame st st' \<Longrightarrow> lab3 st'"
  by (simp add: lab3_def frame_def)

lemma upt_3: "[0..<3] = [0, Suc 0, Suc (Suc 0)]"
  by (simp add: upt_rec numeral_3_eq_3)

lemma langmuir_vec_three:
  "langmuir_vec quad R z T [c0, c1, c2] 3 =
     [langmuir_entry quad R z T c0, langmuir_entry quad R z T c1, langmuir_entry quad R z T c2]"
  by (simp add: langmuir_vec_def upt_3)

lemma lab3_langmuir_vec:
  assumes "0 < af"
  shows "langmuir_vec quad_milne (map (\<lambda>r. r * af) [3.748, 3.845, 3.956]) z T_0 comps3 3
           = lab3_C 3.748 af"
    and "langmuir_vec quad_milne (map (\<lambda>r. r * af) [4.729, 4.715, 4.635]) z T_0 comps3 3
           = lab3_C 4.635 af"
proof -
  have m1: "foldl min (hd (map (\<lambda>r. r * af) [3.748, 3.845, 3.956]))
              (tl (map (\<lambda>r. r * af) [3.748, 3.845, 3.956])) = 3.748 * af"
    using assms by (simp add: min_def)
  have m2: "foldl min (hd (map (\<lambda>r. r * af) [4.729, 4.715, 4.635]))
              (tl (map (\<lambda>r. r * af) [4.729, 4.715, 4.635])) = 4.635 * af"
    using assms by (simp add: min_def)
  have g: "kih_epsk (guest n a f kp rs rl) = 0" "kih_a (guest n a f kp rs rl) = a"
    "compname (guest n a f kp rs rl) = n" for n a f kp rs rl
    by (simp_all add: guest_def)
  have ne: "map (\<lambda>r. r * af) [3.748, 3.845, 3.956] \<noteq> []"
    "map (\<lambda>r. r * af) [4.729, 4.715, 4.635] \<noteq> []" by simp_all
  have ew: "langmuir_entry quad_milne R z T_0 h2o = 0" for R
    by (simp add: langmuir_entry_def h2o_def)
  show "langmuir_vec quad_milne (map (\<lambda>r. r * af) [3.748, 3.845, 3.956]) z T_0 comps3 3
           = lab3_C 3.748 af"
    unfolding comps3_def langmuir_vec_three ew langmuir_entry_milne[OF g(1) ne(1)] m1 g lab3_C_def
    by simp
  show "langmuir_vec quad_milne (map (\<lambda>r. r * af) [4.729, 4.715, 4.635]) z T_0 comps3 3
           = lab3_C 4.635 af"
    unfolding comps3_def langmuir_vec_three ew langmuir_entry_milne[OF g(1) ne(2)] m2 g lab3_C_def
    by simp
qed

lemma lab3_C_times:
  "C_val T_0 * (x ^ 3 / 3) * (3 / (n * (C_val T_0 * 2.3175 ^ 3))) = (x / 2.3175) ^ 3 / n"
proof -
  have "C_val T_0 \<noteq> 0" using C_val_pos[OF T_0_pos] by simp
  then show ?thesis
    by (simp add: power_divide)
qed

lemma lab3_calc_langmuir:
  assumes "self_comps st = comps3" "self_num_comps st = 3"
  shows "calc_langmuir st (lab3_C Rmin af) eq_fug3 = lab3_Y Rmin af"
proof -
  have n: "compname (self_comps st ! 0) \<noteq> ''h2o''" "compname (self_comps st ! Suc 0) = ''h2o''"
    "compname (self_comps st ! Suc (Suc 0)) \<noteq> ''h2o''"
    by (simp_all add: assms comps3_def h2o_def guest_def)
  have a: "C_val T_0 * ((Rmin * af - 6.9525) ^ 3 / 3) * (3 / (32 * (C_val T_0 * 2.3175 ^ 3)))
            = lab3_u Rmin af"
    unfolding lab3_u_def by (rule lab3_C_times)
  have b: "C_val T_0 * ((Rmin * af - 9.27) ^ 3 / 3) * (3 / (64 * (C_val T_0 * 2.3175 ^ 3)))
            = lab3_v Rmin af"
    unfolding lab3_v_def by (rule lab3_C_times)
  have s: "np_sum_prod (lab3_C Rmin af) eq_fug3 = lab3_u Rmin af + lab3_v Rmin af"
    unfolding np_sum_prod_def lab3_C_def eq_fug3_def
    using a b by simp
  show ?thesis
    unfolding calc_langmuir_def Let_def s assms(2) upt_3
    using n a b by (simp add: lab3_C_def eq_fug3_def lab3_Y_def)
qed

lemma lab3_pass:
  assumes c: "lab3 st" and A: "a_factor st 17.1 (P_0 + 1) 17.1 (scalar k) = af" and afp: "0 < af"
  shows "\<exists>st'. hydprops_body quad_milne comps3 T_0 (P_0 + 1) eq_fug3 (st, Cs, Cl, 17.1, k) =
           Inr ((st', lab3_C 3.748 af, lab3_C 4.635 af, 17.1,
                 NpFloat (3 * np_sum_prod [kap_a, 0, kap_b] (lab3_Y 4.635 af))),
                loop_error comps3 (lab3_C 3.748 af) Cs (lab3_C 4.635 af) Cl)
         \<and> frame st st' \<and> self_Y_small st' = lab3_Y 3.748 af
         \<and> self_Y_large st' = lab3_Y 4.635 af"
proof -
  have f: "self_Hs st = table_s2" "self_comps st = comps3" "self_num_comps st = 3"
    "self_kappa_vec st = [kap_a, 0, kap_b]"
    using c by (simp_all add: lab3_def)
  have t: "Hs_a_norm (self_Hs st) = Some 17.1" "Hs_R_sm (self_Hs st) = Some [3.748, 3.845, 3.956]"
    "Hs_R_lg (self_Hs st) = Some [4.729, 4.715, 4.635]"
    unfolding f by (rule table_s2_shells)+
  have ne: "[3.748, 3.845, 3.956 :: real] \<noteq> []" "[4.729, 4.715, 4.635 :: real] \<noteq> []"
    by simp_all
  have len: "length comps3 \<le> self_num_comps st" by (simp add: f comps3_def)
  define CS where "CS = lab3_C 3.748 af"
  define CL where "CL = lab3_C 4.635 af"
  have B: "langmuir_vec quad_milne (map (\<lambda>r. r * af) [3.748, 3.845, 3.956]) (self_z_sm st) T_0
             comps3 3 = CS"
    "langmuir_vec quad_milne (map (\<lambda>r. r * af) [4.729, 4.715, 4.635]) (self_z_lg st) T_0
             comps3 3 = CL"
    unfolding CS_def CL_def by (rule lab3_langmuir_vec[OF afp])+
  define st1 where "st1 = st\<lparr> self_R_sm := map (\<lambda>r. r * af) [3.748, 3.845, 3.956],
                                self_R_lg := map (\<lambda>r. r * af) [4.729, 4.715, 4.635] \<rparr>"
  have f1: "self_comps st1 = comps3" "self_num_comps st1 = 3"
    by (simp_all add: st1_def f)
  define YS where "YS = lab3_Y 3.748 af"
  define YL where "YL = lab3_Y 4.635 af"
  have C: "calc_langmuir st1 CS eq_fug3 = YS" "calc_langmuir st1 CL eq_fug3 = YL"
    unfolding CS_def CL_def YS_def YL_def by (rule lab3_calc_langmuir[OF f1])+
  define st2 where "st2 = st1\<lparr> self_Y_small := YS, self_Y_large := YL \<rparr>"
  have fr: "frame st st2" by (simp add: frame_def st2_def st1_def)
  have Y2: "self_Y_small st2 = YS" "self_Y_large st2 = YL"
    by (simp_all add: st2_def)
  have E: "kappa_func st2 (self_Y_large st2) = NpFloat (3 * np_sum_prod [kap_a, 0, kap_b] YL)"
    by (simp add: kappa_func_def st2_def st1_def f)
  have "hydprops_body quad_milne comps3 T_0 (P_0 + 1) eq_fug3 (st, Cs, Cl, 17.1, k) =
           Inr ((st2, CS, CL, 17.1, NpFloat (3 * np_sum_prod [kap_a, 0, kap_b] YL)),
                loop_error comps3 CS Cs CL Cl)"
    unfolding hydprops_body_closed[OF t ne len T_0_neq_0] Let_def A f(3) B st1_def[symmetric] C
      st2_def[symmetric] E ..
  with fr Y2 show ?thesis unfolding CS_def CL_def YS_def YL_def by blast
qed

lemma lab3_Y_large_values:
  "lab3_Y 4.635 1 = [- (1 / 27), 0, - (4 / 27)]"
  "lab3_Y 4.635 (1 / 2) = [- (16 / 21), 0, - (9 / 7)]"
  by (simp_all add: lab3_Y_def lab3_u_def lab3_v_def power_divide)

lemma lab3_kappa_values:
  "3 * np_sum_prod [kap_a, 0, kap_b] (lab3_Y 4.635 1) = 3 * ln 2"
  "3 * np_sum_prod [kap_a, 0, kap_b] (lab3_Y 4.635 (1 / 2)) = 3 * ln 2"
  unfolding lab3_Y_large_values
  by (simp_all add: np_sum_prod_def kap_a_def kap_b_def)

lemma lab3_Y_sums:
  "1 - sum_list (lab3_Y 4.635 1) = 32 / 27"
  "1 - sum_list (lab3_Y 4.635 (1 / 2)) = 64 / 21"
  "1 - sum_list (lab3_Y 3.748 1) = 1062130644000 / 749874156493"
  "1 - sum_list (lab3_Y 3.748 (1 / 2)) = 1062130644000 / 173426550521"
  by (simp_all add: lab3_Y_def lab3_u_def lab3_v_def power_divide)

lemma lab3_C_negative:
  assumes "0 < af" "af \<le> 1" "Rmin \<le> 4.635" "0 < Rmin"
  shows "lab3_C Rmin af ! 0 < 0" "lab3_C Rmin af ! 2 < 0"
proof -
  have c: "0 < C_val T_0" by (rule C_val_pos[OF T_0_pos])
  have "Rmin * af \<le> 4.635 * 1"
    using assms by (intro mult_mono) simp_all
  then have x: "Rmin * af - 6.9525 < 0" "Rmin * af - 9.27 < 0" by simp_all
  have p: "x ^ 3 / 3 < 0" if "x < 0" for x :: real
    using that by (simp add: power3_eq_cube mult_pos_neg mult_neg_neg)
  show "lab3_C Rmin af ! 0 < 0" "lab3_C Rmin af ! 2 < 0"
    unfolding lab3_C_def using c p[OF x(1)] p[OF x(2)] by (simp_all add: mult_pos_neg)
qed

lemma lab3_error:
  assumes "0 < af" "af \<le> 1"
  shows "\<not> np_gt (loop_error comps3 (lab3_C 3.748 af) Cs (lab3_C 4.635 af) Cl) TOL"
proof (rule loop_error_negative, intro allI impI)
  fix ii
  assume i: "ii < length comps3" and w: "compname (comps3 ! ii) \<noteq> ''h2o''"
  from i have "ii = 0 \<or> ii = 1 \<or> ii = 2" by (auto simp: comps3_def)
  moreover have "compname (comps3 ! 1) = ''h2o''" by (simp add: comps3_def h2o_def)
  ultimately have "ii = 0 \<or> ii = 2" using w by auto
  then show "lab3_C 3.748 af ! ii < 0 \<and> lab3_C 4.635 af ! ii < 0"
    using lab3_C_negative[OF assms, of "3.748"] lab3_C_negative[OF assms, of "4.635"] by auto
qed

lemma lab3_a_factor:
  assumes "lab3 st"
  shows "a_factor st 17.1 (P_0 + 1) 17.1 0 = 1"
    and "a_factor st 17.1 (P_0 + 1) 17.1 (3 * ln 2) = 1 / 2"
proof -
  have f: "self_lattice_Tfactor st = 1" using assms by (simp add: lab3_def)
  show "a_factor st 17.1 (P_0 + 1) 17.1 0 = 1"
    by (simp add: a_factor_def f Hydrate_size_def)
  have "exp (- ln 2 :: real) = 1 / 2"
    by (simp add: exp_minus inverse_eq_divide)
  then show "a_factor st 17.1 (P_0 + 1) 17.1 (3 * ln 2) = 1 / 2"
    by (simp add: a_factor_def f Hydrate_size_def)
qed

lemma eq_fug3_not_zeros: "eq_fug3 \<noteq> zeros 3"
proof -
  have "0 < C_val T_0" by (rule C_val_pos[OF T_0_pos])
  then have "eq_fug3 ! 0 \<noteq> 0" by (simp add: eq_fug3_def)
  moreover have "zeros 3 ! 0 = 0" by (simp add: zeros_def)
  ultimately show ?thesis by metis
qed

lemma activity_func_cong:
  assumes "self_Hs s = self_Hs s'" "self_a0_cubed s = self_a0_cubed s'"
    "self_kappa0 s = self_kappa0 s'"
    "kappa_func s (self_Y_large s) = kappa_func s' (self_Y_large s')"
  shows "activity_func s T P v = activity_func s' T P v"
  using assms by (simp add: activity_func_def Hvol_Pint_def Hydrate_size_def)

lemma water_fug_fug: "water_fug (s\<lparr> self_fug := f \<rparr>) T P = water_fug s T P"
  by (simp add: water_fug_def activity_func_fug delta_mu_func_fug)

lemma lab3_call:
  assumes c: "lab3 st" and w: "warm_start st = Inr (Cs, Cl)"
    and k: "self_kappa_tmp st = NpFloat kp"
    and A: "a_factor st 17.1 (P_0 + 1) 17.1 kp = af" and af: "0 < af" "af \<le> 1"
  shows "\<exists>s. find_hydrate_properties quad_milne st comps3 T_0 (P_0 + 1) eq_fug3 = Some (Inr s)
     \<and> lab3 s
     \<and> self_C_small s = Some (lab3_C 3.748 af) \<and> self_C_large s = Some (lab3_C 4.635 af)
     \<and> self_kappa_tmp s = NpFloat (3 * np_sum_prod [kap_a, 0, kap_b] (lab3_Y 4.635 af))
     \<and> self_Y_small s = lab3_Y 3.748 af \<and> self_Y_large s = lab3_Y 4.635 af
     \<and> self_a0_cubed s = self_a0_cubed st \<and> self_kappa0 s = self_kappa0 st
     \<and> self_gwbeta_RT s = self_gwbeta_RT st \<and> self_gw0_RT s = self_gw0_RT st
     \<and> self_v_H_0 s = self_v_H_0 st \<and> self_fug s = self_fug st"
proof -
  have a0: "self_a_0 st = 17.1" using c by (simp add: lab3_def)
  have kc: "py_copy (self_kappa_tmp st) = Inr (NpFloat kp)" by (simp add: k)
  have A': "a_factor st 17.1 (P_0 + 1) 17.1 (scalar (NpFloat kp)) = af" using A by simp
  define K where "K = NpFloat (3 * np_sum_prod [kap_a, 0, kap_b] (lab3_Y 4.635 af))"
  from lab3_pass[OF c A' af(1), of Cs Cl]
  obtain st' where b: "hydprops_body quad_milne comps3 T_0 (P_0 + 1) eq_fug3
                         (st, Cs, Cl, self_a_0 st, NpFloat kp) =
           Inr ((st', lab3_C 3.748 af, lab3_C 4.635 af, 17.1, K),
                loop_error comps3 (lab3_C 3.748 af) Cs (lab3_C 4.635 af) Cl)"
    and fr: "frame st st'" and Y: "self_Y_small st' = lab3_Y 3.748 af"
      "self_Y_large st' = lab3_Y 4.635 af"
    unfolding a0 K_def by blast
  have kc': "py_copy K = Inr K" by (simp add: K_def)
  define s where "s = st'\<lparr> self_C_small := Some (lab3_C 3.748 af),
                            self_C_large := Some (lab3_C 4.635 af),
                            self_kappa_tmp := K,
                            self_v_H := Hydrate_size st' T_0 (P_0 + 1) (self_v_H_0 st') (scalar K)
                                          Volumetric \<rparr>"
  have r: "find_hydrate_properties quad_milne st comps3 T_0 (P_0 + 1) eq_fug3 = Some (Inr s)"
    unfolding s_def
    by (rule find_hydrate_properties_one_pass[OF w kc b lab3_error[OF af] kc'])
  have l': "lab3 st'" by (rule lab3_frame[OF c fr])
  have l: "lab3 s" using l' by (simp add: lab3_def s_def)
  have f: "self_C_small s = Some (lab3_C 3.748 af)" "self_C_large s = Some (lab3_C 4.635 af)"
    "self_kappa_tmp s = K" "self_Y_small s = lab3_Y 3.748 af" "self_Y_large s = lab3_Y 4.635 af"
    by (simp_all add: s_def Y)
  have g: "self_a0_cubed s = self_a0_cubed st" "self_kappa0 s = self_kappa0 st"
    "self_gwbeta_RT s = self_gwbeta_RT st" "self_gw0_RT s = self_gw0_RT st"
    "self_v_H_0 s = self_v_H_0 st" "self_fug s = self_fug st"
    using fr by (simp_all add: s_def frame_def)
  show ?thesis using r l f g unfolding K_def by blast
qed

lemma lab3_start_vector:
  assumes "lab3 st"
  shows "start_vector st eq_fug3 = Inr [0, 0, eq_fug3 ! 2]"
proof -
  have f: "self_eq_fug st = zeros 3" "self_num_comps st = 3"
    using assms by (simp_all add: lab3_def)
  show ?thesis
    unfolding start_vector_def f using eq_fug3_not_zeros
    by (simp add: zeros_def eq_fug3_def)
qed

lemma lab3_fugacity:
  assumes c: "lab3 st"
    and r: "find_hydrate_properties quad_milne st comps3 T_0 (P_0 + 1) eq_fug3 = Some (Inr s)"
  shows "fugacity quad_milne st comps3 T_0 (P_0 + 1) x eq_fug3 =
     Some (Inr ([water_fug s T_0 (P_0 + 1), 0, eq_fug3 ! 2],
                s\<lparr> self_fug := NdArray [water_fug s T_0 (P_0 + 1), 0, eq_fug3 ! 2] \<rparr>))"
proof -
  have n: "length eq_fug3 = self_num_comps st"
    using c by (simp add: lab3_def eq_fug3_def)
  show ?thesis
    unfolding fugacity_def lab3_start_vector[OF c] r Let_def
    using n by (simp add: water_fug_def)
qed

lemma lab3_delta_mu:
  assumes "self_Hs s = table_s2" "self_Y_small s = lab3_Y 3.748 af"
    "self_Y_large s = lab3_Y 4.635 af"
  shows "delta_mu_func s =
     (16 * ln (1 - sum_list (lab3_Y 3.748 af)) + 8 * ln (1 - sum_list (lab3_Y 4.635 af))) / 136"
  by (simp add: delta_mu_func_def assms table_s2_def)

lemma lab3_delta_mu_less:
  "(16 * ln (1 - sum_list (lab3_Y 3.748 1)) + 8 * ln (1 - sum_list (lab3_Y 4.635 1))) / 136
   < (16 * ln (1 - sum_list (lab3_Y 3.748 (1 / 2)))
       + 8 * ln (1 - sum_list (lab3_Y 4.635 (1 / 2)))) / 136"
proof -
  have a: "ln (1062130644000 / 749874156493 :: real) < ln (1062130644000 / 173426550521)"
    by (subst ln_less_cancel_iff) simp_all
  have b: "ln (32 / 27 :: real) < ln (64 / 21)"
    by (subst ln_less_cancel_iff) simp_all
  from a b have "16 * ln (1062130644000 / 749874156493 :: real) + 8 * ln (32 / 27)
      < 16 * ln (1062130644000 / 173426550521) + 8 * ln (64 / 21)"
    by linarith
  then show ?thesis unfolding lab3_Y_sums by (rule divide_strict_right_mono) simp
qed

lemma lab3_two_calls:
  "\<exists>st fug1 st1 fug2 st2 w1 w2.
     HvdwpmEos_init quad_milne comps3 T_0 (P_0 + 1) ''s2'' = Some (Inr st)
     \<and> fugacity quad_milne st comps3 T_0 (P_0 + 1) x eq_fug3 = Some (Inr (fug1, st1))
     \<and> fugacity quad_milne st1 comps3 T_0 (P_0 + 1) x eq_fug3 = Some (Inr (fug2, st2))
     \<and> self_water_ind st = 1 \<and> self_eq_fug st = zeros 3
     \<and> fug1 = [w1, 0, eq_fug3 ! 2] \<and> fug2 = [w2, 0, eq_fug3 ! 2] \<and> w1 < w2
     \<and> w1 = water_fug st1 T_0 (P_0 + 1) \<and> w2 = water_fug st2 T_0 (P_0 + 1)"
proof -
  from comps3_instance obtain st where
    i: "HvdwpmEos_init quad_milne comps3 T_0 (P_0 + 1) ''s2'' = Some (Inr st)"
    and f: "self_water_ind st = 1" "self_comps st = comps3" "self_num_comps st = 3"
      "self_Hs st = table_s2" "self_kappa_vec st = [kap_a, 0, kap_b]"
      "self_eq_fug st = zeros 3" "self_lattice_Tfactor st = 1"
      "self_C_small st = None" "self_kappa_tmp st = NpFloat 0" "self_a_0 st = 17.1"
    by blast
  have c: "lab3 st" by (simp add: lab3_def f)
  have w: "warm_start st = Inr (zeros 3, zeros 3)" by (simp add: warm_start_def f)
  from lab3_call[OF c w f(9) lab3_a_factor(1)[OF c]]
  obtain s1 where r1: "find_hydrate_properties quad_milne st comps3 T_0 (P_0 + 1) eq_fug3
                        = Some (Inr s1)"
    and c1: "lab3 s1"
    and C1: "self_C_small s1 = Some (lab3_C 3.748 1)" "self_C_large s1 = Some (lab3_C 4.635 1)"
    and k1: "self_kappa_tmp s1 = NpFloat (3 * np_sum_prod [kap_a, 0, kap_b] (lab3_Y 4.635 1))"
    and Y1: "self_Y_small s1 = lab3_Y 3.748 1" "self_Y_large s1 = lab3_Y 4.635 1"
    and g1: "self_a0_cubed s1 = self_a0_cubed st" "self_kappa0 s1 = self_kappa0 st"
      "self_gwbeta_RT s1 = self_gwbeta_RT st" "self_gw0_RT s1 = self_gw0_RT st"
      "self_v_H_0 s1 = self_v_H_0 st"
    by auto
  define w1 where "w1 = water_fug s1 T_0 (P_0 + 1)"
  define fug1 where "fug1 = [w1, 0, eq_fug3 ! 2]"
  define st1 where "st1 = s1\<lparr> self_fug := NdArray fug1 \<rparr>"
  have F1: "fugacity quad_milne st comps3 T_0 (P_0 + 1) x eq_fug3 = Some (Inr (fug1, st1))"
    unfolding st1_def fug1_def w1_def by (rule lab3_fugacity[OF c r1])
  have c1': "lab3 st1" using c1 by (simp add: lab3_def st1_def)
  have w': "warm_start st1 = Inr (lab3_C 3.748 1, lab3_C 4.635 1)"
    by (simp add: warm_start_def st1_def C1)
  have k1': "self_kappa_tmp st1 = NpFloat (3 * ln 2)"
    using k1[unfolded lab3_kappa_values] by (simp add: st1_def)
  have hp: "0 < (1 / 2 :: real)" "(1 / 2 :: real) \<le> 1" by simp_all
  from lab3_call[OF c1' w' k1' lab3_a_factor(2)[OF c1'] hp]
  obtain s2 where r2: "find_hydrate_properties quad_milne st1 comps3 T_0 (P_0 + 1) eq_fug3
                        = Some (Inr s2)"
    and c2: "lab3 s2"
    and Y2: "self_Y_small s2 = lab3_Y 3.748 (1 / 2)" "self_Y_large s2 = lab3_Y 4.635 (1 / 2)"
    and g2: "self_a0_cubed s2 = self_a0_cubed st1" "self_kappa0 s2 = self_kappa0 st1"
      "self_gwbeta_RT s2 = self_gwbeta_RT st1" "self_gw0_RT s2 = self_gw0_RT st1"
      "self_v_H_0 s2 = self_v_H_0 st1"
    by auto
  define w2 where "w2 = water_fug s2 T_0 (P_0 + 1)"
  define fug2 where "fug2 = [w2, 0, eq_fug3 ! 2]"
  define st2 where "st2 = s2\<lparr> self_fug := NdArray fug2 \<rparr>"
  have F2: "fugacity quad_milne st1 comps3 T_0 (P_0 + 1) x eq_fug3 = Some (Inr (fug2, st2))"
    unfolding st2_def fug2_def w2_def by (rule lab3_fugacity[OF c1' r2])
  have h: "self_Hs s1 = table_s2" "self_Hs s2 = table_s2"
    "self_num_comps s1 = 3" "self_num_comps s2 = 3"
    "self_kappa_vec s1 = [kap_a, 0, kap_b]" "self_kappa_vec s2 = [kap_a, 0, kap_b]"
    using c1 c2 by (simp_all add: lab3_def)
  have kf: "kappa_func s Y = NpFloat (3 * np_sum_prod [kap_a, 0, kap_b] Y)"
    if "self_num_comps s = 3" "self_kappa_vec s = [kap_a, 0, kap_b]" for s Y
    using that by (simp add: kappa_func_def)
  have kk: "kappa_func s1 (self_Y_large s1) = kappa_func s2 (self_Y_large s2)"
    unfolding kf[OF h(3) h(5)] kf[OF h(4) h(6)] Y1 Y2 lab3_kappa_values ..
  have e: "self_a0_cubed s1 = self_a0_cubed s2" "self_kappa0 s1 = self_kappa0 s2"
    "self_gwbeta_RT s1 = self_gwbeta_RT s2" "self_gw0_RT s1 = self_gw0_RT s2"
    "self_v_H_0 s1 = self_v_H_0 s2"
    using g2 by (simp_all add: st1_def)
  have hs: "self_Hs s1 = self_Hs s2" using h by simp
  have act: "activity_func s1 T_0 (P_0 + 1) (self_v_H_0 s1)
             = activity_func s2 T_0 (P_0 + 1) (self_v_H_0 s2)"
    unfolding e(5) by (rule activity_func_cong[OF hs e(1) e(2) kk])
  have dm: "delta_mu_func s1 < delta_mu_func s2"
    unfolding lab3_delta_mu[OF h(1) Y1] lab3_delta_mu[OF h(2) Y2]
    by (rule lab3_delta_mu_less)
  have lt: "w1 < w2"
    unfolding w1_def w2_def water_fug_def act e(3) e(4) using dm by simp
  have ws: "w1 = water_fug st1 T_0 (P_0 + 1)" "w2 = water_fug st2 T_0 (P_0 + 1)"
    by (simp_all add: st1_def st2_def water_fug_fug w1_def w2_def)
  show ?thesis
    using i F1 F2 f(1) f(6) fug1_def fug2_def lt ws by blast
qed

text \<open>
  Claim C3 (as the code has it). \<open>fugacity\<close> never reads \<open>self.water_ind\<close>: on the branch taken
  whenever \<open>eq_fug\<close> differs from \<open>self.eq_fug\<close>, a successful call returns a vector of the
  length of \<open>eq_fug\<close> whose entry 0 is \<open>exp(mu_H_RT - gw0_RT)\<close> and whose entries at every index
  from 1 on are those of \<open>eq_fug\<close>, wherever water stands in the component list. With water
  at an index other than 0, the entry of the first (non-water) component is overwritten and
  the entry of water is the supplied one.
\<close>

theorem fugacity_writes_index_zero:
  assumes "fugacity quad st compobjs T P x eq_fug = Some (Inr (fug, st'))"
    and "eq_fug \<noteq> self_eq_fug st"
  shows "length fug = length eq_fug
     \<and> fug ! 0 = exp (self_gwbeta_RT st' + activity_func st' T P (self_v_H_0 st')
                      + delta_mu_func st' - self_gw0_RT st')
     \<and> (\<forall>i. 1 \<le> i \<and> i < length eq_fug \<longrightarrow> fug ! i = eq_fug ! i)"
proof -
  from fugacity_result[OF assms(1)] obtain start s where
    sv: "start_vector st eq_fug = Inr start" and ne: "start \<noteq> []"
    and n: "length eq_fug = self_num_comps st"
    and fug: "fug = start[0 := exp (self_gwbeta_RT s + activity_func s T P (self_v_H_0 s)
                              + delta_mu_func s - self_gw0_RT s)]"
    and st': "st' = s\<lparr> self_fug := NdArray fug \<rparr>"
    by blast
  have start: "start = take 1 (zeros (self_num_comps st)) @ drop 1 eq_fug"
    using sv assms(2) by (simp add: start_vector_def)
  have pos: "0 < length eq_fug"
  proof (rule ccontr)
    assume "\<not> 0 < length eq_fug"
    then have "eq_fug = []" "self_num_comps st = 0" using n by simp_all
    then have "start = []" unfolding start by (simp add: zeros_def)
    with ne show False by simp
  qed
  have len: "length start = length eq_fug"
    unfolding start using pos n by (simp add: zeros_def)
  have e: "self_gwbeta_RT st' + activity_func st' T P (self_v_H_0 st') + delta_mu_func st'
             - self_gw0_RT st'
           = self_gwbeta_RT s + activity_func s T P (self_v_H_0 s) + delta_mu_func s
             - self_gw0_RT s"
    unfolding st' by (simp add: activity_func_fug delta_mu_func_fug)
  have a: "length fug = length eq_fug" unfolding fug using len by simp
  have b: "fug ! 0 = exp (self_gwbeta_RT st' + activity_func st' T P (self_v_H_0 st')
                      + delta_mu_func st' - self_gw0_RT st')"
    unfolding e using ne by (subst fug) simp
  have c: "fug ! i = eq_fug ! i" if "1 \<le> i" "i < length eq_fug" for i
  proof -
    have "fug ! i = start ! i" using that by (subst fug) simp
    also have "\<dots> = eq_fug ! i"
      unfolding start using that n pos by (simp add: nth_append zeros_def)
    finally show ?thesis .
  qed
  from a b c show ?thesis by blast
qed

theorem fugacity_writes_index_zero_witness:
  "case HvdwpmEos_init quad_milne comps3 T_0 (P_0 + 1) ''s2'' of
     Some (Inr st) \<Rightarrow>
       (case fugacity quad_milne st comps3 T_0 (P_0 + 1) [0, 1, 0] eq_fug3 of
          Some (Inr (fug, st')) \<Rightarrow>
            eq_fug3 \<noteq> self_eq_fug st \<and> self_water_ind st = 1
            \<and> compname (comps3 ! 1) = ''h2o''
            \<and> length fug = length eq_fug3
            \<and> fug ! 0 = exp (self_gwbeta_RT st' + activity_func st' T_0 (P_0 + 1) (self_v_H_0 st')
                             + delta_mu_func st' - self_gw0_RT st')
            \<and> fug ! 1 = eq_fug3 ! 1 \<and> fug ! 2 = eq_fug3 ! 2
            \<and> fug ! self_water_ind st = 0
            \<and> fug ! self_water_ind st
                \<noteq> exp (self_gwbeta_RT st' + activity_func st' T_0 (P_0 + 1) (self_v_H_0 st')
                         + delta_mu_func st' - self_gw0_RT st')
        | _ \<Rightarrow> False)
   | _ \<Rightarrow> False"
proof -
  from lab3_two_calls[of "[0, 1, 0]"] obtain st fug st' where
    i: "HvdwpmEos_init quad_milne comps3 T_0 (P_0 + 1) ''s2'' = Some (Inr st)"
    and F: "fugacity quad_milne st comps3 T_0 (P_0 + 1) [0, 1, 0] eq_fug3 = Some (Inr (fug, st'))"
    and w: "self_water_ind st = 1" and z: "self_eq_fug st = zeros 3"
    by blast
  have ne: "eq_fug3 \<noteq> self_eq_fug st" unfolding z by (rule eq_fug3_not_zeros)
  note t = fugacity_writes_index_zero[OF F ne]
  have l3: "length eq_fug3 = 3" by (simp add: eq_fug3_def)
  from t have a: "length fug = length eq_fug3"
    and b: "fug ! 0 = exp (self_gwbeta_RT st' + activity_func st' T_0 (P_0 + 1) (self_v_H_0 st')
                             + delta_mu_func st' - self_gw0_RT st')"
    and c: "\<forall>i. 1 \<le> i \<and> i < length eq_fug3 \<longrightarrow> fug ! i = eq_fug3 ! i"
    by blast+
  from c have c1: "fug ! 1 = eq_fug3 ! 1" and c2: "fug ! 2 = eq_fug3 ! 2"
    unfolding l3 by simp_all
  have e1: "eq_fug3 ! 1 = 0" by (simp add: eq_fug3_def)
  have d: "fug ! self_water_ind st = 0" unfolding w c1 e1 ..
  have h: "compname (comps3 ! 1) = ''h2o''" by (simp add: comps3_def h2o_def)
  have p: "0 < exp (self_gwbeta_RT st' + activity_func st' T_0 (P_0 + 1) (self_v_H_0 st')
                         + delta_mu_func st' - self_gw0_RT st')"
    by (rule exp_gt_zero)
  have d': "fug ! self_water_ind st
                \<noteq> exp (self_gwbeta_RT st' + activity_func st' T_0 (P_0 + 1) (self_v_H_0 st')
                         + delta_mu_func st' - self_gw0_RT st')"
    unfolding d using p by simp
  show ?thesis
    using ne w h a b c1 c2 d d' by (simp add: i F)
qed

text \<open>
  Claim C2 (the claim fails). For the components \<open>comps3\<close> and structure \<open>s2\<close>, two calls in a
  row with the same temperature, pressure and \<open>eq_fug3\<close> both succeed and return different
  vectors: the second call runs the solve again, started from the compressibility that the
  first call stored, and its entry 0 is strictly greater.
\<close>

theorem second_call_differs_counterexample:
  "case HvdwpmEos_init quad_milne comps3 T_0 (P_0 + 1) ''s2'' of
     Some (Inr st) \<Rightarrow>
       (case fugacity quad_milne st comps3 T_0 (P_0 + 1) [0, 1, 0] eq_fug3 of
          Some (Inr (fug1, st1)) \<Rightarrow>
            (case fugacity quad_milne st1 comps3 T_0 (P_0 + 1) [0, 1, 0] eq_fug3 of
               Some (Inr (fug2, st2)) \<Rightarrow> fug2 \<noteq> fug1 \<and> fug1 ! 0 < fug2 ! 0
             | _ \<Rightarrow> False)
        | _ \<Rightarrow> False)
   | _ \<Rightarrow> False"
proof -
  from lab3_two_calls[of "[0, 1, 0]"] obtain st fug1 st1 fug2 st2 w1 w2 where
    i: "HvdwpmEos_init quad_milne comps3 T_0 (P_0 + 1) ''s2'' = Some (Inr st)"
    and F1: "fugacity quad_milne st comps3 T_0 (P_0 + 1) [0, 1, 0] eq_fug3 = Some (Inr (fug1, st1))"
    and F2: "fugacity quad_milne st1 comps3 T_0 (P_0 + 1) [0, 1, 0] eq_fug3 = Some (Inr (fug2, st2))"
    and f: "fug1 = [w1, 0, eq_fug3 ! 2]" "fug2 = [w2, 0, eq_fug3 ! 2]" and lt: "w1 < w2"
    by blast
  have "fug1 ! 0 < fug2 ! 0" unfolding f using lt by simp
  moreover from this have "fug2 \<noteq> fug1" by auto
  ultimately show ?thesis by (simp add: i F1 F2)
qed

text \<open>
  Claim C2, as amended. \<open>fugacity\<close> keeps no cache of its result and \<open>self.eq_fug\<close> is never
  assigned: every call runs \<open>find_hydrate_properties\<close> again, on the instance as the previous
  call left it. When two calls in a row with the same \<open>T\<close>, \<open>P\<close> and \<open>eq_fug\<close> both succeed,
  the second vector has the length of the first and agrees with it at every index from 1
  on; entry 0 of each is \<open>exp(mu_H_RT - gw0_RT)\<close> on the instance as that call's own solve
  left it, so the two vectors are identical exactly when these two numbers are equal.
\<close>

theorem fugacity_twice:
  assumes "fugacity quad st compobjs T P x eq_fug = Some (Inr (fug1, st1))"
    and "fugacity quad st1 compobjs T P x eq_fug = Some (Inr (fug2, st2))"
  shows "(\<exists>s. find_hydrate_properties quad st1 compobjs T P eq_fug = Some (Inr s)
              \<and> st2 = s\<lparr> self_fug := NdArray fug2 \<rparr>)
     \<and> self_eq_fug st1 = self_eq_fug st \<and> self_eq_fug st2 = self_eq_fug st
     \<and> length fug2 = length fug1
     \<and> (\<forall>i. 1 \<le> i \<and> i < length fug1 \<longrightarrow> fug2 ! i = fug1 ! i)
     \<and> fug1 ! 0 = exp (self_gwbeta_RT st1 + activity_func st1 T P (self_v_H_0 st1)
                       + delta_mu_func st1 - self_gw0_RT st1)
     \<and> fug2 ! 0 = exp (self_gwbeta_RT st2 + activity_func st2 T P (self_v_H_0 st2)
                       + delta_mu_func st2 - self_gw0_RT st2)
     \<and> (fug2 = fug1 \<longleftrightarrow> fug2 ! 0 = fug1 ! 0)"
proof -
  define wf where "wf = (\<lambda>s. exp (self_gwbeta_RT s + activity_func s T P (self_v_H_0 s)
                              + delta_mu_func s - self_gw0_RT s))"
  have wf_fug: "wf (s\<lparr> self_fug := f \<rparr>) = wf s" for s f
    by (simp add: wf_def activity_func_fug delta_mu_func_fug)
  from fugacity_result[OF assms(1)] obtain start1 s1 where
    sv1: "start_vector st eq_fug = Inr start1" and ne1: "start1 \<noteq> []"
    and r1: "find_hydrate_properties quad st compobjs T P eq_fug = Some (Inr s1)"
    and fug1: "fug1 = start1[0 := wf s1]"
    and st1: "st1 = s1\<lparr> self_fug := NdArray fug1 \<rparr>"
    unfolding wf_def by blast
  from fugacity_result[OF assms(2)] obtain start2 s2 where
    sv2: "start_vector st1 eq_fug = Inr start2" and ne2: "start2 \<noteq> []"
    and r2: "find_hydrate_properties quad st1 compobjs T P eq_fug = Some (Inr s2)"
    and fug2: "fug2 = start2[0 := wf s2]"
    and st2: "st2 = s2\<lparr> self_fug := NdArray fug2 \<rparr>"
    unfolding wf_def by blast
  from find_hydrate_properties_result[OF r1] have q1: "self_eq_fug s1 = self_eq_fug st"
    "self_num_comps s1 = self_num_comps st"
    by (auto simp: frame_def)
  from find_hydrate_properties_result[OF r2] have q2: "self_eq_fug s2 = self_eq_fug st1"
    by (auto simp: frame_def)
  have e1: "self_eq_fug st1 = self_eq_fug st" and n1: "self_num_comps st1 = self_num_comps st"
    unfolding st1 using q1 by simp_all
  have e2: "self_eq_fug st2 = self_eq_fug st" unfolding st2 using q2 e1 by simp
  have f2: "fug2 = fug1[0 := wf s2]"
  proof (cases "eq_fug = self_eq_fug st")
    case True
    then have "start_vector st1 eq_fug = Inr fug1"
      unfolding start_vector_def e1 by (simp add: st1)
    with sv2 have "start2 = fug1" by simp
    then show ?thesis unfolding fug2 by simp
  next
    case False
    then have "start1 = take 1 (zeros (self_num_comps st)) @ drop 1 eq_fug"
      "start2 = take 1 (zeros (self_num_comps st)) @ drop 1 eq_fug"
      using sv1 sv2 by (simp_all add: start_vector_def e1 n1)
    then have "start2 = start1" by simp
    then show ?thesis unfolding fug2 fug1 by simp
  qed
  have ne: "fug1 \<noteq> []" unfolding fug1 using ne1 by simp
  have a: "\<exists>s. find_hydrate_properties quad st1 compobjs T P eq_fug = Some (Inr s)
              \<and> st2 = s\<lparr> self_fug := NdArray fug2 \<rparr>"
    using r2 st2 by blast
  have b: "length fug2 = length fug1" unfolding f2 by simp
  have c: "\<forall>i. 1 \<le> i \<and> i < length fug1 \<longrightarrow> fug2 ! i = fug1 ! i"
    unfolding f2 by simp
  have d1: "fug1 ! 0 = wf st1"
    unfolding st1 wf_fug using ne1 by (subst fug1) simp
  have d2: "fug2 ! 0 = wf st2"
    unfolding st2 wf_fug using ne by (subst f2) simp
  have g: "fug2 = fug1 \<longleftrightarrow> fug2 ! 0 = fug1 ! 0"
  proof
    assume "fug2 ! 0 = fug1 ! 0"
    then have "wf s2 = fug1 ! 0" using ne by (simp add: f2)
    then show "fug2 = fug1" unfolding f2 by simp
  qed simp
  from a e1 e2 b c d1 d2 g show ?thesis unfolding wf_def by blast
qed

theorem fugacity_twice_witness:
  "case HvdwpmEos_init quad_milne comps3 T_0 (P_0 + 1) ''s2'' of
     Some (Inr st) \<Rightarrow>
       (case fugacity quad_milne st comps3 T_0 (P_0 + 1) [0, 1, 0] eq_fug3 of
          Some (Inr (fug1, st1)) \<Rightarrow>
            (case fugacity quad_milne st1 comps3 T_0 (P_0 + 1) [0, 1, 0] eq_fug3 of
               Some (Inr (fug2, st2)) \<Rightarrow>
                 find_hydrate_properties quad_milne st1 comps3 T_0 (P_0 + 1) eq_fug3 \<noteq> None
                 \<and> self_eq_fug st1 = self_eq_fug st \<and> self_eq_fug st2 = self_eq_fug st
                 \<and> length fug2 = length fug1
                 \<and> fug2 ! 1 = fug1 ! 1 \<and> fug2 ! 2 = fug1 ! 2
                 \<and> (fug2 = fug1) = (fug2 ! 0 = fug1 ! 0)
             | _ \<Rightarrow> False)
        | _ \<Rightarrow> False)
   | _ \<Rightarrow> False"
proof -
  from lab3_two_calls[of "[0, 1, 0]"] obtain st fug1 st1 fug2 st2 w1 where
    i: "HvdwpmEos_init quad_milne comps3 T_0 (P_0 + 1) ''s2'' = Some (Inr st)"
    and F1: "fugacity quad_milne st comps3 T_0 (P_0 + 1) [0, 1, 0] eq_fug3 = Some (Inr (fug1, st1))"
    and F2: "fugacity quad_milne st1 comps3 T_0 (P_0 + 1) [0, 1, 0] eq_fug3 = Some (Inr (fug2, st2))"
    and f: "fug1 = [w1, 0, eq_fug3 ! 2]"
    by blast
  note t = fugacity_twice[OF F1 F2]
  have l: "length fug1 = 3" unfolding f by simp
  from t have a: "find_hydrate_properties quad_milne st1 comps3 T_0 (P_0 + 1) eq_fug3 \<noteq> None"
    by auto
  from t have b: "self_eq_fug st1 = self_eq_fug st" "self_eq_fug st2 = self_eq_fug st"
    "length fug2 = length fug1" "(fug2 = fug1) = (fug2 ! 0 = fug1 ! 0)"
    by blast+
  from t have c: "\<forall>i. 1 \<le> i \<and> i < length fug1 \<longrightarrow> fug2 ! i = fug1 ! i" by blast
  from c have c1: "fug2 ! 1 = fug1 ! 1" and c2: "fug2 ! 2 = fug1 ! 2"
    unfolding l by simp_all
  show ?thesis
    using a b c1 c2 by (simp add: i F1 F2)
qed

lemma rne_of_int: "rne (of_int n) = n"
  by (simp add: rne_def)

lemma rne_bounds: "\<lfloor>x\<rfloor> \<le> rne x" "rne x \<le> \<lfloor>x\<rfloor> + 1"
  by (simp_all add: rne_def Let_def)

lemma rne_mono: "x \<le> y \<Longrightarrow> rne x \<le> rne y"
proof (cases "\<lfloor>x\<rfloor> = \<lfloor>y\<rfloor>")
  case True
  assume "x \<le> y"
  then have "x - of_int \<lfloor>y\<rfloor> \<le> y - of_int \<lfloor>y\<rfloor>" by simp
  then show ?thesis unfolding rne_def Let_def True by auto
next
  case False
  assume "x \<le> y"
  then have "\<lfloor>x\<rfloor> \<le> \<lfloor>y\<rfloor>" by (rule floor_mono)
  with False have "\<lfloor>x\<rfloor> + 1 \<le> \<lfloor>y\<rfloor>" by simp
  with rne_bounds(2)[of x] rne_bounds(1)[of y] show ?thesis by linarith
qed

lemma rne_le: "x \<le> of_int n \<Longrightarrow> rne x \<le> n"
  using rne_mono[of x "of_int n"] by (simp add: rne_of_int)

lemma rne_ge: "of_int n \<le> x \<Longrightarrow> n \<le> rne x"
  using rne_mono[of "of_int n" x] by (simp add: rne_of_int)

lemma f64_ulp_pos: "0 < f64_ulp x"
  by (simp add: f64_ulp_def)

lemma f64_nearest_pos: "0 < x \<Longrightarrow> f64_nearest x = of_int (rne (x / f64_ulp x)) * f64_ulp x"
  by (simp add: f64_nearest_def)

lemma f64_exponent_mono: "0 < x \<Longrightarrow> x \<le> y \<Longrightarrow> f64_exponent x \<le> f64_exponent y"
proof -
  assume a: "0 < x" "x \<le> y"
  then have "log 2 x \<le> log 2 y" by simp
  then have "\<lfloor>log 2 x\<rfloor> \<le> \<lfloor>log 2 y\<rfloor>" by (rule floor_mono)
  then show ?thesis by (simp add: f64_exponent_def)
qed

lemma floor_log2_bounds:
  assumes "0 < x"
  shows "2 powr of_int \<lfloor>log 2 x\<rfloor> \<le> x" "x < 2 powr of_int (\<lfloor>log 2 x\<rfloor> + 1)"
  using floor_log_eq_powr_iff[of x 2 "\<lfloor>log 2 x\<rfloor>"] assms by simp_all

lemma f64_upper: "0 < x \<Longrightarrow> x < 2 powr (of_int (f64_exponent x) + 1)"
proof -
  assume a: "0 < x"
  have "\<lfloor>log 2 x\<rfloor> \<le> f64_exponent x" by (simp add: f64_exponent_def)
  then have "(of_int (\<lfloor>log 2 x\<rfloor> + 1) :: real) \<le> of_int (f64_exponent x) + 1" by simp
  then have "(2::real) powr of_int (\<lfloor>log 2 x\<rfloor> + 1) \<le> 2 powr (of_int (f64_exponent x) + 1)"
    by (intro powr_mono) simp_all
  with floor_log2_bounds(2)[OF a] show ?thesis by linarith
qed

lemma f64_exponent_normal: "- 1022 \<le> \<lfloor>log 2 x\<rfloor> \<Longrightarrow> f64_exponent x = \<lfloor>log 2 x\<rfloor>"
  unfolding f64_exponent_def by (rule max_absorb1)

lemma f64_lower:
  "0 < x \<Longrightarrow> - 1022 \<le> \<lfloor>log 2 x\<rfloor> \<Longrightarrow> 2 powr of_int (f64_exponent x) \<le> x"
  unfolding f64_exponent_normal by (rule floor_log2_bounds(1))

lemma ulp_times: "2 ^ 52 * f64_ulp x = 2 powr of_int (f64_exponent x)"
  "2 ^ 53 * f64_ulp x = 2 powr (of_int (f64_exponent x) + 1)"
proof -
  have a: "(2::real) ^ 52 = 2 powr 52" "(2::real) ^ 53 = 2 powr 53" by simp_all
  show "2 ^ 52 * f64_ulp x = 2 powr of_int (f64_exponent x)"
    unfolding a f64_ulp_def powr_add[symmetric] by simp
  show "2 ^ 53 * f64_ulp x = 2 powr (of_int (f64_exponent x) + 1)"
    unfolding a f64_ulp_def powr_add[symmetric] by (simp add: ac_simps)
qed

lemma mant_upper: "0 < x \<Longrightarrow> x / f64_ulp x < 2 ^ 53"
proof -
  assume a: "0 < x"
  from f64_upper[OF a] have "x < 2 ^ 53 * f64_ulp x" unfolding ulp_times .
  then show ?thesis using f64_ulp_pos[of x] by (simp add: field_simps)
qed

lemma mant_lower: "0 < x \<Longrightarrow> - 1022 \<le> \<lfloor>log 2 x\<rfloor> \<Longrightarrow> 2 ^ 52 \<le> x / f64_ulp x"
proof -
  assume a: "0 < x" "- 1022 \<le> \<lfloor>log 2 x\<rfloor>"
  from f64_lower[OF a] have "2 ^ 52 * f64_ulp x \<le> x" unfolding ulp_times .
  then show ?thesis using f64_ulp_pos[of x] by (simp add: field_simps)
qed

lemma rne_mant_upper: "0 < x \<Longrightarrow> rne (x / f64_ulp x) \<le> 2 ^ 53"
proof -
  assume a: "0 < x"
  have "x / f64_ulp x \<le> of_int (2 ^ 53)" using mant_upper[OF a] by simp
  then show ?thesis by (rule rne_le)
qed

lemma rne_mant_lower: "0 < x \<Longrightarrow> - 1022 \<le> \<lfloor>log 2 x\<rfloor> \<Longrightarrow> 2 ^ 52 \<le> rne (x / f64_ulp x)"
proof -
  assume a: "0 < x" "- 1022 \<le> \<lfloor>log 2 x\<rfloor>"
  have "of_int (2 ^ 52) \<le> x / f64_ulp x" using mant_lower[OF a] by simp
  then show ?thesis by (rule rne_ge)
qed

lemma rne_mant_nonneg: "0 \<le> x \<Longrightarrow> 0 \<le> rne (x / f64_ulp x)"
proof -
  assume "0 \<le> x"
  then have "of_int 0 \<le> x / f64_ulp x" using f64_ulp_pos[of x] by simp
  then show ?thesis by (rule rne_ge)
qed

lemma f64_nearest_nonneg: "0 \<le> x \<Longrightarrow> 0 \<le> f64_nearest x"
proof (cases "x = 0")
  case True then show ?thesis by (simp add: f64_nearest_def)
next
  case False
  assume "0 \<le> x"
  with False have p: "0 < x" by simp
  show ?thesis unfolding f64_nearest_pos[OF p]
    using rne_mant_nonneg[of x] p f64_ulp_pos[of x] by simp
qed

lemma f64_nearest_upper: "0 < x \<Longrightarrow> f64_nearest x \<le> 2 powr (of_int (f64_exponent x) + 1)"
proof -
  assume p: "0 < x"
  have "(of_int (rne (x / f64_ulp x)) :: real) \<le> of_int (2 ^ 53)"
    using rne_mant_upper[OF p] by (simp only: of_int_le_iff)
  then have "of_int (rne (x / f64_ulp x)) * f64_ulp x \<le> 2 ^ 53 * f64_ulp x"
    using f64_ulp_pos[of x] by simp
  then show ?thesis unfolding f64_nearest_pos[OF p] ulp_times .
qed

lemma f64_nearest_lower:
  "0 < x \<Longrightarrow> - 1022 \<le> \<lfloor>log 2 x\<rfloor> \<Longrightarrow> 2 powr of_int (f64_exponent x) \<le> f64_nearest x"
proof -
  assume p: "0 < x" "- 1022 \<le> \<lfloor>log 2 x\<rfloor>"
  have "(of_int (2 ^ 52) :: real) \<le> of_int (rne (x / f64_ulp x))"
    using rne_mant_lower[OF p] by (simp only: of_int_le_iff)
  then have "2 ^ 52 * f64_ulp x \<le> of_int (rne (x / f64_ulp x)) * f64_ulp x"
    using f64_ulp_pos[of x] by simp
  then show ?thesis unfolding f64_nearest_pos[OF p(1)] ulp_times .
qed

lemma f64_nearest_mono:
  assumes "0 \<le> x" "x \<le> y"
  shows "f64_nearest x \<le> f64_nearest y"
proof (cases "x = 0")
  case True
  then show ?thesis using f64_nearest_nonneg[of y] assms by (simp add: f64_nearest_def)
next
  case False
  with assms have p: "0 < x" "0 < y" by simp_all
  from f64_exponent_mono[OF p(1) assms(2)] have le: "f64_exponent x \<le> f64_exponent y" .
  show ?thesis
  proof (cases "f64_exponent x = f64_exponent y")
    case True
    then have u: "f64_ulp y = f64_ulp x" by (simp add: f64_ulp_def)
    have "x / f64_ulp x \<le> y / f64_ulp x"
      using assms(2) f64_ulp_pos[of x] by (simp add: divide_right_mono)
    then have "rne (x / f64_ulp x) \<le> rne (y / f64_ulp x)" by (rule rne_mono)
    then have "(of_int (rne (x / f64_ulp x)) :: real) \<le> of_int (rne (y / f64_ulp x))"
      by (simp only: of_int_le_iff)
    then show ?thesis
      unfolding f64_nearest_pos[OF p(1)] f64_nearest_pos[OF p(2)] u
      using f64_ulp_pos[of x] by simp
  next
    case False
    with le have lt: "f64_exponent x + 1 \<le> f64_exponent y" by simp
    have "- 1022 \<le> f64_exponent x" by (simp add: f64_exponent_def)
    with lt have "- 1022 < f64_exponent y" by simp
    then have n: "- 1022 \<le> \<lfloor>log 2 y\<rfloor>" by (simp add: f64_exponent_def max_def split: if_splits)
    have "(of_int (f64_exponent x) + 1 :: real) \<le> of_int (f64_exponent y)"
      using lt by (metis of_int_1 of_int_add of_int_le_iff)
    then have "(2::real) powr (of_int (f64_exponent x) + 1) \<le> 2 powr of_int (f64_exponent y)"
      by (intro powr_mono) simp_all
    with f64_nearest_upper[OF p(1)] f64_nearest_lower[OF p(2) n] show ?thesis by linarith
  qed
qed

lemma f64_exponent_eqI:
  assumes "0 < r" "r < 2 powr (of_int e + 1)" "- 1022 \<le> e"
    "e = - 1022 \<or> 2 powr of_int e \<le> r"
  shows "f64_exponent r = e"
proof -
  have up: "\<lfloor>log 2 r\<rfloor> \<le> e"
  proof -
    have "log 2 r < of_int e + 1"
      using assms(1,2) by (simp add: log_less_iff)
    then have "log 2 r < of_int (e + 1)" by simp
    then have "\<lfloor>log 2 r\<rfloor> < e + 1" by (simp only: floor_less_iff)
    then show ?thesis by simp
  qed
  from assms(4) show ?thesis
  proof
    assume "e = - 1022"
    with up show ?thesis by (simp add: f64_exponent_def)
  next
    assume "2 powr of_int e \<le> r"
    then have "of_int e \<le> log 2 r" using assms(1) by (simp add: le_log_iff)
    then have "e \<le> \<lfloor>log 2 r\<rfloor>" by (simp add: le_floor_iff)
    with up assms(3) show ?thesis by (simp add: f64_exponent_def)
  qed
qed

lemma f64_nearest_idem:
  assumes "0 \<le> x"
  shows "f64_nearest (f64_nearest x) = f64_nearest x"
proof (cases "f64_nearest x = 0")
  case True
  then show ?thesis by (simp add: f64_nearest_def)
next
  case False
  with f64_nearest_nonneg[OF assms] have rp: "0 < f64_nearest x" by simp
  from False have "x \<noteq> 0" by (auto simp: f64_nearest_def)
  with assms have p: "0 < x" by simp
  define e where "e = f64_exponent x"
  define u where "u = f64_ulp x"
  define n where "n = rne (x / u)"
  define r where "r = f64_nearest x"
  have r: "r = of_int n * u" unfolding r_def n_def u_def by (rule f64_nearest_pos[OF p])
  have up: "0 < u" unfolding u_def by (rule f64_ulp_pos)
  have u: "u = 2 powr (of_int e - 52)" by (simp add: u_def e_def f64_ulp_def)
  have t: "2 ^ 52 * u = 2 powr of_int e" "2 ^ 53 * u = 2 powr (of_int e + 1)"
    unfolding u_def e_def by (rule ulp_times)+
  have rpos: "0 < r" using rp by (simp add: r_def)
  have n53: "n \<le> 2 ^ 53" unfolding n_def u_def by (rule rne_mant_upper[OF p])
  have em: "- 1022 \<le> e" by (simp add: e_def f64_exponent_def)
  show ?thesis
  proof (cases "n = 2 ^ 53")
    case True
    have re: "r = 2 powr (of_int (e + 1))" unfolding r True using t(2) by simp
    have "f64_exponent r = e + 1"
    proof (rule f64_exponent_eqI)
      show "0 < r" by (rule rpos)
      show "r < 2 powr (of_int (e + 1) + 1)" unfolding re by (intro powr_less_mono) simp_all
      show "- 1022 \<le> e + 1" using em by simp
      show "e + 1 = - 1022 \<or> 2 powr of_int (e + 1) \<le> r" unfolding re by simp
    qed
    then have u': "f64_ulp r = 2 * u"
      unfolding f64_ulp_def u
      by (simp add: powr_diff powr_add)
    have "r / (2 * u) = of_int (2 ^ 52)"
      unfolding r True using up by simp
    then have "rne (r / f64_ulp r) = 2 ^ 52" unfolding u' by (simp only: rne_of_int)
    then have "f64_nearest r = of_int (2 ^ 52) * (2 * u)"
      unfolding f64_nearest_pos[OF rpos] u' by simp
    also have "\<dots> = r" unfolding r True by simp
    finally show ?thesis unfolding r_def .
  next
    case False
    with n53 have lt: "n < 2 ^ 53" by simp
    have "(of_int n :: real) < of_int (2 ^ 53)" using lt by (simp only: of_int_less_iff)
    then have "r < 2 ^ 53 * u" unfolding r using up by simp
    then have r_up: "r < 2 powr (of_int e + 1)" unfolding t .
    have low: "e = - 1022 \<or> 2 powr of_int e \<le> r"
    proof (cases "e = - 1022")
      case True then show ?thesis by simp
    next
      case F: False
      with em have "- 1022 < e" by simp
      then have nrm: "- 1022 \<le> \<lfloor>log 2 x\<rfloor>"
        by (simp add: e_def f64_exponent_def max_def split: if_splits)
      from f64_nearest_lower[OF p nrm] show ?thesis by (simp add: r_def e_def)
    qed
    have "f64_exponent r = e" by (rule f64_exponent_eqI[OF rpos r_up em low])
    then have u': "f64_ulp r = u" by (simp add: f64_ulp_def u)
    have "r / u = of_int n" unfolding r using up by simp
    then have "rne (r / f64_ulp r) = n" unfolding u' by (simp only: rne_of_int)
    then have "f64_nearest r = of_int n * u"
      unfolding f64_nearest_pos[OF rpos] u' by simp
    then show ?thesis unfolding r_def[symmetric] r .
  qed
qed

lemma f64_nearest_0: "f64_nearest 0 = 0"
  by (simp add: f64_nearest_def)

lemma f64_exponent_1: "f64_exponent 1 = 0"
  by (simp add: f64_exponent_def)

lemma f64_nearest_1: "f64_nearest 1 = 1"
proof -
  have u: "f64_ulp 1 = 2 powr (- 52)" by (simp add: f64_ulp_def f64_exponent_1)
  have "1 / f64_ulp 1 = 2 powr 52" unfolding u by (simp add: powr_minus field_simps)
  also have "\<dots> = of_int (2 ^ 52)" by simp
  finally have "rne (1 / f64_ulp 1) = 2 ^ 52" by (simp only: rne_of_int)
  then have "f64_nearest 1 = of_int (2 ^ 52) * 2 powr (- 52)"
    unfolding f64_nearest_pos[OF zero_less_one] u by simp
  also have "\<dots> = 2 powr 52 * 2 powr (- 52)" by simp
  also have "\<dots> = 1" unfolding powr_add[symmetric] by simp
  finally show ?thesis .
qed

lemma f64_le_trans: "f64_le a b \<Longrightarrow> f64_le b c \<Longrightarrow> f64_le a c"
  by (auto simp: f64_le_def split: npfloat.splits)

lemma f64_le_refl: "f64_nn a \<Longrightarrow> f64_le a a"
  by (auto simp: f64_le_def f64_nn_def split: npfloat.splits)

lemma f64_round_nonneg:
  assumes "0 \<le> x"
  shows "f64_round x = (if 2 ^ 1024 \<le> f64_nearest x then PInf else Fin (f64_nearest x))"
    and "f64_nn (f64_round x)"
proof -
  have n: "0 \<le> f64_nearest x" by (rule f64_nearest_nonneg[OF assms])
  have "\<not> f64_nearest x \<le> - (2 ^ 1024)"
  proof
    assume "f64_nearest x \<le> - (2 ^ 1024)"
    moreover have "- (2 ^ 1024) < (0::real)" by simp
    ultimately show False using n by linarith
  qed
  then show e: "f64_round x = (if 2 ^ 1024 \<le> f64_nearest x then PInf else Fin (f64_nearest x))"
    by (simp add: f64_round_def Let_def)
  show "f64_nn (f64_round x)"
    unfolding e using n f64_nearest_idem[OF assms] by (simp add: f64_nn_def)
qed

lemma f64_round_mono_Fin:
  assumes "0 \<le> x" "x \<le> y" "f64_nearest x = x"
  shows "f64_le (Fin x) (f64_round y)"
proof -
  have y: "0 \<le> y" using assms by simp
  have "x \<le> f64_nearest y" using f64_nearest_mono[OF assms(1,2)] assms(3) by simp
  then show ?thesis unfolding f64_round_nonneg(1)[OF y] by (simp add: f64_le_def)
qed

lemma f64_add_nn:
  assumes "f64_nn a" "f64_nn b"
  shows "f64_nn (f64_add a b) \<and> f64_le a (f64_add a b) \<and> f64_le b (f64_add a b)"
proof (cases a)
  case a: (Fin x)
  show ?thesis
  proof (cases b)
    case b: (Fin y)
    from assms a b have h: "0 \<le> x" "f64_nearest x = x" "0 \<le> y" "f64_nearest y = y"
      by (simp_all add: f64_nn_def)
    have s: "0 \<le> x + y" "x \<le> x + y" "y \<le> x + y" using h by simp_all
    show ?thesis
      unfolding a b f64_add.simps
      using f64_round_nonneg(2)[OF s(1)] f64_round_mono_Fin[OF h(1) s(2) h(2)]
        f64_round_mono_Fin[OF h(3) s(3) h(4)] by blast
  next
    case PInf
    then show ?thesis using a by (simp add: f64_nn_def f64_le_def)
  next
    case NInf
    then show ?thesis using assms by (simp add: f64_nn_def)
  next
    case NaN
    then show ?thesis using assms by (simp add: f64_nn_def)
  qed
next
  case PInf
  then show ?thesis using assms by (cases b) (simp_all add: f64_nn_def f64_le_def)
next
  case NInf
  then show ?thesis using assms by (simp add: f64_nn_def)
next
  case NaN
  then show ?thesis using assms by (simp add: f64_nn_def)
qed

lemma f64_sum_nn:
  assumes "f64_nn acc" "\<forall>p\<in>set ps. f64_nn p"
  shows "f64_nn (foldl f64_add acc ps) \<and> f64_le acc (foldl f64_add acc ps)
         \<and> (\<forall>p\<in>set ps. f64_le p (foldl f64_add acc ps))"
  using assms
proof (induction ps arbitrary: acc)
  case Nil
  then show ?case by (simp add: f64_le_refl)
next
  case (Cons p ps)
  from Cons.prems have p: "f64_nn p" and ps: "\<forall>q\<in>set ps. f64_nn q" by simp_all
  note a = f64_add_nn[OF Cons.prems(1) p]
  from a have n: "f64_nn (f64_add acc p)" by blast
  note ih = Cons.IH[OF n ps]
  from ih have r: "f64_nn (foldl f64_add (f64_add acc p) ps)"
    and l: "f64_le (f64_add acc p) (foldl f64_add (f64_add acc p) ps)"
    and m: "\<forall>q\<in>set ps. f64_le q (foldl f64_add (f64_add acc p) ps)" by blast+
  have 1: "f64_le acc (foldl f64_add (f64_add acc p) ps)"
    using a l by (blast intro: f64_le_trans)
  have 2: "f64_le p (foldl f64_add (f64_add acc p) ps)"
    using a l by (blast intro: f64_le_trans)
  show ?case using r 1 2 m by simp
qed

lemma f64_nn_one: "f64_nn (Fin 1)"
  by (simp add: f64_nn_def f64_nearest_1)

lemma f64_nn_zero: "f64_nn (Fin 0)"
  by (simp add: f64_nn_def f64_nearest_0)

lemma products_nn:
  assumes "\<forall>c\<in>set C. 0 \<le> c" "\<forall>f\<in>set eq_fug. 0 \<le> f"
  shows "\<forall>p\<in>set (map2 (\<lambda>c f. f64_round (c * f)) C eq_fug). f64_nn p"
proof
  fix p assume "p \<in> set (map2 (\<lambda>c f. f64_round (c * f)) C eq_fug)"
  then obtain c f where cf: "(c, f) \<in> set (zip C eq_fug)" and p: "p = f64_round (c * f)"
    by auto
  from cf have "c \<in> set C" "f \<in> set eq_fug" by (auto dest: set_zip_leftD set_zip_rightD)
  with assms have "0 \<le> c * f" by simp
  then show "f64_nn p" unfolding p by (rule f64_round_nonneg(2))
qed

lemma denominator_f64_props:
  assumes "\<forall>c\<in>set C. 0 \<le> c" "\<forall>f\<in>set eq_fug. 0 \<le> f"
  shows "f64_nn (denominator_f64 C eq_fug)"
    and "f64_le (Fin 1) (denominator_f64 C eq_fug)"
    and "\<forall>p\<in>set (map2 (\<lambda>c f. f64_round (c * f)) C eq_fug). f64_le p (denominator_f64 C eq_fug)"
proof -
  let ?ps = "map2 (\<lambda>c f. f64_round (c * f)) C eq_fug"
  let ?S = "foldl f64_add (Fin 0) ?ps"
  note s = f64_sum_nn[OF f64_nn_zero products_nn[OF assms]]
  from s have Sn: "f64_nn ?S" and Sp: "\<forall>p\<in>set ?ps. f64_le p ?S" by blast+
  note d = f64_add_nn[OF f64_nn_one Sn]
  have dd: "denominator_f64 C eq_fug = f64_add (Fin 1) ?S"
    by (simp add: denominator_f64_def)
  show "f64_nn (denominator_f64 C eq_fug)" unfolding dd using d by blast
  show "f64_le (Fin 1) (denominator_f64 C eq_fug)" unfolding dd using d by blast
  show "\<forall>p\<in>set ?ps. f64_le p (denominator_f64 C eq_fug)"
    unfolding dd using d Sp by (blast intro: f64_le_trans)
qed

lemma f64_div_unit:
  assumes "f64_nn p" "f64_nn d" "f64_le p d" "f64_le (Fin 1) d"
  shows "f64_div p d = NaN \<or> (\<exists>y. f64_div p d = Fin y \<and> 0 \<le> y \<and> y \<le> 1)"
    and "is_finite d \<Longrightarrow> \<exists>y. f64_div p d = Fin y \<and> 0 \<le> y \<and> y \<le> 1"
proof -
  have fin: "\<exists>y. f64_div (Fin x) (Fin z) = Fin y \<and> 0 \<le> y \<and> y \<le> 1"
    if "0 \<le> x" "x \<le> z" "1 \<le> z" for x z
  proof -
    have q: "0 \<le> x / z" "x / z \<le> 1" using that by simp_all
    have lo: "0 \<le> f64_nearest (x / z)" by (rule f64_nearest_nonneg[OF q(1)])
    have hi: "f64_nearest (x / z) \<le> 1"
      using f64_nearest_mono[OF q] by (simp add: f64_nearest_1)
    have "\<not> 2 ^ 1024 \<le> f64_nearest (x / z)"
    proof
      assume "2 ^ 1024 \<le> f64_nearest (x / z)"
      moreover have "(1::real) < 2 ^ 1024" by simp
      ultimately show False using hi by linarith
    qed
    then have "f64_round (x / z) = Fin (f64_nearest (x / z))"
      unfolding f64_round_nonneg(1)[OF q(1)] by simp
    moreover have "z \<noteq> 0" using that by simp
    ultimately show ?thesis using lo hi by simp
  qed
  show "f64_div p d = NaN \<or> (\<exists>y. f64_div p d = Fin y \<and> 0 \<le> y \<and> y \<le> 1)"
  proof (cases d)
    case d: (Fin z)
    with assms(4) have z: "1 \<le> z" by (simp add: f64_le_def)
    from assms(3) d obtain x where p: "p = Fin x" and xz: "x \<le> z"
      by (cases p) (simp_all add: f64_le_def)
    from assms(1) p have x: "0 \<le> x" by (simp add: f64_nn_def)
    show ?thesis unfolding p d using fin[OF x xz z] by blast
  next
    case d: PInf
    show ?thesis using assms(1) unfolding d by (cases p) (simp_all add: f64_nn_def)
  next
    case NInf
    then show ?thesis using assms(2) by (simp add: f64_nn_def)
  next
    case NaN
    then show ?thesis using assms(2) by (simp add: f64_nn_def)
  qed
  show "\<exists>y. f64_div p d = Fin y \<and> 0 \<le> y \<and> y \<le> 1" if "is_finite d"
  proof -
    from that obtain z where d: "d = Fin z" by (cases d) simp_all
    with assms(4) have z: "1 \<le> z" by (simp add: f64_le_def)
    from assms(3) d obtain x where p: "p = Fin x" and xz: "x \<le> z"
      by (cases p) (simp_all add: f64_le_def)
    from assms(1) p have x: "0 \<le> x" by (simp add: f64_nn_def)
    show ?thesis unfolding p d by (rule fin[OF x xz z])
  qed
qed

lemma calc_langmuir_f64_nth:
  "i < self_num_comps st \<Longrightarrow>
   calc_langmuir_f64 st C eq_fug ! i =
     (if compname (self_comps st ! i) \<noteq> ''h2o''
      then f64_div (f64_round (C ! i * eq_fug ! i)) (denominator_f64 C eq_fug) else Fin 0)"
  by (simp add: calc_langmuir_f64_def Let_def)

lemma product_in_set:
  assumes "i < length C" "length eq_fug = length C"
  shows "f64_round (C ! i * eq_fug ! i) \<in> set (map2 (\<lambda>c f. f64_round (c * f)) C eq_fug)"
proof -
  have "i < length (zip C eq_fug)" using assms by simp
  then have "map2 (\<lambda>c f. f64_round (c * f)) C eq_fug ! i \<in> set (map2 (\<lambda>c f. f64_round (c * f)) C eq_fug)"
    by (intro nth_mem) simp
  moreover have "map2 (\<lambda>c f. f64_round (c * f)) C eq_fug ! i = f64_round (C ! i * eq_fug ! i)"
    using assms by simp
  ultimately show ?thesis by simp
qed

lemma f64_nearest_binade:
  assumes "0 < x" "2 powr of_int e \<le> x" "x < 2 powr (of_int e + 1)" "- 1022 \<le> e"
  shows "f64_nearest x = of_int (rne (x / 2 powr (of_int e - 52))) * 2 powr (of_int e - 52)"
proof -
  have "f64_exponent x = e"
    using assms by (intro f64_exponent_eqI) simp_all
  then have "f64_ulp x = 2 powr (of_int e - 52)" by (simp add: f64_ulp_def)
  then show ?thesis unfolding f64_nearest_pos[OF assms(1)] by simp
qed

lemma f64_round_0: "f64_round 0 = Fin 0"
  by (simp add: f64_round_def f64_nearest_0)

lemma f64_round_1: "f64_round 1 = Fin 1"
  by (simp add: f64_round_def f64_nearest_1)

lemma f64_round_small:
  assumes "0 \<le> r" "r < 2 ^ 1024" "f64_nearest x = r"
  shows "f64_round x = Fin r"
proof -
  have "\<not> r \<le> - (2 ^ 1024)"
  proof
    assume "r \<le> - (2 ^ 1024)"
    moreover have "- (2 ^ 1024) < (0::real)" by simp
    ultimately show False using assms(1) by linarith
  qed
  then show ?thesis using assms(2) by (simp add: f64_round_def assms(3))
qed

lemma rne_sixteenth: "rne (of_int n + 1 / 16) = n"
proof -
  have "\<lfloor>of_int n + (1 / 16 :: real)\<rfloor> = n" by (simp add: floor_unique)
  then show ?thesis by (simp add: rne_def Let_def)
qed

lemma f64_nearest_1e17: "f64_nearest 100000000000000000 = 100000000000000000"
proof -
  have a: "(2::real) powr of_int 56 \<le> 100000000000000000"
    "(100000000000000000 :: real) < 2 powr (of_int 56 + 1)"
    by simp_all
  have u: "(2::real) powr (of_int 56 - 52) = 16" by simp
  have m: "(100000000000000000 :: real) / 16 = of_int 6250000000000000" by simp
  have "f64_nearest 100000000000000000 = of_int (rne (100000000000000000 / 16)) * 16"
    using f64_nearest_binade[OF _ a, unfolded u] by simp
  also have "\<dots> = of_int 6250000000000000 * 16" unfolding m rne_of_int ..
  also have "\<dots> = 100000000000000000" by simp
  finally show ?thesis .
qed

lemma f64_nearest_1e17_plus_1: "f64_nearest 100000000000000001 = 100000000000000000"
proof -
  have a: "(2::real) powr of_int 56 \<le> 100000000000000001"
    "(100000000000000001 :: real) < 2 powr (of_int 56 + 1)"
    by simp_all
  have u: "(2::real) powr (of_int 56 - 52) = 16" by simp
  have m: "(100000000000000001 :: real) / 16 = of_int 6250000000000000 + 1 / 16" by simp
  have "f64_nearest 100000000000000001 = of_int (rne (100000000000000001 / 16)) * 16"
    using f64_nearest_binade[OF _ a, unfolded u] by simp
  also have "\<dots> = of_int 6250000000000000 * 16" unfolding m rne_sixteenth ..
  also have "\<dots> = 100000000000000000" by simp
  finally show ?thesis .
qed

lemma f64_round_1e17: "f64_round 100000000000000000 = Fin 100000000000000000"
  by (rule f64_round_small[OF _ _ f64_nearest_1e17]) simp_all

lemma f64_round_1e17_plus_1: "f64_round 100000000000000001 = Fin 100000000000000000"
  by (rule f64_round_small[OF _ _ f64_nearest_1e17_plus_1]) simp_all

lemma denominator_f64_1e17: "denominator_f64 [0, 10 ^ 17] [0, 1] = Fin (10 ^ 17)"
  by (simp add: denominator_f64_def f64_round_0 f64_round_1e17 f64_round_1e17_plus_1)

text \<open>
  Claim C8 (the claim fails). In float64 the sum \<open>1.0 + 1e17\<close> is \<open>1e17\<close>: for the constants
  \<open>[0, 1e17]\<close> and the fugacities \<open>[0, 1]\<close> the occupancy of the guest is exactly 1, not less
  than 1, and so is the sum of the occupancies.
\<close>

theorem occupancy_reaches_one_counterexample:
  "case HvdwpmEos_init quad_milne comps2 T_0 P_0 ''s1'' of
     Some (Inr st) \<Rightarrow> calc_langmuir_f64 st [0, 10 ^ 17] [0, 1] = [Fin 0, Fin 1]
   | _ \<Rightarrow> False"
proof -
  obtain st where st: "HvdwpmEos_init quad_milne comps2 T_0 P_0 ''s1'' = Some (Inr st)"
    using comps2_instance by blast
  note f = comps2_instance_fields[OF st]
  have w: "compname (comps2 ! 0) = ''h2o''" "compname (comps2 ! Suc 0) \<noteq> ''h2o''"
    by (simp_all add: comps2_def h2o_def guest_def)
  have d: "f64_div (Fin (10 ^ 17)) (Fin (10 ^ 17)) = Fin 1"
    by (simp add: f64_round_1)
  have "calc_langmuir_f64 st [0, 10 ^ 17] [0, 1] = [Fin 0, Fin 1]"
    unfolding calc_langmuir_f64_def Let_def denominator_f64_1e17 f(1,2) upt_2
    using w d by (simp add: f64_round_1e17)
  then show ?thesis by (simp add: st)
qed

text \<open>
  Claim C8, as amended. \<open>calc_langmuir\<close> reads only \<open>self.comps\<close> and \<open>self.num_comps\<close> and
  returns a new array. For finite langmuir constants \<open>C\<close> and fugacities \<open>eq_fug\<close> of
  \<open>num_comps\<close> entries that are all non-negative, computed in float64: the denominator
  \<open>1.0 + np.sum(C * eq_fug)\<close> is at least 1 or \<open>+inf\<close>, never zero; the entry of water is 0
  and the entry of every component that is not named \<open>h2o\<close> is the rounded product
  \<open>C[i] * eq_fug[i]\<close> divided by that denominator; every entry is \<open>nan\<close> or lies in \<open>[0, 1]\<close>,
  and lies in \<open>[0, 1]\<close> whenever the denominator is finite. The value 1 is attained. The
  statement is for fewer than eight components, where \<open>np.sum\<close> adds in index order as
  \<open>denominator_f64\<close> does (the proof does not depend on the order of the additions).
\<close>

theorem calc_langmuir_f64_occupancy:
  assumes len: "length C = self_num_comps st" "length eq_fug = self_num_comps st"
    and C: "\<forall>c\<in>set C. 0 \<le> c" and f: "\<forall>f\<in>set eq_fug. 0 \<le> f"
    and n: "self_num_comps st < 8"
  shows "(denominator_f64 C eq_fug = PInf \<or> (\<exists>d. denominator_f64 C eq_fug = Fin d \<and> 1 \<le> d))
       \<and> length (calc_langmuir_f64 st C eq_fug) = self_num_comps st
       \<and> (\<forall>i<self_num_comps st.
            calc_langmuir_f64 st C eq_fug ! i =
              (if compname (self_comps st ! i) \<noteq> ''h2o''
               then f64_div (f64_round (C ! i * eq_fug ! i)) (denominator_f64 C eq_fug)
               else Fin 0)
            \<and> (calc_langmuir_f64 st C eq_fug ! i = NaN
                \<or> (\<exists>y. calc_langmuir_f64 st C eq_fug ! i = Fin y \<and> 0 \<le> y \<and> y \<le> 1))
            \<and> (is_finite (denominator_f64 C eq_fug)
                \<longrightarrow> (\<exists>y. calc_langmuir_f64 st C eq_fug ! i = Fin y \<and> 0 \<le> y \<and> y \<le> 1)))
       \<and> (\<forall>st'. self_comps st' = self_comps st \<and> self_num_comps st' = self_num_comps st
              \<longrightarrow> calc_langmuir_f64 st' C eq_fug = calc_langmuir_f64 st C eq_fug)"
proof -
  note dp = denominator_f64_props[OF C f]
  have den: "denominator_f64 C eq_fug = PInf \<or> (\<exists>d. denominator_f64 C eq_fug = Fin d \<and> 1 \<le> d)"
    using dp(1,2) by (cases "denominator_f64 C eq_fug") (simp_all add: f64_nn_def f64_le_def)
  have l: "length (calc_langmuir_f64 st C eq_fug) = self_num_comps st"
    by (simp add: calc_langmuir_f64_def Let_def)
  have entry: "calc_langmuir_f64 st C eq_fug ! i =
              (if compname (self_comps st ! i) \<noteq> ''h2o''
               then f64_div (f64_round (C ! i * eq_fug ! i)) (denominator_f64 C eq_fug)
               else Fin 0)
            \<and> (calc_langmuir_f64 st C eq_fug ! i = NaN
                \<or> (\<exists>y. calc_langmuir_f64 st C eq_fug ! i = Fin y \<and> 0 \<le> y \<and> y \<le> 1))
            \<and> (is_finite (denominator_f64 C eq_fug)
                \<longrightarrow> (\<exists>y. calc_langmuir_f64 st C eq_fug ! i = Fin y \<and> 0 \<le> y \<and> y \<le> 1))"
    if i: "i < self_num_comps st" for i
  proof (cases "compname (self_comps st ! i) \<noteq> ''h2o''")
    case True
    have e: "calc_langmuir_f64 st C eq_fug ! i
               = f64_div (f64_round (C ! i * eq_fug ! i)) (denominator_f64 C eq_fug)"
      unfolding calc_langmuir_f64_nth[OF i] using True by simp
    have iC: "i < length C" and le: "length eq_fug = length C" using i len by simp_all
    have mem: "f64_round (C ! i * eq_fug ! i) \<in> set (map2 (\<lambda>c f. f64_round (c * f)) C eq_fug)"
      by (rule product_in_set[OF iC le])
    have pn: "f64_nn (f64_round (C ! i * eq_fug ! i))"
      using products_nn[OF C f] mem by blast
    have pl: "f64_le (f64_round (C ! i * eq_fug ! i)) (denominator_f64 C eq_fug)"
      using dp(3) mem by blast
    note u = f64_div_unit[OF pn dp(1) pl dp(2)]
    show ?thesis unfolding e if_P[OF True] using u by blast
  next
    case False
    have e: "calc_langmuir_f64 st C eq_fug ! i = Fin 0"
      unfolding calc_langmuir_f64_nth[OF i] using False by simp
    show ?thesis unfolding e using False by simp
  qed
  have pure: "calc_langmuir_f64 st' C eq_fug = calc_langmuir_f64 st C eq_fug"
    if "self_comps st' = self_comps st \<and> self_num_comps st' = self_num_comps st" for st' :: Eos
    using that by (simp add: calc_langmuir_f64_def)
  from den l entry pure show ?thesis by blast
qed

lemma f64_nearest_exact:
  assumes "0 < x" "2 powr of_int e \<le> x" "x < 2 powr (of_int e + 1)" "- 1022 \<le> e"
    "x / 2 powr (of_int e - 52) = of_int n"
  shows "f64_nearest x = x"
proof -
  have "f64_nearest x = of_int n * 2 powr (of_int e - 52)"
    unfolding f64_nearest_binade[OF assms(1-4)] assms(5) rne_of_int ..
  also have "\<dots> = x" unfolding assms(5)[symmetric] by simp
  finally show ?thesis .
qed

lemma f64_round_three_halves: "f64_round (3 / 2) = Fin (3 / 2)"
proof -
  have a: "(2::real) powr of_int 0 \<le> 3 / 2" "(3 / 2 :: real) < 2 powr (of_int 0 + 1)"
    by simp_all
  have m: "(3 / 2 :: real) / 2 powr (of_int 0 - 52) = of_int (3 * 2 ^ 51)"
    by (simp add: powr_minus field_simps)
  have "f64_nearest (3 / 2) = 3 / 2"
    by (rule f64_nearest_exact[OF _ a _ m]) simp_all
  then show ?thesis by (intro f64_round_small) simp_all
qed

lemma f64_round_five_halves: "f64_round (5 / 2) = Fin (5 / 2)"
proof -
  have a: "(2::real) powr of_int 1 \<le> 5 / 2" "(5 / 2 :: real) < 2 powr (of_int 1 + 1)"
    by simp_all
  have m: "(5 / 2 :: real) / 2 powr (of_int 1 - 52) = of_int (5 * 2 ^ 50)"
    by (simp add: powr_minus field_simps)
  have "f64_nearest (5 / 2) = 5 / 2"
    by (rule f64_nearest_exact[OF _ a _ m]) simp_all
  then show ?thesis by (intro f64_round_small) simp_all
qed

lemma denominator_f64_example: "denominator_f64 [0, 3] [0, 1 / 2] = Fin (5 / 2)"
  by (simp add: denominator_f64_def f64_round_0 f64_round_three_halves f64_round_five_halves)

theorem calc_langmuir_f64_occupancy_witness:
  "case HvdwpmEos_init quad_milne comps2 T_0 P_0 ''s1'' of
     Some (Inr st) \<Rightarrow>
       length [0, 3 :: real] = self_num_comps st \<and> length [0, 1 / 2 :: real] = self_num_comps st
       \<and> (\<forall>c\<in>set [0, 3 :: real]. 0 \<le> c) \<and> (\<forall>f\<in>set [0, 1 / 2 :: real]. 0 \<le> f)
       \<and> self_num_comps st < 8
       \<and> denominator_f64 [0, 3] [0, 1 / 2] = Fin (5 / 2)
       \<and> length (calc_langmuir_f64 st [0, 3] [0, 1 / 2]) = 2
       \<and> calc_langmuir_f64 st [0, 3] [0, 1 / 2] ! 0 = Fin 0
       \<and> calc_langmuir_f64 st [0, 3] [0, 1 / 2] ! 1 = f64_div (Fin (3 / 2)) (Fin (5 / 2))
       \<and> (\<exists>y. calc_langmuir_f64 st [0, 3] [0, 1 / 2] ! 1 = Fin y \<and> 0 \<le> y \<and> y \<le> 1)
   | _ \<Rightarrow> False"
proof -
  obtain st where st: "HvdwpmEos_init quad_milne comps2 T_0 P_0 ''s1'' = Some (Inr st)"
    using comps2_instance by blast
  note f = comps2_instance_fields[OF st]
  have h: "length [0, 3 :: real] = self_num_comps st" "length [0, 1 / 2 :: real] = self_num_comps st"
    "\<forall>c\<in>set [0, 3 :: real]. 0 \<le> c" "\<forall>f\<in>set [0, 1 / 2 :: real]. 0 \<le> f"
    using f by simp_all
  have i: "(0::nat) < self_num_comps st" "(1::nat) < self_num_comps st" using f by simp_all
  have n8: "self_num_comps st < 8" using f by simp
  note occ = calc_langmuir_f64_occupancy[OF h n8]
  note l = occ[THEN conjunct2, THEN conjunct1]
  note nth = occ[THEN conjunct2, THEN conjunct2, THEN conjunct1]
  have fin: "is_finite (denominator_f64 [0, 3] [0, 1 / 2])"
    unfolding denominator_f64_example by simp
  have w: "compname (self_comps st ! 0) = ''h2o''" "compname (self_comps st ! 1) \<noteq> ''h2o''"
    unfolding f by (simp_all add: comps2_def h2o_def guest_def)
  have n0: "calc_langmuir_f64 st [0, 3] [0, 1 / 2] ! 0 = Fin 0"
    using nth[rule_format, OF i(1), THEN conjunct1] w(1) by simp
  have p: "f64_round ([0, 3] ! 1 * [0, 1 / 2] ! 1) = Fin (3 / 2)"
    using f64_round_three_halves by simp
  have n1: "calc_langmuir_f64 st [0, 3] [0, 1 / 2] ! 1 = f64_div (Fin (3 / 2)) (Fin (5 / 2))"
    using nth[rule_format, OF i(2), THEN conjunct1]
    unfolding if_P[OF w(2)] p denominator_f64_example .
  have n2: "\<exists>y. calc_langmuir_f64 st [0, 3] [0, 1 / 2] ! 1 = Fin y \<and> 0 \<le> y \<and> y \<le> 1"
    using nth[rule_format, OF i(2), THEN conjunct2, THEN conjunct2] fin by blast
  have l2: "length (calc_langmuir_f64 st [0, 3] [0, 1 / 2]) = 2" using l f by simp
  have res: "length [0, 3 :: real] = self_num_comps st \<and> length [0, 1 / 2 :: real] = self_num_comps st
       \<and> (\<forall>c\<in>set [0, 3 :: real]. 0 \<le> c) \<and> (\<forall>f\<in>set [0, 1 / 2 :: real]. 0 \<le> f)
       \<and> self_num_comps st < 8
       \<and> denominator_f64 [0, 3] [0, 1 / 2] = Fin (5 / 2)
       \<and> length (calc_langmuir_f64 st [0, 3] [0, 1 / 2]) = 2
       \<and> calc_langmuir_f64 st [0, 3] [0, 1 / 2] ! 0 = Fin 0
       \<and> calc_langmuir_f64 st [0, 3] [0, 1 / 2] ! 1 = f64_div (Fin (3 / 2)) (Fin (5 / 2))
       \<and> (\<exists>y. calc_langmuir_f64 st [0, 3] [0, 1 / 2] ! 1 = Fin y \<and> 0 \<le> y \<and> y \<le> 1)"
    using h n8 denominator_f64_example l2 n0 n1 n2 by (intro conjI)
  show ?thesis unfolding st option.case sum.case by (rule res)
qed

end
